theory Spec2Isabelle
  imports Main "HOL-Library.Sublist"
begin

section \<open>Python string primitives used by the migration agent\<close>

text \<open>
  Strings are \<^typ>\<open>string\<close>, one \<^typ>\<open>char\<close> per character. The case
  conversions, \<open>isalnum\<close> and the decimal rendering are modelled on ASCII text, which is
  what the catalog names in the analysed properties consist of; a character with code
  128 or more is left unchanged by the case conversions and counts as not alphanumeric.
\<close>

definition ascii_uppercase :: string where
  "ascii_uppercase = ''ABCDEFGHIJKLMNOPQRSTUVWXYZ''"

definition ascii_lowercase :: string where
  "ascii_lowercase = ''abcdefghijklmnopqrstuvwxyz''"

definition ascii_digits :: string where
  "ascii_digits = ''0123456789''"

definition lower_char :: "char \<Rightarrow> char" where
  "lower_char c =
     (case map_of (zip ascii_uppercase ascii_lowercase) c of Some d \<Rightarrow> d | None \<Rightarrow> c)"

definition upper_char :: "char \<Rightarrow> char" where
  "upper_char c =
     (case map_of (zip ascii_lowercase ascii_uppercase) c of Some d \<Rightarrow> d | None \<Rightarrow> c)"

definition py_lower :: "string \<Rightarrow> string" where
  "py_lower s = map lower_char s"

definition py_upper :: "string \<Rightarrow> string" where
  "py_upper s = map upper_char s"

definition isalnum_char :: "char \<Rightarrow> bool" where
  "isalnum_char c = (c \<in> set (ascii_lowercase @ ascii_uppercase @ ascii_digits))"

text \<open>\<open>s.isalnum()\<close>: false on the empty string.\<close>

definition py_isalnum :: "string \<Rightarrow> bool" where
  "py_isalnum s = (s \<noteq> [] \<and> list_all isalnum_char s)"

text \<open>\<open>sub in s\<close> for strings: \<open>sub\<close> occurs as a contiguous run of \<open>s\<close>.\<close>

fun py_in :: "string \<Rightarrow> string \<Rightarrow> bool" where
  "py_in sub [] = (sub = [])"
| "py_in sub (c # s) = (take (length sub) (c # s) = sub \<or> py_in sub s)"

definition startswith :: "string \<Rightarrow> string \<Rightarrow> bool" where
  "startswith s p = (take (length p) s = p)"

definition endswith :: "string \<Rightarrow> string \<Rightarrow> bool" where
  "endswith s p = (length p \<le> length s \<and> drop (length s - length p) s = p)"

text \<open>\<open>s.replace(old, new)\<close> for a one-character \<open>old\<close>.\<close>

definition replace_char :: "char \<Rightarrow> string \<Rightarrow> string \<Rightarrow> string" where
  "replace_char old new s = concat (map (\<lambda>c. if c = old then new else [c]) s)"

text \<open>\<open>s.split(sep)\<close> for a one-character \<open>sep\<close>: never empty, one more part than separators.\<close>

fun split_char :: "char \<Rightarrow> string \<Rightarrow> string list" where
  "split_char sep [] = [[]]"
| "split_char sep (c # s) =
     (if c = sep then [] # split_char sep s
      else (case split_char sep s of
              [] \<Rightarrow> [[c]]
            | p # ps \<Rightarrow> (c # p) # ps))"

text \<open>\<open>sep.join(parts)\<close>.\<close>

fun join :: "string \<Rightarrow> string list \<Rightarrow> string" where
  "join sep [] = []"
| "join sep [p] = p"
| "join sep (p # q # ps) = p @ sep @ join sep (q # ps)"

text \<open>\<open>str(n)\<close> for an integer: decimal digits, a leading minus sign when negative.\<close>

definition digit_char :: "nat \<Rightarrow> char" where
  "digit_char d = ascii_digits ! (d mod 10)"

fun str_nat :: "nat \<Rightarrow> string" where
  "str_nat n = (if n < 10 then [digit_char n] else str_nat (n div 10) @ [digit_char (n mod 10)])"

declare str_nat.simps [simp del]

definition str_int :: "int \<Rightarrow> string" where
  "str_int i = (if i < 0 then CHR ''-'' # str_nat (nat (- i)) else str_nat (nat i))"

text \<open>The format specification \<open>{n:04d}\<close> for a non-negative \<open>n\<close>: zero-padded on the
  left to at least four digits, longer numbers are not truncated.\<close>

definition fmt_04d :: "nat \<Rightarrow> string" where
  "fmt_04d n = replicate (4 - length (str_nat n)) CHR ''0'' @ str_nat n"

section \<open>Type mapper (snowflake\_generator.py)\<close>

text \<open>The class constant \<open>TYPE_MAP\<close>, in source order.\<close>

definition TYPE_MAP :: "(string \<times> string) list" where
  "TYPE_MAP =
    [(''smallint'', ''NUMBER(5,0)''), (''integer'', ''NUMBER(10,0)''),
     (''bigint'', ''NUMBER(19,0)''), (''decimal'', ''NUMBER''), (''numeric'', ''NUMBER''),
     (''real'', ''FLOAT''), (''double precision'', ''FLOAT''),
     (''smallserial'', ''NUMBER(5,0)''), (''serial'', ''NUMBER(10,0)''),
     (''bigserial'', ''NUMBER(19,0)''), (''money'', ''NUMBER(19,4)''),
     (''character varying'', ''VARCHAR''), (''varchar'', ''VARCHAR''),
     (''character'', ''CHAR''), (''char'', ''CHAR''), (''text'', ''VARCHAR''),
     (''bytea'', ''BINARY''),
     (''timestamp without time zone'', ''TIMESTAMP_NTZ''),
     (''timestamp with time zone'', ''TIMESTAMP_TZ''),
     (''timestamp'', ''TIMESTAMP_NTZ''), (''timestamptz'', ''TIMESTAMP_TZ''),
     (''date'', ''DATE''), (''time without time zone'', ''TIME''),
     (''time with time zone'', ''TIME''), (''time'', ''TIME''), (''interval'', ''VARCHAR''),
     (''boolean'', ''BOOLEAN''), (''bool'', ''BOOLEAN''),
     (''json'', ''VARIANT''), (''jsonb'', ''VARIANT''),
     (''uuid'', ''VARCHAR(36)''),
     (''inet'', ''VARCHAR(45)''), (''cidr'', ''VARCHAR(45)''), (''macaddr'', ''VARCHAR(17)''),
     (''point'', ''VARCHAR''), (''line'', ''VARCHAR''), (''lseg'', ''VARCHAR''),
     (''box'', ''VARCHAR''), (''path'', ''VARCHAR''), (''polygon'', ''VARCHAR''),
     (''circle'', ''VARCHAR''),
     (''ARRAY'', ''VARIANT''), (''USER-DEFINED'', ''VARCHAR'')]"

text \<open>The separator the source writes between the two types of a standard mapping: the
  three characters of the source literal, as their UTF-8 bytes.\<close>

definition mapping_arrow :: string where
  "mapping_arrow = [CHR 0xC3, CHR 0xA2, CHR 0xE2,
     CHR 0x80, CHR 0xA0, CHR 0xE2, CHR 0x80,
     CHR 0x99]"

text \<open>Python truthiness of an optional integer: \<open>None\<close> and \<open>0\<close> are false.\<close>

definition truthy_int :: "int option \<Rightarrow> bool" where
  "truthy_int v = (case v of None \<Rightarrow> False | Some n \<Rightarrow> n \<noteq> 0)"

text \<open>\<open>f'{v}'\<close> for an optional integer or string.\<close>

definition fmt_int_opt :: "int option \<Rightarrow> string" where
  "fmt_int_opt v = (case v of None \<Rightarrow> ''None'' | Some n \<Rightarrow> str_int n)"

definition fmt_str_opt :: "string option \<Rightarrow> string" where
  "fmt_str_opt v = (case v of None \<Rightarrow> ''None'' | Some s \<Rightarrow> s)"

text \<open>\<open>TypeMapper.map_type\<close>: the pair (snowflake type, rationale). The warning the
  last branch logs is not part of the result.\<close>

definition map_type ::
  "string \<Rightarrow> string option \<Rightarrow> int option \<Rightarrow> int option \<Rightarrow> int option \<Rightarrow> string \<times> string"
where
  "map_type pg_type udt_name char_max_length numeric_precision numeric_scale =
    (let pg_type_lower = py_lower pg_type in
     if py_in ''[]'' pg_type \<or> pg_type = ''ARRAY'' then
       (''VARIANT'', ''PostgreSQL array mapped to VARIANT for semi-structured storage'')
     else if pg_type_lower \<in> set [''numeric'', ''decimal''] then
       (let sf_type =
          (if truthy_int numeric_precision \<and> numeric_scale \<noteq> None then
             ''NUMBER('' @ fmt_int_opt numeric_precision @ '','' @ fmt_int_opt numeric_scale @ '')''
           else if truthy_int numeric_precision then
             ''NUMBER('' @ fmt_int_opt numeric_precision @ '',0)''
           else ''NUMBER(38,0)'')
        in (sf_type, ''PostgreSQL '' @ pg_type @ '' with precision/scale preserved''))
     else if pg_type_lower \<in> set [''character varying'', ''varchar'', ''character'', ''char''] then
       (case char_max_length of
          Some n \<Rightarrow>
            if n \<noteq> 0 then
              (if n > 16777216 then
                 (''VARCHAR'',
                  ''PostgreSQL '' @ pg_type @ ''('' @ str_int n
                    @ '') exceeds Snowflake max; using VARCHAR(16777216)'')
               else
                 (''VARCHAR('' @ str_int n @ '')'',
                  ''PostgreSQL '' @ pg_type @ '' with length preserved''))
            else (''VARCHAR'', ''PostgreSQL '' @ pg_type @ '' mapped to VARCHAR'')
        | None \<Rightarrow> (''VARCHAR'', ''PostgreSQL '' @ pg_type @ '' mapped to VARCHAR''))
     else if pg_type_lower = ''text'' then
       (''VARCHAR'', ''PostgreSQL TEXT mapped to VARCHAR (unlimited)'')
     else (case map_of TYPE_MAP pg_type_lower of
         Some sf_type \<Rightarrow>
           (sf_type, ''Standard mapping: '' @ pg_type @ '' '' @ mapping_arrow @ '' '' @ sf_type)
       | None \<Rightarrow>
           if pg_type = ''USER-DEFINED'' then
             (''VARCHAR'', ''User-defined type ('' @ fmt_str_opt udt_name
                @ '') mapped to VARCHAR; consider adding validation'')
           else
             (''VARCHAR'', ''Unknown type '' @ pg_type @ '' mapped to VARCHAR (needs review)'')))"

section \<open>Request model (models.py)\<close>

datatype DataFormat = CSV | PARQUET

datatype CaseStyle = UPPER | LOWER | PRESERVE

datatype MigrationStatus =
    PENDING | ANALYZING | PLANNING | AWAITING_CONFIRMATION | EXECUTING | VALIDATING
  | COMPLETED | FAILED | CANCELLED

text \<open>\<open>MigrationPreferences\<close>; \<open>cluster_key_hints\<close> is a dictionary from table name to
  column names.\<close>

record MigrationPreferences =
  format :: DataFormat
  max_chunk_mb :: int
  parallelism :: int
  use_identity_for_serial :: bool
  cluster_key_hints :: "string \<rightharpoonup> string list"
  case_style :: CaseStyle
  dry_run :: bool

section \<open>Analysis model (the dictionaries postgres\_analyzer.py produces)\<close>

text \<open>One row of the column query. SQL \<open>NULL\<close> is \<open>None\<close>.\<close>

record column =
  column_name :: string
  data_type :: string
  udt_name :: "string option"
  character_maximum_length :: "int option"
  numeric_precision :: "int option"
  numeric_scale :: "int option"
  is_nullable :: string
  column_default :: "string option"
  is_identity :: string
  identity_start :: "string option"
  identity_increment :: "string option"
  column_comment :: "string option"
  serial_sequence :: "string option"

record key_constraint =
  constraint_name :: string
  key_columns :: "string list"

record foreign_key =
  fk_constraint_name :: string
  fk_column_name :: string
  foreign_table_schema :: string
  foreign_table_name :: string
  foreign_column_name :: string

record constraints =
  primary_keys :: "key_constraint list"
  unique_keys :: "key_constraint list"
  foreign_keys :: "foreign_key list"

record table_metadata =
  total_size_bytes :: "int option"
  approximate_row_count :: "int option"
  table_comment :: "string option"

record trigger =
  trigger_name :: string

record table_detail =
  table_name :: string
  table_meta :: table_metadata
  columns :: "column list"
  table_constraints :: constraints
  triggers :: "trigger list"

record sequence =
  sequence_name :: string
  start_value :: "string option"
  increment :: "string option"

record view =
  view_name :: string
  view_definition :: string

record pg_function =
  function_name :: string
  routine_type :: string

record schema_detail =
  schema_name :: string
  tables :: "table_detail list"
  sequences :: "sequence list"
  views :: "view list"
  schema_functions :: "pg_function list"

record analysis_metadata =
  analysis_timestamp :: string
  database :: string

record analysis =
  metadata :: analysis_metadata
  schemas :: "schema_detail list"

text \<open>Python truthiness of an optional string: \<open>None\<close> and the empty string are false.\<close>

definition truthy_str :: "string option \<Rightarrow> bool" where
  "truthy_str v = (case v of None \<Rightarrow> False | Some s \<Rightarrow> s \<noteq> [])"

section \<open>DDL emitter (snowflake\_generator.py)\<close>

definition dquote :: string where
  "dquote = [CHR 0x22]"

definition squote :: string where
  "squote = [CHR 0x27]"

definition newline :: string where
  "newline = [CHR 0x0A]"

text \<open>The exceptions the emitter can raise on a well-typed analysis model: comparing a
  \<open>NULL\<close> table size with a number, and reading the loop variable \<open>col_name\<close> of a
  table that has no column.\<close>

datatype gen_error = TypeError | UnboundLocalError

record MappingDecision =
  md_schema :: string
  md_table :: string
  md_column :: string
  postgres_type :: string
  snowflake_type :: string
  rationale :: string
  nullable :: bool
  has_default :: bool
  md_is_identity :: bool

text \<open>An entry of \<open>improvement_recommendations\<close>. Its \<open>recommendation\<close> text renders the
  table size as a floating-point number of GB; the entry keeps the size in bytes it is
  rendered from.\<close>

record recommendation =
  rec_type :: string
  rec_table :: string
  rec_size_bytes :: int

text \<open>The fields of a \<open>SnowflakeGenerator\<close> instance.\<close>

record SnowflakeGenerator =
  gen_analysis :: analysis
  preferences :: MigrationPreferences
  mapping_decisions :: "MappingDecision list"
  ddl_statements :: "string list"
  improvement_recommendations :: "recommendation list"

definition SnowflakeGenerator_init :: "analysis \<Rightarrow> MigrationPreferences \<Rightarrow> SnowflakeGenerator" where
  "SnowflakeGenerator_init a prefs =
     \<lparr>gen_analysis = a, preferences = prefs, mapping_decisions = [], ddl_statements = [],
      improvement_recommendations = []\<rparr>"

definition normalize_identifier :: "CaseStyle \<Rightarrow> string \<Rightarrow> string" where
  "normalize_identifier cs name =
     (case cs of UPPER \<Rightarrow> py_upper name | LOWER \<Rightarrow> py_lower name | PRESERVE \<Rightarrow> name)"

text \<open>The set literal \<open>snowflake_reserved\<close> inside \<open>quote_identifier\<close>.\<close>

definition quote_reserved :: "string list" where
  "quote_reserved =
    [''ACCOUNT'', ''ALL'', ''ALTER'', ''AND'', ''ANY'', ''AS'', ''BETWEEN'',
     ''BY'', ''CASE'', ''CAST'', ''CHECK'', ''COLUMN'', ''CONNECT'', ''COPY'',
     ''CREATE'', ''CURRENT'', ''DATABASE'', ''DELETE'', ''DISTINCT'', ''DROP'']"

definition quote_identifier :: "CaseStyle \<Rightarrow> string \<Rightarrow> string" where
  "quote_identifier cs name =
     (let normalized = normalize_identifier cs name in
      if py_upper normalized \<in> set quote_reserved
         \<or> \<not> py_isalnum (replace_char CHR ''_'' [] normalized)
      then dquote @ normalized @ dquote
      else normalized)"

definition generate_database_ddl :: "CaseStyle \<Rightarrow> string \<Rightarrow> string list" where
  "generate_database_ddl cs database_name =
     (let db_name = quote_identifier cs database_name in
      [''-- Database: '' @ db_name,
       ''CREATE DATABASE IF NOT EXISTS '' @ db_name @ '';'',
       ''USE DATABASE '' @ db_name @ '';'',
       []])"

definition generate_schema_ddl :: "CaseStyle \<Rightarrow> string \<Rightarrow> string list" where
  "generate_schema_ddl cs schema_nm =
     (let schema = quote_identifier cs schema_nm in
      [''-- Schema: '' @ schema,
       ''CREATE SCHEMA IF NOT EXISTS '' @ schema @ '';'',
       []])"

text \<open>\<open>v or 1\<close> inside an f-string, for an optional text value.\<close>

definition or_1 :: "string option \<Rightarrow> string" where
  "or_1 v = (if truthy_str v then the v else ''1'')"

definition generate_sequence_ddl :: "CaseStyle \<Rightarrow> string \<Rightarrow> sequence \<Rightarrow> string" where
  "generate_sequence_ddl cs schema_nm sq =
     (let schema = quote_identifier cs schema_nm;
          seq_name = quote_identifier cs (sequence_name sq);
          start = or_1 (start_value sq);
          incr = or_1 (increment sq)
      in ''CREATE SEQUENCE IF NOT EXISTS '' @ schema @ ''.'' @ seq_name
           @ '' START = '' @ start @ '' INCREMENT = '' @ incr @ '';'')"

text \<open>The column line of \<open>generate_table_ddl\<close>'s loop body. \<open>the\<close> is applied only
  under the truthiness test of the same value, and \<open>last\<close> and \<open>! 1\<close> only to a
  \<open>split\<close> that has that many parts.\<close>

definition column_def :: "MigrationPreferences \<Rightarrow> string \<Rightarrow> column \<Rightarrow> string" where
  "column_def prefs schema col =
    (let cs = case_style prefs;
         col_name = quote_identifier cs (column_name col);
         sf_type = fst (map_type (data_type col) (udt_name col) (character_maximum_length col)
                          (numeric_precision col) (numeric_scale col));
         col_def0 = ''    '' @ col_name @ '' '' @ sf_type;
         col_def1 =
           (if is_identity col = ''YES'' \<and> use_identity_for_serial prefs then
              col_def0 @ '' IDENTITY('' @ or_1 (identity_start col) @ '', ''
                @ or_1 (identity_increment col) @ '')''
            else if truthy_str (serial_sequence col) then
              (let seq_name = last (split_char CHR ''.'' (the (serial_sequence col)))
               in col_def0 @ '' DEFAULT '' @ schema @ ''.'' @ quote_identifier cs seq_name
                    @ ''.NEXTVAL'')
            else if truthy_str (column_default col) then
              (let default_val = the (column_default col) in
               if startswith default_val ''nextval('' then
                 (let seq_match =
                        (if py_in squote default_val
                         then Some (split_char (CHR 0x27) default_val ! 1)
                         else None)
                  in if truthy_str seq_match then
                       (let seq_name = last (split_char CHR ''.'' (the seq_match))
                        in col_def0 @ '' DEFAULT '' @ schema @ ''.''
                             @ quote_identifier cs seq_name @ ''.NEXTVAL'')
                     else col_def0)
               else if \<not> startswith (py_lower default_val) ''nextval'' then
                 col_def0 @ '' DEFAULT '' @ default_val
               else col_def0)
            else col_def0);
         col_def2 = (if is_nullable col = ''NO'' then col_def1 @ '' NOT NULL'' else col_def1);
         col_def3 =
           (if truthy_str (column_comment col) then
              col_def2 @ '' COMMENT '' @ squote
                @ replace_char (CHR 0x27) (squote @ squote) (the (column_comment col))
                @ squote
            else col_def2)
     in col_def3)"

text \<open>The mapping decision the loop body records for the column.\<close>

definition column_mapping :: "string \<Rightarrow> string \<Rightarrow> column \<Rightarrow> MappingDecision" where
  "column_mapping schema_nm table_nm col =
    (let (sf_type, why) = map_type (data_type col) (udt_name col) (character_maximum_length col)
                            (numeric_precision col) (numeric_scale col)
     in \<lparr>md_schema = schema_nm, md_table = table_nm, md_column = column_name col,
         postgres_type = data_type col, snowflake_type = sf_type, rationale = why,
         nullable = (is_nullable col = ''YES''),
         has_default = (column_default col \<noteq> None),
         md_is_identity = (is_identity col = ''YES'')\<rparr>)"

definition key_line :: "CaseStyle \<Rightarrow> string \<Rightarrow> key_constraint \<Rightarrow> string" where
  "key_line cs kind k =
     '','' @ newline @ ''    CONSTRAINT '' @ quote_identifier cs (constraint_name k) @ '' ''
       @ kind @ '' ('' @ join '', '' (map (quote_identifier cs) (key_columns k)) @ '')''"

text \<open>The end of \<open>generate_table_ddl\<close>, from \<open>ddl += ";"\<close> on. The foreign-key comment
  lines read \<open>col_name\<close>, the variable of the column loop: the last column's quoted
  name, and unbound when the table has no column.\<close>

definition table_ddl_tail :: "CaseStyle \<Rightarrow> string \<Rightarrow> table_detail \<Rightarrow> string \<Rightarrow> gen_error + string" where
  "table_ddl_tail cs full_table_name td ddl =
    (let ddl1 = ddl @ '';'';
         ddl2 =
           (if truthy_str (table_comment (table_meta td)) then
              ddl1 @ newline @ ''COMMENT ON TABLE '' @ full_table_name @ '' IS '' @ squote
                @ replace_char (CHR 0x27) (squote @ squote)
                    (the (table_comment (table_meta td)))
                @ squote @ '';''
            else ddl1)
     in if foreign_keys (table_constraints td) \<noteq> [] then
          (if columns td = [] then Inl UnboundLocalError
           else
             (let col_name = quote_identifier cs (column_name (last (columns td)));
                  fk_line = (\<lambda>fk.
                    newline @ ''-- '' @ quote_identifier cs (fk_constraint_name fk) @ '': ''
                      @ col_name @ '' REFERENCES ''
                      @ quote_identifier cs (foreign_table_schema fk) @ ''.''
                      @ quote_identifier cs (foreign_table_name fk)
                      @ ''('' @ quote_identifier cs (foreign_column_name fk) @ '')'')
              in Inr (ddl2 @ newline @ newline
                   @ ''-- Foreign key constraints (for documentation; not enforced on standard tables):''
                   @ concat (map fk_line (foreign_keys (table_constraints td))))))
        else Inr ddl2)"

text \<open>The start of \<open>generate_table_ddl\<close>: the \<open>CREATE TABLE\<close> text with the column
  lines and the key constraints, up to the closing parenthesis.\<close>

definition table_ddl_head :: "MigrationPreferences \<Rightarrow> string \<Rightarrow> table_detail \<Rightarrow> string" where
  "table_ddl_head prefs schema_nm td =
    (let cs = case_style prefs;
         schema = quote_identifier cs schema_nm;
         tbl = quote_identifier cs (table_name td);
         full_table_name = schema @ ''.'' @ tbl;
         column_defs = map (column_def prefs schema) (columns td);
         ddl0 = ''CREATE TABLE IF NOT EXISTS '' @ full_table_name @ '' ('' @ newline
                  @ join ('','' @ newline) column_defs;
         ddl1 = (case primary_keys (table_constraints td) of
                   [] \<Rightarrow> ddl0
                 | pk # _ \<Rightarrow> ddl0 @ key_line cs ''PRIMARY KEY'' pk);
         ddl2 = foldl (\<lambda>d uk. d @ key_line cs ''UNIQUE'' uk) ddl1
                  (unique_keys (table_constraints td))
     in ddl2 @ newline @ '')'')"

text \<open>\<open>generate_table_ddl\<close>: the result (the DDL text and the table's mapping
  decisions, or the exception raised) and the generator afterwards, whose
  \<open>improvement_recommendations\<close> the function may have extended.\<close>

definition generate_table_ddl ::
  "SnowflakeGenerator \<Rightarrow> string \<Rightarrow> table_detail
     \<Rightarrow> (gen_error + string \<times> MappingDecision list) \<times> SnowflakeGenerator"
where
  "generate_table_ddl g schema_nm td =
    (let prefs = preferences g;
         cs = case_style prefs;
         full_table_name =
           quote_identifier cs schema_nm @ ''.'' @ quote_identifier cs (table_name td);
         column_mappings = map (column_mapping schema_nm (table_name td)) (columns td);
         ddl3 = table_ddl_head prefs schema_nm td;
         finish = (\<lambda>g' ddl.
           case table_ddl_tail cs full_table_name td ddl of
             Inl e \<Rightarrow> (Inl e, g')
           | Inr text \<Rightarrow> (Inr (text, column_mappings), g'))
     in case cluster_key_hints prefs (table_name td) of
          Some (c # cs') \<Rightarrow>
            finish g (ddl3 @ newline @ ''CLUSTER BY (''
                        @ join '', '' (map (quote_identifier cs) (c # cs')) @ '')'')
        | _ \<Rightarrow>
            (case total_size_bytes (table_meta td) of
               None \<Rightarrow> (Inl TypeError, g)
             | Some size_bytes \<Rightarrow>
                 if size_bytes > 10 * 1024 * 1024 * 1024 then
                   finish
                     (g\<lparr>improvement_recommendations := improvement_recommendations g @
                          [\<lparr>rec_type = ''CLUSTER_KEY'', rec_table = full_table_name,
                            rec_size_bytes = size_bytes\<rparr>]\<rparr>)
                     ddl3
                 else finish g ddl3))"

definition generate_view_ddl :: "CaseStyle \<Rightarrow> string \<Rightarrow> view \<Rightarrow> string" where
  "generate_view_ddl cs schema_nm v =
    (let schema = quote_identifier cs schema_nm;
         vname = quote_identifier cs (view_name v)
     in ''-- View: '' @ schema @ ''.'' @ vname @ newline
        @ ''-- Original PostgreSQL definition:'' @ newline
        @ ''-- '' @ view_definition v @ newline
        @ ''-- TODO: Review and transform PostgreSQL-specific syntax for Snowflake'' @ newline
        @ ''-- CREATE OR REPLACE VIEW '' @ schema @ ''.'' @ vname @ '' AS'' @ newline
        @ ''-- <transformed_query>;'' @ newline)"

definition backslash :: string where
  "backslash = [CHR 0x5C]"

definition generate_stage_and_format :: "MigrationPreferences \<Rightarrow> string \<Rightarrow> string \<Rightarrow> string list" where
  "generate_stage_and_format prefs stage_name file_format_name =
    (let cs = case_style prefs;
         stage = quote_identifier cs stage_name;
         file_format = quote_identifier cs file_format_name;
         statements =
           [''-- Internal stage for data loading'',
            ''CREATE STAGE IF NOT EXISTS '' @ stage @ '';'',
            []]
     in if format prefs = CSV then
          statements @
          [''-- File format for CSV'',
           ''CREATE FILE FORMAT IF NOT EXISTS '' @ file_format,
           ''    TYPE = '' @ squote @ ''CSV'' @ squote,
           ''    COMPRESSION = '' @ squote @ ''GZIP'' @ squote,
           ''    FIELD_DELIMITER = '' @ squote @ '','' @ squote,
           ''    RECORD_DELIMITER = '' @ squote @ backslash @ ''n'' @ squote,
           ''    SKIP_HEADER = 1'',
           ''    FIELD_OPTIONALLY_ENCLOSED_BY = '' @ squote @ dquote @ squote,
           ''    TRIM_SPACE = TRUE'',
           ''    ERROR_ON_COLUMN_COUNT_MISMATCH = FALSE'',
           ''    ESCAPE = '' @ squote @ ''NONE'' @ squote,
           ''    ESCAPE_UNENCLOSED_FIELD = '' @ squote @ backslash @ backslash @ squote,
           ''    DATE_FORMAT = '' @ squote @ ''AUTO'' @ squote,
           ''    TIMESTAMP_FORMAT = '' @ squote @ ''AUTO'' @ squote,
           ''    NULL_IF = ('' @ squote @ backslash @ backslash @ ''N'' @ squote @ '', ''
              @ squote @ ''NULL'' @ squote @ '', '' @ squote @ ''null'' @ squote @ '', ''
              @ squote @ squote @ '');'',
           []]
        else
          statements @
          [''-- File format for Parquet'',
           ''CREATE FILE FORMAT IF NOT EXISTS '' @ file_format,
           ''    TYPE = '' @ squote @ ''PARQUET'' @ squote,
           ''    COMPRESSION = '' @ squote @ ''SNAPPY'' @ squote @ '';'',
           []])"

text \<open>The dictionary \<open>snowflake_config\<close> that \<open>plan\<close> passes to the generator.\<close>

record snowflake_target =
  cfg_database :: string
  cfg_stage :: string
  cfg_file_format :: string

text \<open>The table loop of \<open>generate_complete_ddl\<close>: the lines appended, and the generator
  with the table's mapping decisions appended to \<open>mapping_decisions\<close>. An exception
  leaves the loop with what was recorded until then.\<close>

fun tables_ddl ::
  "SnowflakeGenerator \<Rightarrow> string \<Rightarrow> table_detail list
     \<Rightarrow> (gen_error + string list) \<times> SnowflakeGenerator"
where
  "tables_ddl g schema_nm [] = (Inr [], g)"
| "tables_ddl g schema_nm (td # tds) =
     (case generate_table_ddl g schema_nm td of
        (Inl e, g') \<Rightarrow> (Inl e, g')
      | (Inr (table_ddl, column_mappings), g') \<Rightarrow>
          (case tables_ddl (g'\<lparr>mapping_decisions := mapping_decisions g' @ column_mappings\<rparr>)
                  schema_nm tds of
             (Inl e, g'') \<Rightarrow> (Inl e, g'')
           | (Inr ls, g'') \<Rightarrow> (Inr (table_ddl # [] # ls), g'')))"

text \<open>The schema loop of \<open>generate_complete_ddl\<close>.\<close>

fun schemas_ddl ::
  "SnowflakeGenerator \<Rightarrow> schema_detail list \<Rightarrow> (gen_error + string list) \<times> SnowflakeGenerator"
where
  "schemas_ddl g [] = (Inr [], g)"
| "schemas_ddl g (sd # sds) =
     (let cs = case_style (preferences g);
          head = generate_schema_ddl cs (schema_name sd)
                 @ map (generate_sequence_ddl cs (schema_name sd)) (sequences sd) @ [[]]
      in case tables_ddl g (schema_name sd) (tables sd) of
           (Inl e, g') \<Rightarrow> (Inl e, g')
         | (Inr table_lines, g') \<Rightarrow>
             (let view_lines =
                    concat (map (\<lambda>v. [generate_view_ddl cs (schema_name sd) v, []]) (views sd))
              in case schemas_ddl g' sds of
                   (Inl e, g'') \<Rightarrow> (Inl e, g'')
                 | (Inr ls, g'') \<Rightarrow> (Inr (head @ table_lines @ view_lines @ ls), g'')))"

definition generate_complete_ddl ::
  "SnowflakeGenerator \<Rightarrow> snowflake_target \<Rightarrow> (gen_error + string) \<times> SnowflakeGenerator"
where
  "generate_complete_ddl g snowflake_config =
    (let prefs = preferences g;
         ddl_lines =
           [''-- ============================================================================='',
            ''-- Snowflake Migration DDL'',
            ''-- Generated: '' @ analysis_timestamp (metadata (gen_analysis g)),
            ''-- Source: PostgreSQL '' @ database (metadata (gen_analysis g)),
            ''-- ============================================================================='',
            []]
           @ generate_database_ddl (case_style prefs) (cfg_database snowflake_config)
           @ generate_stage_and_format prefs (cfg_stage snowflake_config)
               (cfg_file_format snowflake_config)
     in case schemas_ddl g (schemas (gen_analysis g)) of
          (Inl e, g') \<Rightarrow> (Inl e, g')
        | (Inr ls, g') \<Rightarrow> (Inr (join newline (ddl_lines @ ls)), g'))"

text \<open>\<open>generate_mapping_decisions_yaml\<close> dumps this document as YAML; the model returns
  the document.\<close>

record mapping_manifest =
  mm_generated :: string
  mm_source_database :: string
  mm_case_style :: CaseStyle
  mappings :: "MappingDecision list"

definition generate_mapping_decisions_yaml :: "SnowflakeGenerator \<Rightarrow> mapping_manifest" where
  "generate_mapping_decisions_yaml g =
     \<lparr>mm_generated = analysis_timestamp (metadata (gen_analysis g)),
      mm_source_database = database (metadata (gen_analysis g)),
      mm_case_style = case_style (preferences g),
      mappings = mapping_decisions g\<rparr>"

section \<open>Compatibility assessment (postgres\_analyzer.py)\<close>

text \<open>The dictionary of flag lists that \<open>_assess_compatibility\<close> fills and returns.\<close>

record compatibility_flags =
  reserved_identifiers :: "string list"
  wide_tables :: "string list"
  large_varchars :: "string list"
  lob_columns :: "string list"
  complex_constraints :: "string list"
  flag_triggers :: "string list"
  flag_functions :: "string list"

text \<open>The set literal \<open>snowflake_reserved\<close> inside \<open>_assess_compatibility\<close>.\<close>

definition analyzer_reserved :: "string list" where
  "analyzer_reserved =
    [''ACCOUNT'', ''ALL'', ''ALTER'', ''AND'', ''ANY'', ''AS'', ''BETWEEN'',
     ''BY'', ''CASE'', ''CAST'', ''CHECK'', ''COLUMN'', ''CONNECT'', ''COPY'',
     ''CREATE'', ''CURRENT'', ''DATABASE'', ''DELETE'', ''DISTINCT'', ''DROP'',
     ''ELSE'', ''EXISTS'', ''FALSE'', ''FOLLOWING'', ''FOR'', ''FROM'', ''FULL'',
     ''GRANT'', ''GROUP'', ''HAVING'', ''ILIKE'', ''IN'', ''INCREMENT'', ''INSERT'',
     ''INTERSECT'', ''INTO'', ''IS'', ''ISSUE'', ''JOIN'', ''LATERAL'', ''LEFT'',
     ''LIKE'', ''LOCALTIME'', ''LOCALTIMESTAMP'', ''MINUS'', ''NATURAL'', ''NOT'',
     ''NULL'', ''OF'', ''ON'', ''OR'', ''ORDER'', ''ORGANIZATION'', ''QUALIFY'',
     ''REGEXP'', ''REVOKE'', ''RIGHT'', ''RLIKE'', ''ROW'', ''ROWS'', ''SAMPLE'',
     ''SCHEMA'', ''SELECT'', ''SET'', ''SOME'', ''START'', ''TABLE'', ''TABLESAMPLE'',
     ''THEN'', ''TO'', ''TRIGGER'', ''TRUE'', ''TRY_CAST'', ''UNION'', ''UNIQUE'',
     ''UPDATE'', ''USING'', ''VALUES'', ''VIEW'', ''WHEN'', ''WHENEVER'', ''WHERE'',
     ''WITH'']"

text \<open>The test under the comment \<open>Check for very large VARCHAR\<close>.\<close>

definition is_large_varchar :: "column \<Rightarrow> bool" where
  "is_large_varchar col =
     (data_type col \<in> set [''character varying'', ''text'', ''varchar'']
      \<and> truthy_int (character_maximum_length col)
      \<and> the (character_maximum_length col) > 16000000)"

text \<open>The body of the column loop.\<close>

definition assess_column :: "string \<Rightarrow> string \<Rightarrow> compatibility_flags \<Rightarrow> column \<Rightarrow> compatibility_flags" where
  "assess_column schema_nm table_nm flags col =
    (let col_name = column_name col;
         flags1 =
           (if py_upper col_name \<in> set analyzer_reserved then
              flags\<lparr>reserved_identifiers := reserved_identifiers flags
                       @ [schema_nm @ ''.'' @ table_nm @ ''.'' @ col_name]\<rparr>
            else flags);
         flags2 =
           (if is_large_varchar col then
              flags1\<lparr>large_varchars := large_varchars flags1
                        @ [schema_nm @ ''.'' @ table_nm @ ''.'' @ col_name]\<rparr>
            else flags1);
         flags3 =
           (if data_type col = ''bytea'' then
              flags2\<lparr>lob_columns := lob_columns flags2
                        @ [schema_nm @ ''.'' @ table_nm @ ''.'' @ col_name @ '' (BYTEA)'']\<rparr>
            else flags2)
     in flags3)"

text \<open>The body of the table loop.\<close>

definition assess_table :: "string \<Rightarrow> compatibility_flags \<Rightarrow> table_detail \<Rightarrow> compatibility_flags" where
  "assess_table schema_nm flags td =
    (let table_nm = table_name td;
         flags1 =
           (if py_upper table_nm \<in> set analyzer_reserved then
              flags\<lparr>reserved_identifiers := reserved_identifiers flags
                       @ [schema_nm @ ''.'' @ table_nm @ '' (table)'']\<rparr>
            else flags);
         flags2 =
           (if length (columns td) > 500 then
              flags1\<lparr>wide_tables := wide_tables flags1
                        @ [schema_nm @ ''.'' @ table_nm @ '' (''
                           @ str_nat (length (columns td)) @ '' columns)'']\<rparr>
            else flags1);
         flags3 = foldl (assess_column schema_nm table_nm) flags2 (columns td);
         flags4 =
           foldl (\<lambda>f trg. f\<lparr>flag_triggers := flag_triggers f
                     @ [schema_nm @ ''.'' @ table_nm @ ''.'' @ trigger_name trg]\<rparr>)
             flags3 (triggers td)
     in flags4)"

text \<open>The body of the schema loop.\<close>

definition assess_schema :: "compatibility_flags \<Rightarrow> schema_detail \<Rightarrow> compatibility_flags" where
  "assess_schema flags sd =
    (let flags1 = foldl (assess_table (schema_name sd)) flags (tables sd)
     in foldl (\<lambda>f fn. f\<lparr>flag_functions := flag_functions f
                 @ [schema_name sd @ ''.'' @ function_name fn @ '' ('' @ routine_type fn @ '')'']\<rparr>)
          flags1 (schema_functions sd))"

definition assess_compatibility :: "schema_detail list \<Rightarrow> compatibility_flags" where
  "assess_compatibility schema_details =
     foldl assess_schema
       \<lparr>reserved_identifiers = [], wide_tables = [], large_varchars = [], lob_columns = [],
        complex_constraints = [], flag_triggers = [], flag_functions = []\<rparr>
       schema_details"

section \<open>Extraction and loading (data\_pipeline.py)\<close>

text \<open>A raised Python exception, with the text \<open>str(e)\<close> the handlers log and record.
  \<open>RetryError\<close> is what the \<open>@retry\<close> decorator raises when the last attempt failed.\<close>

datatype exn = Exception string | RetryError

definition exn_str :: "exn \<Rightarrow> string" where
  "exn_str e = (case e of Exception m \<Rightarrow> m | RetryError \<Rightarrow> ''RetryError'')"

text \<open>A value of a fetched row, by the branch of the encoder that handles it:
  \<open>None\<close>, a \<open>dict\<close> or \<open>list\<close> (given by its \<open>json.dumps\<close> text), a \<open>str\<close>, and
  anything else (given by its \<open>str()\<close> text).\<close>

datatype pg_value = PgNull | PgJson string | PgStr string | PgOther string

definition encode_value :: "pg_value \<Rightarrow> string" where
  "encode_value val =
     (case val of
        PgNull \<Rightarrow> []
      | PgJson dumped \<Rightarrow> dquote @ replace_char (CHR 0x22) (dquote @ dquote) dumped @ dquote
      | PgStr v \<Rightarrow> dquote @ replace_char (CHR 0x22) (dquote @ dquote) v @ dquote
      | PgOther shown \<Rightarrow> shown)"

text \<open>\<open>os.path.join(a, b)\<close> and \<open>os.path.basename(p)\<close> on a POSIX system.\<close>

definition path_join :: "string \<Rightarrow> string \<Rightarrow> string" where
  "path_join a b =
     (if startswith b ''/'' then b
      else if a = [] \<or> endswith a ''/'' then a @ b
      else a @ ''/'' @ b)"

definition basename :: "string \<Rightarrow> string" where
  "basename p = last (split_char CHR ''/'' p)"

text \<open>A server-side cursor is the list of what iterating it yields: rows, and possibly an
  exception, at which the iteration stops.\<close>

type_synonym cursor = "(exn + pg_value list) list"

text \<open>The local variables of the chunk loop in \<open>extract_table_to_csv\<close>, and the files
  written so far (path and text; the text is written gzip-compressed). File writes are
  taken to succeed.\<close>

record csv_state =
  chunk_num :: nat
  rows_in_chunk :: nat
  current_file :: "string option"
  current_buffer :: "string option"
  files :: "string list"
  written :: "(string \<times> string) list"

definition csv_chunk_path :: "string \<Rightarrow> string \<Rightarrow> string \<Rightarrow> nat \<Rightarrow> string" where
  "csv_chunk_path temp_path schema tbl n =
     path_join temp_path (schema @ ''_'' @ tbl @ ''_chunk_'' @ fmt_04d n @ ''.csv.gz'')"

text \<open>The loop body for one row. The branch for a file name or buffer that is \<open>None\<close>
  where the code writes to it is never taken: the first \<open>if\<close> sets both.\<close>

definition csv_step ::
  "string \<Rightarrow> string \<Rightarrow> string \<Rightarrow> string list \<Rightarrow> int \<Rightarrow> csv_state \<Rightarrow> pg_value list
     \<Rightarrow> exn + csv_state"
where
  "csv_step temp_path schema tbl cols chunk_size st row =
    (let st1 =
           (if current_buffer st = None then
              st\<lparr>chunk_num := chunk_num st + 1,
                 current_file := Some (csv_chunk_path temp_path schema tbl (chunk_num st + 1)),
                 current_buffer := Some (join '','' cols @ newline),
                 rows_in_chunk := 0\<rparr>
            else st)
     in case (current_buffer st1, current_file st1) of
          (Some buffer, Some file) \<Rightarrow>
            (let row_data = map encode_value row;
                 buffer' = buffer @ join '','' row_data @ newline;
                 st2 = st1\<lparr>current_buffer := Some buffer', rows_in_chunk := rows_in_chunk st1 + 1\<rparr>
             in if int (rows_in_chunk st2) \<ge> chunk_size then
                  Inr (st2\<lparr>written := written st2 @ [(file, buffer')],
                           files := files st2 @ [file],
                           current_buffer := None,
                           current_file := None\<rparr>)
                else Inr st2)
        | _ \<Rightarrow> Inl (Exception ''TypeError''))"

fun csv_loop ::
  "string \<Rightarrow> string \<Rightarrow> string \<Rightarrow> string list \<Rightarrow> int \<Rightarrow> csv_state \<Rightarrow> cursor \<Rightarrow> exn + csv_state"
where
  "csv_loop temp_path schema tbl cols chunk_size st [] = Inr st"
| "csv_loop temp_path schema tbl cols chunk_size st (Inl e # rest) = Inl e"
| "csv_loop temp_path schema tbl cols chunk_size st (Inr row # rest) =
     (case csv_step temp_path schema tbl cols chunk_size st row of
        Inl e \<Rightarrow> Inl e
      | Inr st' \<Rightarrow> csv_loop temp_path schema tbl cols chunk_size st' rest)"

definition select_query :: "string \<Rightarrow> string \<Rightarrow> string list \<Rightarrow> string" where
  "select_query schema tbl cols =
     ''SELECT '' @ join '', '' (map (\<lambda>col. dquote @ col @ dquote) cols)
       @ '' FROM '' @ dquote @ schema @ dquote @ ''.'' @ dquote @ tbl @ dquote"

text \<open>\<open>extract_table_to_csv\<close>, given what the cursor of its query yields: the list of
  file paths returned and the files written, or the exception re-raised.\<close>

definition extract_table_to_csv ::
  "string \<Rightarrow> cursor \<Rightarrow> string \<Rightarrow> string \<Rightarrow> string list \<Rightarrow> int
     \<Rightarrow> exn + string list \<times> (string \<times> string) list"
where
  "extract_table_to_csv temp_path cur schema tbl cols chunk_size =
    (case csv_loop temp_path schema tbl cols chunk_size
            \<lparr>chunk_num = 0, rows_in_chunk = 0, current_file = None, current_buffer = None,
             files = [], written = []\<rparr> cur of
       Inl e \<Rightarrow> Inl e
     | Inr st \<Rightarrow>
         (case (current_buffer st, current_file st) of
            (Some buffer, Some file) \<Rightarrow>
              if rows_in_chunk st > 0 then
                Inr (files st @ [file], written st @ [(file, buffer)])
              else Inr (files st, written st)
          | (Some buffer, None) \<Rightarrow>
              if rows_in_chunk st > 0 then Inl (Exception ''TypeError'')
              else Inr (files st, written st)
          | (None, _) \<Rightarrow> Inr (files st, written st)))"

text \<open>The chunk loop of \<open>extract_table_to_parquet\<close>: the rows of the pending chunk, the
  chunk counter and the paths of the files written.\<close>

definition parquet_chunk_path :: "string \<Rightarrow> string \<Rightarrow> string \<Rightarrow> nat \<Rightarrow> string" where
  "parquet_chunk_path temp_path schema tbl n =
     path_join temp_path (schema @ ''_'' @ tbl @ ''_chunk_'' @ fmt_04d n @ ''.parquet'')"

fun parquet_loop ::
  "string \<Rightarrow> string \<Rightarrow> string \<Rightarrow> int \<Rightarrow> nat \<Rightarrow> pg_value list list \<Rightarrow> string list \<Rightarrow> cursor
     \<Rightarrow> exn + nat \<times> pg_value list list \<times> string list"
where
  "parquet_loop temp_path schema tbl chunk_size n chunk_data fs [] = Inr (n, chunk_data, fs)"
| "parquet_loop temp_path schema tbl chunk_size n chunk_data fs (Inl e # rest) = Inl e"
| "parquet_loop temp_path schema tbl chunk_size n chunk_data fs (Inr row # rest) =
     (let chunk_data' = chunk_data @ [row] in
      if int (length chunk_data') \<ge> chunk_size then
        parquet_loop temp_path schema tbl chunk_size (n + 1) []
          (fs @ [parquet_chunk_path temp_path schema tbl (n + 1)]) rest
      else parquet_loop temp_path schema tbl chunk_size n chunk_data' fs rest)"

definition extract_table_to_parquet ::
  "string \<Rightarrow> cursor \<Rightarrow> string \<Rightarrow> string \<Rightarrow> string list \<Rightarrow> int \<Rightarrow> exn + string list"
where
  "extract_table_to_parquet temp_path cur schema tbl cols chunk_size =
    (case parquet_loop temp_path schema tbl chunk_size 0 [] [] cur of
       Inl e \<Rightarrow> Inl e
     | Inr (n, chunk_data, fs) \<Rightarrow>
         if chunk_data \<noteq> [] then Inr (fs @ [parquet_chunk_path temp_path schema tbl (n + 1)])
         else Inr fs)"

text \<open>The source database as the extractor sees it: what the cursor of a query yields.\<close>

type_synonym postgres = "string \<Rightarrow> cursor"

text \<open>\<open>extract_table\<close>: both extractors are called with their default chunk size.\<close>

definition extract_table ::
  "MigrationPreferences \<Rightarrow> string \<Rightarrow> postgres \<Rightarrow> string \<Rightarrow> string \<Rightarrow> string list \<Rightarrow> exn + string list"
where
  "extract_table prefs temp_path pg schema tbl cols =
    (if format prefs = CSV then
       (case extract_table_to_csv temp_path (pg (select_query schema tbl cols)) schema tbl cols 100000 of
          Inl e \<Rightarrow> Inl e
        | Inr (fs, w) \<Rightarrow> Inr fs)
     else extract_table_to_parquet temp_path (pg (select_query schema tbl cols)) schema tbl cols 100000)"

text \<open>A row of the result of \<open>COPY INTO\<close>: the columns the loader reads, \<open>result[1]\<close>
  and \<open>result[3]\<close>.\<close>

record copy_row =
  copy_status :: string
  copy_rows_loaded :: int

text \<open>The target as the loader sees it: given the statements a connection has executed
  and the next statement, the rows it returns or the exception it raises.\<close>

type_synonym snowflake = "string list \<Rightarrow> string \<Rightarrow> exn + copy_row list"

record SnowflakeConfig =
  sf_account :: string
  sf_warehouse :: string
  sf_database :: string
  sf_default_role :: string
  sf_schema :: string
  sf_stage :: string
  sf_file_format :: string

text \<open>A \<open>SnowflakeLoader\<close> instance: \<open>conn\<close> is \<open>None\<close> until \<open>connect\<close>, then the
  statements executed on the connection.\<close>

record SnowflakeLoader =
  loader_config :: SnowflakeConfig
  conn :: "string list option"
  loaded_files :: "string set"

definition SnowflakeLoader_init :: "SnowflakeConfig \<Rightarrow> SnowflakeLoader" where
  "SnowflakeLoader_init config = \<lparr>loader_config = config, conn = None, loaded_files = {}\<rparr>"

text \<open>\<open>self.conn.cursor()\<close> followed by \<open>execute\<close> and the fetch.\<close>

definition sf_execute :: "snowflake \<Rightarrow> SnowflakeLoader \<Rightarrow> string \<Rightarrow> (exn + copy_row list) \<times> SnowflakeLoader" where
  "sf_execute sf l stmt =
     (case conn l of
        None \<Rightarrow> (Inl (Exception ''AttributeError''), l)
      | Some executed \<Rightarrow> (sf executed stmt, l\<lparr>conn := Some (executed @ [stmt])\<rparr>))"

text \<open>The decorator \<open>@retry(stop=stop_after_attempt(n), ...)\<close>: the call is repeated while
  it raises, at most \<open>n\<close> times, and \<open>RetryError\<close> is raised after the last failure. The
  waits between attempts are not modelled.\<close>

fun retry :: "nat \<Rightarrow> ('s \<Rightarrow> (exn + 'a) \<times> 's) \<Rightarrow> 's \<Rightarrow> (exn + 'a) \<times> 's" where
  "retry 0 f s = (Inl RetryError, s)"
| "retry (Suc n) f s =
     (case f s of
        (Inr v, s') \<Rightarrow> (Inr v, s')
      | (Inl e, s') \<Rightarrow> retry n f s')"

definition upload_file_to_stage_body ::
  "snowflake \<Rightarrow> string \<Rightarrow> string \<Rightarrow> SnowflakeLoader \<Rightarrow> (exn + string) \<times> SnowflakeLoader"
where
  "upload_file_to_stage_body sf file_path stage_name l =
    (let file_name = basename file_path;
         put_cmd = ''PUT file://'' @ file_path @ '' @'' @ stage_name
                     @ '' AUTO_COMPRESS=FALSE OVERWRITE=FALSE''
     in case sf_execute sf l put_cmd of
          (Inl e, l') \<Rightarrow> (Inl e, l')
        | (Inr res, l') \<Rightarrow> (Inr file_name, l'))"

definition upload_file_to_stage ::
  "snowflake \<Rightarrow> string \<Rightarrow> string \<Rightarrow> SnowflakeLoader \<Rightarrow> (exn + string) \<times> SnowflakeLoader"
where
  "upload_file_to_stage sf file_path stage_name = retry 3 (upload_file_to_stage_body sf file_path stage_name)"

text \<open>An entry of the list \<open>load_table\<close> returns. The wall-clock field \<open>duration_ms\<close> is
  left out.\<close>

record load_result =
  lr_table :: string
  lr_file :: string
  lr_rows_loaded :: int
  lr_status :: string
  lr_error :: "string option"

definition copy_command :: "string \<Rightarrow> string \<Rightarrow> string \<Rightarrow> string \<Rightarrow> string \<Rightarrow> string" where
  "copy_command full_table column_list stage_name file_pattern file_format_nm =
     newline @ ''                COPY INTO '' @ full_table @ '' ('' @ column_list @ '')''
     @ newline @ ''                FROM @'' @ stage_name
     @ newline @ ''                FILES = ('' @ squote @ file_pattern @ squote @ '')''
     @ newline @ ''                FILE_FORMAT = '' @ file_format_nm
     @ newline @ ''                MATCH_BY_COLUMN_NAME = CASE_INSENSITIVE''
     @ newline @ ''                ON_ERROR = '' @ squote @ ''ABORT_STATEMENT'' @ squote
     @ newline @ ''                PURGE = FALSE''
     @ newline @ ''            ''"

text \<open>The body of \<open>copy_into_table\<close>. Its \<open>except\<close> clause returns a result with status
  \<open>failed\<close>, so the body never raises.\<close>

definition copy_into_table_body ::
  "snowflake \<Rightarrow> string \<Rightarrow> string \<Rightarrow> string \<Rightarrow> string \<Rightarrow> string \<Rightarrow> string list
     \<Rightarrow> SnowflakeLoader \<Rightarrow> (exn + load_result) \<times> SnowflakeLoader"
where
  "copy_into_table_body sf schema tbl stage_name file_pattern file_format_nm cols l =
    (let full_table = schema @ ''.'' @ tbl;
         column_list = join '', '' (map (\<lambda>col. dquote @ col @ dquote) cols);
         copy_cmd = copy_command full_table column_list stage_name file_pattern file_format_nm
     in case sf_execute sf l copy_cmd of
          (Inr results, l') \<Rightarrow>
            (Inr \<lparr>lr_table = full_table, lr_file = file_pattern,
                  lr_rows_loaded =
                    sum_list (map copy_rows_loaded (filter (\<lambda>r. copy_status r = ''LOADED'') results)),
                  lr_status = ''success'', lr_error = None\<rparr>, l')
        | (Inl e, l') \<Rightarrow>
            (Inr \<lparr>lr_table = full_table, lr_file = file_pattern, lr_rows_loaded = 0,
                  lr_status = ''failed'', lr_error = Some (exn_str e)\<rparr>, l'))"

definition copy_into_table ::
  "snowflake \<Rightarrow> string \<Rightarrow> string \<Rightarrow> string \<Rightarrow> string \<Rightarrow> string \<Rightarrow> string list
     \<Rightarrow> SnowflakeLoader \<Rightarrow> (exn + load_result) \<times> SnowflakeLoader"
where
  "copy_into_table sf schema tbl stage_name file_pattern file_format_nm cols =
     retry 3 (copy_into_table_body sf schema tbl stage_name file_pattern file_format_nm cols)"

text \<open>The first loop of \<open>load_table\<close>: the \<open>upload_failed\<close> results, the staged names of
  the files uploaded, and the loader.\<close>

fun upload_loop ::
  "snowflake \<Rightarrow> string \<Rightarrow> string \<Rightarrow> SnowflakeLoader \<Rightarrow> string list
     \<Rightarrow> load_result list \<times> string list \<times> SnowflakeLoader"
where
  "upload_loop sf schema tbl l [] = ([], [], l)"
| "upload_loop sf schema tbl l (file_path # rest) =
     (case upload_file_to_stage sf file_path (sf_stage (loader_config l)) l of
        (Inr staged_file, l') \<Rightarrow>
          (case upload_loop sf schema tbl l' rest of
             (results, uploaded_files, l'') \<Rightarrow> (results, staged_file # uploaded_files, l''))
      | (Inl e, l') \<Rightarrow>
          (case upload_loop sf schema tbl l' rest of
             (results, uploaded_files, l'') \<Rightarrow>
               (\<lparr>lr_table = schema @ ''.'' @ tbl, lr_file = basename file_path, lr_rows_loaded = 0,
                 lr_status = ''upload_failed'', lr_error = Some (exn_str e)\<rparr> # results,
                uploaded_files, l'')))"

text \<open>The second loop of \<open>load_table\<close>. A \<open>RetryError\<close> out of \<open>copy_into_table\<close> would
  leave \<open>load_table\<close>; the results gathered until then are lost with it.\<close>

fun copy_loop ::
  "snowflake \<Rightarrow> string \<Rightarrow> string \<Rightarrow> string list \<Rightarrow> SnowflakeLoader \<Rightarrow> string list
     \<Rightarrow> (exn + load_result list) \<times> SnowflakeLoader"
where
  "copy_loop sf schema tbl cols l [] = (Inr [], l)"
| "copy_loop sf schema tbl cols l (staged_file # rest) =
     (if staged_file \<in> loaded_files l then copy_loop sf schema tbl cols l rest
      else
        (case copy_into_table sf schema tbl (sf_stage (loader_config l)) staged_file
                (sf_file_format (loader_config l)) cols l of
           (Inl e, l') \<Rightarrow> (Inl e, l')
         | (Inr result, l') \<Rightarrow>
             (let l'' = (if lr_status result = ''success''
                         then l'\<lparr>loaded_files := insert staged_file (loaded_files l')\<rparr>
                         else l')
              in case copy_loop sf schema tbl cols l'' rest of
                   (Inl e, l3) \<Rightarrow> (Inl e, l3)
                 | (Inr results, l3) \<Rightarrow> (Inr (result # results), l3))))"

definition load_table ::
  "snowflake \<Rightarrow> SnowflakeLoader \<Rightarrow> string \<Rightarrow> string \<Rightarrow> string list \<Rightarrow> string list
     \<Rightarrow> (exn + load_result list) \<times> SnowflakeLoader"
where
  "load_table sf l schema tbl file_paths cols =
    (case upload_loop sf schema tbl l file_paths of
       (upload_results, uploaded_files, l') \<Rightarrow>
         (case copy_loop sf schema tbl cols l' uploaded_files of
            (Inl e, l'') \<Rightarrow> (Inl e, l'')
          | (Inr copy_results, l'') \<Rightarrow> (Inr (upload_results @ copy_results), l'')))"

text \<open>The dictionary \<open>migrate_table\<close> returns; the keys its \<open>failed\<close> form lacks are
  \<open>None\<close>. The wall-clock field \<open>duration_ms\<close> is left out.\<close>

record table_result =
  tr_schema :: string
  tr_table :: string
  tr_status :: string
  tr_rows_loaded :: "int option"
  tr_file_count :: "nat option"
  tr_load_results :: "load_result list"
  tr_error :: "string option"

definition migrate_table ::
  "MigrationPreferences \<Rightarrow> string \<Rightarrow> postgres \<Rightarrow> snowflake \<Rightarrow> SnowflakeLoader
     \<Rightarrow> string \<Rightarrow> string \<Rightarrow> string list \<Rightarrow> table_result \<times> SnowflakeLoader"
where
  "migrate_table prefs temp_path pg sf l schema tbl cols =
    (let failed = (\<lambda>e. \<lparr>tr_schema = schema, tr_table = tbl, tr_status = ''failed'',
                         tr_rows_loaded = None, tr_file_count = None, tr_load_results = [],
                         tr_error = Some (exn_str e)\<rparr>)
     in case extract_table prefs temp_path pg schema tbl cols of
          Inl e \<Rightarrow> (failed e, l)
        | Inr file_paths \<Rightarrow>
            (case load_table sf l schema tbl file_paths cols of
               (Inl e, l') \<Rightarrow> (failed e, l')
             | (Inr load_results, l') \<Rightarrow>
                 (\<lparr>tr_schema = schema, tr_table = tbl, tr_status = ''completed'',
                   tr_rows_loaded = Some (sum_list (map lr_rows_loaded load_results)),
                   tr_file_count = Some (length file_paths),
                   tr_load_results = load_results, tr_error = None\<rparr>, l')))"

text \<open>The tables of \<open>migrate_schema\<close>, one after the other in the order submitted, on
  the pipeline's one loader. The thread pool runs them concurrently and collects the
  results in completion order; the model is the schedule that runs them in sequence.\<close>

fun migrate_tables ::
  "MigrationPreferences \<Rightarrow> string \<Rightarrow> postgres \<Rightarrow> snowflake \<Rightarrow> SnowflakeLoader
     \<Rightarrow> string \<Rightarrow> table_detail list \<Rightarrow> table_result list \<times> SnowflakeLoader"
where
  "migrate_tables prefs temp_path pg sf l schema [] = ([], l)"
| "migrate_tables prefs temp_path pg sf l schema (td # tds) =
     (case migrate_table prefs temp_path pg sf l schema (table_name td)
             (map column_name (columns td)) of
        (result, l') \<Rightarrow>
          (case migrate_tables prefs temp_path pg sf l' schema tds of
             (results, l'') \<Rightarrow> (result # results, l'')))"

section \<open>Log redaction (logger.py)\<close>

text \<open>The values a log event carries: text, integers and lists of them.\<close>

datatype json = JStr string | JInt int | JList "json list"

text \<open>\<open>\s\<close> of a \<open>str\<close> pattern, on ASCII: tab to carriage return, the four separator
  controls and the space.\<close>

definition is_space :: "char \<Rightarrow> bool" where
  "is_space c = (c \<in> set [CHR 0x09, CHR 0x0A, CHR 0x0B, CHR 0x0C, CHR 0x0D,
                           CHR 0x1C, CHR 0x1D, CHR 0x1E, CHR 0x1F, CHR 0x20])"

text \<open>\<open>re.compile(key + r'[^\s&]+', re.IGNORECASE).sub(repl, s)\<close> for a lower-case literal
  \<open>key\<close>: \<open>skip\<close> counts the characters of a matched key still to pass over, and
  \<open>in_value\<close> says that the characters of the matched value are being passed over.\<close>

fun sub_key_value :: "string \<Rightarrow> string \<Rightarrow> nat \<Rightarrow> bool \<Rightarrow> string \<Rightarrow> string" where
  "sub_key_value key repl skip in_value [] = []"
| "sub_key_value key repl (Suc skip) in_value (c # s) = sub_key_value key repl skip in_value s"
| "sub_key_value key repl 0 in_value (c # s) =
     (if in_value \<and> \<not> is_space c \<and> c \<noteq> CHR ''&'' then sub_key_value key repl 0 True s
      else if py_lower (take (length key) (c # s)) = key
              \<and> (case drop (length key) (c # s) of
                     [] \<Rightarrow> False
                   | d # _ \<Rightarrow> \<not> is_space d \<and> d \<noteq> CHR ''&'')
      then repl @ sub_key_value key repl (length key - 1) True s
      else c # sub_key_value key repl 0 False s)"

text \<open>A match of \<open>"name"\s*:\s*"[^"]*"\<close> (ignoring case) at the start of \<open>s\<close>: the text
  after the match.\<close>

definition match_json_field :: "string \<Rightarrow> string \<Rightarrow> string option" where
  "match_json_field name s =
     (let quoted = dquote @ name @ dquote in
      if py_lower (take (length quoted) s) = quoted then
        (case dropWhile is_space (drop (length quoted) s) of
           c # r \<Rightarrow>
             if c = CHR '':'' then
               (case dropWhile is_space r of
                  q # v \<Rightarrow>
                    if q = CHR 0x22 then
                      (case dropWhile (\<lambda>x. x \<noteq> CHR 0x22) v of
                         e # rest \<Rightarrow> Some rest
                       | [] \<Rightarrow> None)
                    else None
                | [] \<Rightarrow> None)
             else None
         | [] \<Rightarrow> None)
      else None)"

text \<open>\<open>re.compile(r'"name"\s*:\s*"[^"]*"', re.IGNORECASE).sub(repl, s)\<close>.\<close>

fun sub_json_field :: "string \<Rightarrow> string \<Rightarrow> nat \<Rightarrow> string \<Rightarrow> string" where
  "sub_json_field name repl skip [] = []"
| "sub_json_field name repl (Suc skip) (c # s) = sub_json_field name repl skip s"
| "sub_json_field name repl 0 (c # s) =
     (case match_json_field name (c # s) of
        Some rest \<Rightarrow> repl @ sub_json_field name repl (length s - length rest) s
      | None \<Rightarrow> c # sub_json_field name repl 0 s)"

text \<open>\<open>redact_sensitive_data\<close>: the four patterns of \<open>REDACTION_PATTERNS\<close>, in order.\<close>

definition redact_sensitive_data :: "string \<Rightarrow> string" where
  "redact_sensitive_data msg =
    (let m1 = sub_json_field ''password''
                (dquote @ ''password'' @ dquote @ '': '' @ dquote @ ''***REDACTED***'' @ dquote) 0 msg;
         m2 = sub_json_field ''access_token''
                (dquote @ ''access_token'' @ dquote @ '': '' @ dquote @ ''***REDACTED***'' @ dquote) 0 m1;
         m3 = sub_key_value ''password='' ''password=***REDACTED***'' 0 False m2;
         m4 = sub_key_value ''token='' ''token=***REDACTED***'' 0 False m3
     in m4)"

text \<open>\<open>add_redaction\<close>, the processor of the structured logger: the event dictionary with
  every string value redacted.\<close>

definition add_redaction :: "(string \<times> json) list \<Rightarrow> (string \<times> json) list" where
  "add_redaction event_dict =
     map (\<lambda>(key, v). (key, (case v of JStr s \<Rightarrow> JStr (redact_sensitive_data s) | _ \<Rightarrow> v)))
       event_dict"

section \<open>Orchestrator (migrator.py, main.py)\<close>

text \<open>\<open>json.dumps\<close> of a string with the default \<open>ensure_ascii\<close>: quote, backslash and
  the named controls are escaped by a backslash, every other character outside the
  printable ASCII range as \<open>\u00XX\<close>.\<close>

definition hex_digit :: "nat \<Rightarrow> char" where
  "hex_digit n = ''0123456789abcdef'' ! (n mod 16)"

definition json_escape_char :: "char \<Rightarrow> string" where
  "json_escape_char c =
     (if c = CHR 0x22 then backslash @ dquote
      else if c = CHR 0x5C then backslash @ backslash
      else if c = CHR 0x0A then backslash @ ''n''
      else if c = CHR 0x0D then backslash @ ''r''
      else if c = CHR 0x09 then backslash @ ''t''
      else if c = CHR 0x08 then backslash @ ''b''
      else if c = CHR 0x0C then backslash @ ''f''
      else if (of_char c :: nat) < 32 \<or> 126 < (of_char c :: nat) then
        backslash @ ''u00'' @ [hex_digit (of_char c div 16), hex_digit (of_char c mod 16)]
      else [c])"

definition json_string :: "string \<Rightarrow> string" where
  "json_string s = dquote @ concat (map json_escape_char s) @ dquote"

fun json_dumps :: "json \<Rightarrow> string" where
  "json_dumps (JStr s) = json_string s"
| "json_dumps (JInt i) = str_int i"
| "json_dumps (JList xs) = ''['' @ join '', '' (map json_dumps xs) @ '']''"

text \<open>An entry of \<open>log_entries\<close>: the five fixed keys and the keyword arguments, which in
  the source never repeat a fixed key.\<close>

record log_entry =
  ts :: string
  le_run_id :: string
  level :: string
  category :: string
  message :: string
  kwargs :: "(string \<times> json) list"

text \<open>\<open>json.dumps(entry, default=str)\<close>.\<close>

definition dumps_entry :: "log_entry \<Rightarrow> string" where
  "dumps_entry e =
     ''{'' @ join '', ''
        (map (\<lambda>(key, v). json_string key @ '': '' @ json_dumps v)
           ([(''ts'', JStr (ts e)), (''run_id'', JStr (le_run_id e)), (''level'', JStr (level e)),
             (''category'', JStr (category e)), (''message'', JStr (message e))] @ kwargs e))
     @ ''}''"

record PostgresConfig =
  pg_host :: string
  pg_port :: int
  pg_database :: string
  pg_username :: string
  pg_password :: string
  pg_schemas :: "string list"

record MigrationControl =
  ctl_run_id :: "string option"
  confirm :: bool

record MigrationRequest =
  postgres :: PostgresConfig
  snowflake :: SnowflakeConfig
  auth_access_token :: string
  req_preferences :: MigrationPreferences
  control :: MigrationControl

record validation_result =
  vr_schema :: string
  vr_table :: string
  vr_check :: string
  vr_status :: string
  vr_message :: string

text \<open>
  What the orchestrator's collaborators do in one run: the identifier \<open>uuid4\<close> draws, the
  timestamp of the \<open>n\<close>-th log entry, the configured artifact and scratch directories, the result of \<open>PostgresAnalyzer.analyze_complete\<close>,
  whether rendering and writing the artifact of a given name raises, whether the
  connections open, what the target and the source return, and what
  \<open>DataValidator.validate_table\<close> returns.
\<close>

record world =
  w_uuid :: string
  w_clock :: "nat \<Rightarrow> string"
  w_artifacts_path :: string
  w_temp_path :: string
  w_analyze :: "exn + analysis"
  w_write :: "string \<Rightarrow> exn option"
  w_sf_connect :: "exn option"
  w_sf :: snowflake
  w_pg_connect :: "exn option"
  w_pg :: postgres
  w_validator_connect :: "exn option"
  w_validate_table :: "string \<Rightarrow> string \<Rightarrow> exn + validation_result list"

text \<open>
  A \<open>MigrationOrchestrator\<close> instance, with the values assigned to \<open>status\<close> so far
  in order, and what the run has done outside it: the events the
  structured logger emitted (after \<open>add_redaction\<close>), the names of the artifacts written,
  the text of \<open>snowflake_objects.sql\<close>, the lines of \<open>run_log.ndjson\<close>, the number of
  connections opened to the target and the statements executed on them.
\<close>

record orchestrator =
  request :: MigrationRequest
  run_id :: string
  status :: MigrationStatus
  status_history :: "MigrationStatus list"
  analysis_results :: "analysis option"
  migration_results :: "table_result list"
  validation_results :: "validation_result list"
  log_entries :: "log_entry list"
  console :: "(string \<times> json) list list"
  artifact_names :: "string list"
  ddl_script :: "string option"
  run_log :: "string list option"
  sf_connects :: nat
  sf_statements :: "string list"

definition status_value :: "MigrationStatus \<Rightarrow> string" where
  "status_value s =
     (case s of PENDING \<Rightarrow> ''pending'' | ANALYZING \<Rightarrow> ''analyzing'' | PLANNING \<Rightarrow> ''planning''
      | AWAITING_CONFIRMATION \<Rightarrow> ''awaiting_confirmation'' | EXECUTING \<Rightarrow> ''executing''
      | VALIDATING \<Rightarrow> ''validating'' | COMPLETED \<Rightarrow> ''completed'' | FAILED \<Rightarrow> ''failed''
      | CANCELLED \<Rightarrow> ''cancelled'')"

definition MigrationOrchestrator_init :: "world \<Rightarrow> MigrationRequest \<Rightarrow> orchestrator" where
  "MigrationOrchestrator_init w req =
     \<lparr>request = req,
      run_id = (if truthy_str (ctl_run_id (control req)) then the (ctl_run_id (control req))
                else w_uuid w),
      status = PENDING, status_history = [], analysis_results = None, migration_results = [],
      validation_results = [], log_entries = [], console = [], artifact_names = [],
      ddl_script = None, run_log = None, sf_connects = 0, sf_statements = []\<rparr>"

text \<open>\<open>log\<close>: the entry is appended to \<open>log_entries\<close> as given, and the message and the
  keyword arguments go to the structured logger, whose processors redact them.\<close>

definition log ::
  "world \<Rightarrow> string \<Rightarrow> string \<Rightarrow> string \<Rightarrow> (string \<times> json) list \<Rightarrow> orchestrator \<Rightarrow> orchestrator"
where
  "log w lvl cat msg kw st =
     st\<lparr>log_entries := log_entries st @
          [\<lparr>ts = w_clock w (length (log_entries st)), le_run_id = run_id st, level = lvl,
            category = cat, message = msg, kwargs = kw\<rparr>],
        console := console st @ [add_redaction ((''event'', JStr msg) # kw)]\<rparr>"

text \<open>Rendering an artifact and writing it under the run's artifact directory.\<close>

definition write_artifact :: "world \<Rightarrow> string \<Rightarrow> orchestrator \<Rightarrow> exn option \<times> orchestrator" where
  "write_artifact w name st =
     (case w_write w name of
        Some e \<Rightarrow> (Some e, st)
      | None \<Rightarrow> (None, st\<lparr>artifact_names := artifact_names st @ [name]\<rparr>))"

text \<open>\<open>save_log\<close>: one JSON line for each entry of \<open>log_entries\<close>, as the entries are. The
  \<open>logger.info\<close> call that follows goes to the structured logger only.\<close>

definition save_log :: "world \<Rightarrow> orchestrator \<Rightarrow> exn option \<times> orchestrator" where
  "save_log w st =
     (case write_artifact w ''run_log.ndjson'' st of
        (Some e, st') \<Rightarrow> (Some e, st')
      | (None, st') \<Rightarrow> (None, st'\<lparr>run_log := Some (map dumps_entry (log_entries st'))\<rparr>))"

text \<open>Every assignment to \<open>self.status\<close>; the values assigned are also kept in order.\<close>

definition set_status :: "MigrationStatus \<Rightarrow> orchestrator \<Rightarrow> orchestrator" where
  "set_status s st = st\<lparr>status := s, status_history := status_history st @ [s]\<rparr>"

text \<open>The exception text of an emitter failure; the interpreter's message is longer.\<close>

definition gen_error_exn :: "gen_error \<Rightarrow> exn" where
  "gen_error_exn e =
     (case e of TypeError \<Rightarrow> Exception ''TypeError''
      | UnboundLocalError \<Rightarrow> Exception ''UnboundLocalError'')"

text \<open>\<open>analyze\<close> (phase 1).\<close>

definition analyze :: "world \<Rightarrow> orchestrator \<Rightarrow> (exn + analysis) \<times> orchestrator" where
  "analyze w st0 =
    (let st1 = set_status ANALYZING (log w ''INFO'' ''analyze'' ''Starting PostgreSQL analysis'' [] st0);
         fail = (\<lambda>e st.
           (Inl e, set_status FAILED
                     (log w ''ERROR'' ''analyze'' (''Analysis failed: '' @ exn_str e) [] st)))
     in case w_analyze w of
          Inl e \<Rightarrow> fail e st1
        | Inr a \<Rightarrow>
            (case write_artifact w ''analysis_report.json'' (st1\<lparr>analysis_results := Some a\<rparr>) of
               (Some e, st2) \<Rightarrow> fail e st2
             | (None, st2) \<Rightarrow>
                 (Inr a,
                  log w ''INFO'' ''analyze'' ''PostgreSQL analysis completed''
                    [(''schemas'', JInt (int (length (schemas a)))),
                     (''total_tables'',
                      JInt (int (sum_list (map (\<lambda>s. length (tables s)) (schemas a)))))]
                    st2)))"

text \<open>Writing several artifacts in order; the first failure ends it.\<close>

fun write_artifacts :: "world \<Rightarrow> string list \<Rightarrow> orchestrator \<Rightarrow> exn option \<times> orchestrator" where
  "write_artifacts w [] st = (None, st)"
| "write_artifacts w (name # names) st =
     (case write_artifact w name st of
        (Some e, st') \<Rightarrow> (Some e, st')
      | (None, st') \<Rightarrow> write_artifacts w names st')"

definition plan_artifacts :: "string list" where
  "plan_artifacts =
     [''analysis_report.json'', ''snowflake_objects.sql'', ''mapping_decisions.yml'',
      ''improvement_recommendations.md'', ''load_plan.yml'', ''post_migration_checks.sql'',
      ''copy_commands.sql'']"

text \<open>\<open>plan\<close> (phase 2): the DDL script is generated by the emitter; the other artifacts
  are rendered and written in the source's order.\<close>

definition plan :: "world \<Rightarrow> orchestrator \<Rightarrow> (exn + string list) \<times> orchestrator" where
  "plan w st0 =
    (let st1 = set_status PLANNING (log w ''INFO'' ''plan'' ''Generating migration plan'' [] st0);
         fail = (\<lambda>e st.
           (Inl e, set_status FAILED
                     (log w ''ERROR'' ''plan'' (''Planning failed: '' @ exn_str e) [] st)))
     in case analysis_results st1 of
          None \<Rightarrow> fail (Exception ''Analysis results not available. Run analyze() first.'') st1
        | Some a \<Rightarrow>
            (case generate_complete_ddl
                    (SnowflakeGenerator_init a (req_preferences (request st1)))
                    \<lparr>cfg_database = sf_database (snowflake (request st1)),
                     cfg_stage = sf_stage (snowflake (request st1)),
                     cfg_file_format = sf_file_format (snowflake (request st1))\<rparr> of
               (Inl ge, g) \<Rightarrow> fail (gen_error_exn ge) st1
             | (Inr ddl, g) \<Rightarrow>
                 (case write_artifact w ''snowflake_objects.sql'' st1 of
                    (Some e, st2) \<Rightarrow> fail e st2
                  | (None, st2) \<Rightarrow>
                      (case write_artifacts w
                              [''mapping_decisions.yml'', ''improvement_recommendations.md'',
                               ''load_plan.yml'', ''post_migration_checks.sql'',
                               ''copy_commands.sql'']
                              (st2\<lparr>ddl_script := Some ddl\<rparr>) of
                         (Some e, st3) \<Rightarrow> fail e st3
                       | (None, st3) \<Rightarrow>
                           (Inr plan_artifacts,
                            set_status AWAITING_CONFIRMATION
                              (log w ''INFO'' ''plan'' ''Migration plan generated''
                                 [(''artifacts'', JList (map JStr plan_artifacts))] st3))))))"

text \<open>\<open>s.strip()\<close>.\<close>

definition py_strip :: "string \<Rightarrow> string" where
  "py_strip s = rev (dropWhile is_space (rev (dropWhile is_space s)))"

text \<open>\<open>SnowflakeLoader.connect\<close> and \<open>execute_ddl_script\<close>.\<close>

definition loader_connect :: "world \<Rightarrow> SnowflakeLoader \<Rightarrow> exn option \<times> SnowflakeLoader" where
  "loader_connect w l =
     (case w_sf_connect w of
        Some e \<Rightarrow> (Some e, l)
      | None \<Rightarrow> (None, l\<lparr>conn := Some []\<rparr>))"

fun execute_statements :: "snowflake \<Rightarrow> SnowflakeLoader \<Rightarrow> string list \<Rightarrow> exn option \<times> SnowflakeLoader" where
  "execute_statements sf l [] = (None, l)"
| "execute_statements sf l (statement # rest) =
     (case sf_execute sf l statement of
        (Inl e, l') \<Rightarrow> (Some e, l')
      | (Inr res, l') \<Rightarrow> execute_statements sf l' rest)"

definition execute_ddl_script :: "snowflake \<Rightarrow> SnowflakeLoader \<Rightarrow> string \<Rightarrow> exn option \<times> SnowflakeLoader" where
  "execute_ddl_script sf l script =
     execute_statements sf l
       (map py_strip (filter (\<lambda>s. py_strip s \<noteq> []) (split_char CHR '';'' script)))"

text \<open>The statements a loader's connection has executed.\<close>

definition statements_of :: "SnowflakeLoader \<Rightarrow> string list" where
  "statements_of l = (case conn l of None \<Rightarrow> [] | Some executed \<Rightarrow> executed)"

text \<open>\<open>_execute_ddl\<close>: a loader of its own runs the script that \<open>plan\<close> wrote.\<close>

definition execute_ddl :: "world \<Rightarrow> orchestrator \<Rightarrow> exn option \<times> orchestrator" where
  "execute_ddl w st0 =
    (let st1 = log w ''INFO'' ''ddl'' ''Executing Snowflake DDL'' [] st0;
         fail = (\<lambda>e st.
           (Some e, log w ''ERROR'' ''ddl'' (''DDL execution failed: '' @ exn_str e) [] st))
     in case loader_connect w (SnowflakeLoader_init (snowflake (request st1))) of
          (Some e, l) \<Rightarrow> fail e st1
        | (None, l) \<Rightarrow>
            (let st2 = st1\<lparr>sf_connects := sf_connects st1 + 1\<rparr> in
             case ddl_script st2 of
               None \<Rightarrow> fail (Exception ''FileNotFoundError'') st2
             | Some script \<Rightarrow>
                 (case execute_ddl_script (w_sf w) l script of
                    (Some e, l') \<Rightarrow>
                      fail e (st2\<lparr>sf_statements := sf_statements st2 @ statements_of l'\<rparr>)
                  | (None, l') \<Rightarrow>
                      (None, log w ''INFO'' ''ddl'' ''DDL execution completed'' []
                               (st2\<lparr>sf_statements := sf_statements st2 @ statements_of l'\<rparr>)))))"

text \<open>\<open>MigrationPipeline.migrate_schema\<close>: both connections are opened before the tables
  are migrated; an exception of \<open>connect\<close> leaves the method.\<close>

definition migrate_schema ::
  "world \<Rightarrow> MigrationPreferences \<Rightarrow> string \<Rightarrow> SnowflakeLoader \<Rightarrow> string \<Rightarrow> table_detail list
     \<Rightarrow> (exn + table_result list) \<times> SnowflakeLoader"
where
  "migrate_schema w prefs temp_path l schema tds =
     (case w_pg_connect w of
        Some e \<Rightarrow> (Inl e, l)
      | None \<Rightarrow>
          (case loader_connect w l of
             (Some e, l') \<Rightarrow> (Inl e, l')
           | (None, l') \<Rightarrow>
               (case migrate_tables prefs temp_path (w_pg w) (w_sf w) l' schema tds of
                  (results, l'') \<Rightarrow> (Inr results, l''))))"

text \<open>The schema loop of \<open>execute\<close>, on the pipeline's loader.\<close>

fun migrate_schemas ::
  "world \<Rightarrow> SnowflakeLoader \<Rightarrow> orchestrator \<Rightarrow> schema_detail list \<Rightarrow> exn option \<times> orchestrator"
where
  "migrate_schemas w l st [] = (None, st)"
| "migrate_schemas w l st (sd # sds) =
     (let st1 = log w ''INFO'' ''execute'' (''Migrating schema: '' @ schema_name sd)
                  [(''table_count'', JInt (int (length (tables sd))))] st
      in case migrate_schema w (req_preferences (request st1))
                (path_join (w_temp_path w) (run_id st1)) l (schema_name sd) (tables sd) of
           (Inl e, l') \<Rightarrow> (Some e, st1)
         | (Inr schema_results, l') \<Rightarrow>
             migrate_schemas w l'
               (st1\<lparr>migration_results := migration_results st1 @ schema_results,
                    sf_connects := sf_connects st1 + 1,
                    sf_statements := sf_statements st1 @ statements_of l'\<rparr>)
               sds)"

text \<open>\<open>execute\<close> (phase 3).\<close>

definition execute :: "world \<Rightarrow> orchestrator \<Rightarrow> (exn + table_result list) \<times> orchestrator" where
  "execute w st0 =
    (if \<not> confirm (control (request st0)) then
       (Inl (Exception ''Migration execution requires explicit confirmation (confirm=true)''), st0)
     else
       (let st1 = set_status EXECUTING
                    (log w ''INFO'' ''execute'' ''Starting migration execution'' [] st0);
            fail = (\<lambda>e st.
              (Inl e, set_status FAILED
                        (log w ''ERROR'' ''execute'' (''Execution failed: '' @ exn_str e) [] st)))
        in case analysis_results st1 of
             None \<Rightarrow> fail (Exception ''Analysis results not available. Run analyze() first.'') st1
           | Some a \<Rightarrow>
               (case execute_ddl w st1 of
                  (Some e, st2) \<Rightarrow> fail e st2
                | (None, st2) \<Rightarrow>
                    (case migrate_schemas w (SnowflakeLoader_init (snowflake (request st2))) st2
                            (schemas a) of
                       (Some e, st3) \<Rightarrow> fail e st3
                     | (None, st3) \<Rightarrow>
                         (Inr (migration_results st3),
                          log w ''INFO'' ''execute'' ''Migration execution completed''
                            [(''total_tables'', JInt (int (length (migration_results st3)))),
                             (''successful'',
                              JInt (int (length (filter (\<lambda>r. tr_status r = ''completed'')
                                                   (migration_results st3)))))]
                            st3)))))"

text \<open>The table loop of \<open>validate\<close>, over the tables of all schemas in order: only a
  table with a \<open>completed\<close> migration result is validated.\<close>

fun validate_tables ::
  "world \<Rightarrow> orchestrator \<Rightarrow> (string \<times> table_detail) list \<Rightarrow> exn option \<times> orchestrator"
where
  "validate_tables w st [] = (None, st)"
| "validate_tables w st ((schema_nm, td) # rest) =
     (if list_ex (\<lambda>r. tr_schema r = schema_nm \<and> tr_table r = table_name td
                       \<and> tr_status r = ''completed'') (migration_results st)
      then
        (case w_validate_table w schema_nm (table_name td) of
           Inl e \<Rightarrow> (Some e, st)
         | Inr table_validations \<Rightarrow>
             validate_tables w
               (st\<lparr>validation_results := validation_results st @ table_validations\<rparr>) rest)
      else validate_tables w st rest)"

text \<open>\<open>validate\<close> (phase 4): an exception is logged and the results gathered so far are
  returned; the status stays \<open>VALIDATING\<close>.\<close>

definition validate :: "world \<Rightarrow> orchestrator \<Rightarrow> validation_result list \<times> orchestrator" where
  "validate w st0 =
    (let st1 = set_status VALIDATING
                 (log w ''INFO'' ''validate'' ''Starting data validation'' [] st0);
         fail = (\<lambda>e st.
           (validation_results st,
            log w ''ERROR'' ''validate'' (''Validation failed: '' @ exn_str e) [] st))
     in case w_validator_connect w of
          Some e \<Rightarrow> fail e st1
        | None \<Rightarrow>
            (let st2 = st1\<lparr>sf_connects := sf_connects st1 + 1\<rparr> in
             case analysis_results st2 of
               None \<Rightarrow> fail (Exception ''TypeError'') st2
             | Some a \<Rightarrow>
                 (case validate_tables w st2
                         (concat (map (\<lambda>sd. map (Pair (schema_name sd)) (tables sd)) (schemas a))) of
                    (Some e, st3) \<Rightarrow> fail e st3
                  | (None, st3) \<Rightarrow>
                      (validation_results st3,
                       log w ''INFO'' ''validate'' ''Validation completed''
                         [(''total_checks'', JInt (int (length (validation_results st3)))),
                          (''passed'',
                           JInt (int (length (filter (\<lambda>r. vr_status r = ''PASS'')
                                                (validation_results st3)))))]
                         st3))))"

text \<open>\<open>finalize\<close> (phase 5): the summary reads the analysis results, so it raises when
  there are none; the status is set from the migration results alone.\<close>

definition finalize :: "world \<Rightarrow> orchestrator \<Rightarrow> (exn + string) \<times> orchestrator" where
  "finalize w st0 =
    (let st1 = log w ''INFO'' ''finalize'' ''Generating final report'' [] st0;
         fail = (\<lambda>e st.
           (Inl e, log w ''ERROR'' ''finalize'' (''Finalization failed: '' @ exn_str e) [] st))
     in case analysis_results st1 of
          None \<Rightarrow> fail (Exception ''TypeError'') st1
        | Some a \<Rightarrow>
            (case write_artifact w ''summary.md'' st1 of
               (Some e, st2) \<Rightarrow> fail e st2
             | (None, st2) \<Rightarrow>
                 (case save_log w st2 of
                    (Some e, st3) \<Rightarrow> fail e st3
                  | (None, st3) \<Rightarrow>
                      (let failed_count =
                             length (filter (\<lambda>r. tr_status r = ''failed'') (migration_results st3));
                           st4 = set_status (if failed_count = 0 then COMPLETED else FAILED) st3
                       in (Inr (path_join (path_join (w_artifacts_path w) (run_id st4)) ''summary.md''),
                           log w ''INFO'' ''finalize'' ''Migration finalized''
                             [(''status'', JStr (status_value (status st4)))] st4)))))"

text \<open>The dictionary \<open>run_complete\<close> returns; \<open>summary\<close> holds the numbers of tables in
  total, successful and failed, and the total of rows.\<close>

record run_report =
  rr_run_id :: string
  rr_status :: string
  rr_message :: string
  rr_summary :: "(nat \<times> nat \<times> nat \<times> int) option"

definition run_complete :: "world \<Rightarrow> orchestrator \<Rightarrow> (exn + run_report) \<times> orchestrator" where
  "run_complete w st0 =
    (let handler = (\<lambda>e st.
           case save_log w (log w ''ERROR'' ''migration'' (''Migration failed: '' @ exn_str e) []
                              (set_status FAILED st)) of
             (Some e', st') \<Rightarrow> (Inl e', st')
           | (None, st') \<Rightarrow> (Inl e, st'))
     in case analyze w st0 of
          (Inl e, st1) \<Rightarrow> handler e st1
        | (Inr a, st1) \<Rightarrow>
            (case plan w st1 of
               (Inl e, st2) \<Rightarrow> handler e st2
             | (Inr plan_result, st2) \<Rightarrow>
                 if dry_run (req_preferences (request st2)) then
                   (case finalize w
                           (set_status COMPLETED
                              (log w ''INFO'' ''migration'' ''Dry run completed - no execution'' [] st2)) of
                      (Inl e, st3) \<Rightarrow> handler e st3
                    | (Inr summary_file, st3) \<Rightarrow>
                        (Inr \<lparr>rr_run_id = run_id st3, rr_status = status_value (status st3),
                              rr_message = ''Dry run completed. Review artifacts and re-run with confirm=true to execute.'',
                              rr_summary = None\<rparr>, st3))
                 else if confirm (control (request st2)) then
                   (case execute w st2 of
                      (Inl e, st3) \<Rightarrow> handler e st3
                    | (Inr results, st3) \<Rightarrow>
                        (case validate w st3 of
                           (validations, st4) \<Rightarrow>
                             (case finalize w st4 of
                                (Inl e, st5) \<Rightarrow> handler e st5
                              | (Inr summary_file, st5) \<Rightarrow>
                                  (Inr \<lparr>rr_run_id = run_id st5,
                                        rr_status = status_value (status st5),
                                        rr_message = ''Migration completed with status: ''
                                                       @ status_value (status st5),
                                        rr_summary = Some
                                          (length (migration_results st5),
                                           length (filter (\<lambda>r. tr_status r = ''completed'')
                                                      (migration_results st5)),
                                           length (filter (\<lambda>r. tr_status r = ''failed'')
                                                      (migration_results st5)),
                                           sum_list (map (\<lambda>r. case tr_rows_loaded r of
                                                                 None \<Rightarrow> 0 | Some n \<Rightarrow> n)
                                                       (migration_results st5)))\<rparr>,
                                   st5))))
                 else
                   (Inr \<lparr>rr_run_id = run_id st2,
                         rr_status = status_value AWAITING_CONFIRMATION,
                         rr_message = ''Plan generated. Review artifacts and re-run with confirm=true to execute migration.'',
                         rr_summary = None\<rparr>,
                    log w ''INFO'' ''migration'' ''Awaiting confirmation to execute'' [] st2)))"

text \<open>\<open>cancel_migration\<close> (main.py), on the orchestrator of the run.\<close>

definition cancel_migration :: "world \<Rightarrow> orchestrator \<Rightarrow> orchestrator" where
  "cancel_migration w st =
     log w ''INFO'' ''control'' ''Migration cancelled by user'' [] (set_status CANCELLED st)"

section \<open>Verified properties\<close>

subsection \<open>Evaluation rules, case conversion and array detection\<close>

lemma str_nat_small: "n < 10 \<Longrightarrow> str_nat n = [digit_char n]"
  by (simp add: str_nat.simps)

lemma str_nat_large: "10 \<le> n \<Longrightarrow> str_nat n = str_nat (n div 10) @ [digit_char (n mod 10)]"
  by (subst str_nat.simps) simp

lemmas str_eval = str_nat_small str_nat_large str_int_def digit_char_def ascii_digits_def

lemmas case_eval = py_lower_def py_upper_def lower_char_def upper_char_def
  ascii_uppercase_def ascii_lowercase_def

lemma lower_char_cases:
  "(c \<in> set ascii_uppercase \<and> lower_char c \<in> set ascii_lowercase)
   \<or> (c \<notin> set ascii_uppercase \<and> lower_char c = c)"
proof (cases "map_of (zip ascii_uppercase ascii_lowercase) c")
  case None
  then have "c \<notin> fst ` set (zip ascii_uppercase ascii_lowercase)"
    by (simp only: map_of_eq_None_iff not_False_eq_True)
  moreover have "map fst (zip ascii_uppercase ascii_lowercase) = ascii_uppercase"
    by (rule map_fst_zip) (simp add: ascii_uppercase_def ascii_lowercase_def)
  then have "fst ` set (zip ascii_uppercase ascii_lowercase) = set ascii_uppercase"
    by (metis set_map)
  ultimately have "c \<notin> set ascii_uppercase" by simp
  with None show ?thesis by (simp add: lower_char_def)
next
  case (Some d)
  then have "(c, d) \<in> set (zip ascii_uppercase ascii_lowercase)" by (rule map_of_SomeD)
  then have "c \<in> set ascii_uppercase" "d \<in> set ascii_lowercase"
    by (auto dest: set_zip_leftD set_zip_rightD)
  with Some show ?thesis by (simp add: lower_char_def)
qed

lemma lower_char_nonletter:
  assumes "x \<notin> set ascii_uppercase" and "x \<notin> set ascii_lowercase"
  shows "lower_char c = x \<longleftrightarrow> c = x"
  using lower_char_cases[of c] lower_char_cases[of x] assms by auto

lemma lower_char_bracket: "lower_char c = CHR ''['' \<longleftrightarrow> c = CHR ''[''"
  by (rule lower_char_nonletter) (simp_all add: ascii_uppercase_def ascii_lowercase_def)

lemma lower_char_rbracket: "lower_char c = CHR '']'' \<longleftrightarrow> c = CHR '']''"
  by (rule lower_char_nonletter) (simp_all add: ascii_uppercase_def ascii_lowercase_def)

lemma py_in_brackets_iff:
  "py_in ''[]'' s \<longleftrightarrow> (\<exists>i. Suc i < length s \<and> s ! i = CHR ''['' \<and> s ! Suc i = CHR '']'')"
proof (induction s)
  case Nil
  then show ?case by simp
next
  case (Cons c s)
  show ?case
  proof (cases s)
    case Nil
    then show ?thesis by simp
  next
    case (Cons d t)
    have "py_in ''[]'' (c # s) \<longleftrightarrow> (c = CHR ''['' \<and> d = CHR '']'') \<or> py_in ''[]'' s"
      using Cons by auto
    also have "\<dots> \<longleftrightarrow> (c = CHR ''['' \<and> d = CHR '']'') \<or>
        (\<exists>i. Suc i < length s \<and> s ! i = CHR ''['' \<and> s ! Suc i = CHR '']'')"
      using Cons.IH by simp
    also have "\<dots> \<longleftrightarrow>
        (\<exists>i. Suc i < length (c # s) \<and> (c # s) ! i = CHR ''['' \<and> (c # s) ! Suc i = CHR '']'')"
      (is "?L \<longleftrightarrow> ?R")
    proof
      assume ?L
      then show ?R
      proof
        assume "c = CHR ''['' \<and> d = CHR '']''"
        then show ?R using Cons by (intro exI[of _ 0]) simp
      next
        assume "\<exists>i. Suc i < length s \<and> s ! i = CHR ''['' \<and> s ! Suc i = CHR '']''"
        then obtain i where "Suc i < length s" "s ! i = CHR ''[''" "s ! Suc i = CHR '']''"
          by blast
        then show ?R by (intro exI[of _ "Suc i"]) simp
      qed
    next
      assume ?R
      then obtain i where i: "Suc i < length (c # s)" "(c # s) ! i = CHR ''[''"
          "(c # s) ! Suc i = CHR '']''"
        by blast
      show ?L
      proof (cases i)
        case 0
        then show ?thesis using i Cons by simp
      next
        case (Suc j)
        then show ?thesis using i by auto
      qed
    qed
    finally show ?thesis .
  qed
qed

lemma py_in_brackets_lower: "py_in ''[]'' (py_lower s) = py_in ''[]'' s"
  unfolding py_in_brackets_iff
  by (simp add: py_lower_def lower_char_bracket lower_char_rbracket cong: conj_cong)

lemma char_types_no_brackets:
  "t \<in> set [''character varying'', ''varchar'', ''character'', ''char''] \<Longrightarrow> \<not> py_in ''[]'' t"
  by auto

lemma py_lower_ARRAY: "py_lower ''ARRAY'' = ''array''"
  by (simp add: case_eval)

subsection \<open>Type mapper: the VARCHAR ceiling\<close>

text \<open>
  Claim C7. For a character type (\<open>character varying\<close>, \<open>varchar\<close>, \<open>character\<close>,
  \<open>char\<close>, in any letter case) with a declared maximum length \<open>n\<close> (PostgreSQL declares
  lengths of at least 1), \<open>map_type\<close> returns the bounded type \<open>VARCHAR(n)\<close> when
  \<open>n \<le> 16777216\<close>, the bound included, and the unbounded type \<open>VARCHAR\<close> with the
  rationale that the length exceeds the Snowflake maximum when \<open>n \<ge> 16777217\<close>.
\<close>

theorem map_type_varchar_ceiling:
  assumes "py_lower pg_type \<in> set [''character varying'', ''varchar'', ''character'', ''char'']"
    and "0 < n"
  shows "map_type pg_type udt (Some n) p s =
    (if n \<le> 16777216 then
       (''VARCHAR('' @ str_int n @ '')'', ''PostgreSQL '' @ pg_type @ '' with length preserved'')
     else
       (''VARCHAR'', ''PostgreSQL '' @ pg_type @ ''('' @ str_int n
          @ '') exceeds Snowflake max; using VARCHAR(16777216)''))"
proof -
  have nb: "\<not> py_in ''[]'' pg_type"
    using char_types_no_brackets[OF assms(1)] by (simp add: py_in_brackets_lower)
  have na: "pg_type \<noteq> ''ARRAY''"
    using assms(1) py_lower_ARRAY by auto
  have nn: "py_lower pg_type \<notin> set [''numeric'', ''decimal'']"
    using assms(1) by auto
  show ?thesis
    unfolding map_type_def Let_def
    using nb na nn assms by (simp del: py_in.simps set_simps)
qed

theorem map_type_varchar_ceiling_witness:
  "map_type ''VARCHAR'' None (Some 16777216) None None
     = (''VARCHAR(16777216)'', ''PostgreSQL VARCHAR with length preserved'')
   \<and> map_type ''varchar'' None (Some 16777217) None None
     = (''VARCHAR'', ''PostgreSQL varchar(16777217) exceeds Snowflake max; using VARCHAR(16777216)'')"
proof -
  have l1: "py_lower ''VARCHAR'' \<in> set [''character varying'', ''varchar'', ''character'', ''char'']"
    by (simp add: case_eval)
  have l2: "py_lower ''varchar'' \<in> set [''character varying'', ''varchar'', ''character'', ''char'']"
    by (simp add: case_eval)
  have s1: "str_int 16777216 = ''16777216''" by (simp add: str_eval)
  have s2: "str_int 16777217 = ''16777217''" by (simp add: str_eval)
  have p1: "(0::int) < 16777216" by simp
  have p2: "(0::int) < 16777217" by simp
  show ?thesis
    using map_type_varchar_ceiling[OF l1 p1, of None None None]
          map_type_varchar_ceiling[OF l2 p2, of None None None]
    by (simp add: s1 s2)
qed

subsection \<open>DDL emitter: identifier quoting\<close>

text \<open>
  Claim C6. An identifier that collides with a reserved word is emitted double-quoted; in
  particular a column named \<open>ORDER\<close> is emitted as the quoted \<open>"ORDER"\<close>. Evaluated on
  the code: \<open>quote_identifier\<close> emits \<open>ORDER\<close> bare, in either letter case of the
  source name, because the reserved-word set inside \<open>quote_identifier\<close> stops at
  \<open>DROP\<close>; the analyzer's reserved-word set contains \<open>ORDER\<close>, and a word of the
  emitter's own set, such as \<open>COPY\<close>, is quoted.
\<close>

theorem quote_identifier_ORDER_unquoted:
  "quote_identifier UPPER ''ORDER'' = ''ORDER''
   \<and> quote_identifier UPPER ''order'' = ''ORDER''
   \<and> ''ORDER'' \<in> set analyzer_reserved
   \<and> quote_identifier UPPER ''copy'' = dquote @ ''COPY'' @ dquote"
  by (simp add: quote_identifier_def normalize_identifier_def quote_reserved_def
      analyzer_reserved_def py_isalnum_def isalnum_char_def replace_char_def ascii_digits_def
      Let_def case_eval)

subsection \<open>Compatibility assessment: the large-varchar flag\<close>

lemma assess_column_large:
  "large_varchars (assess_column sn tn f col) =
     large_varchars f @ (if is_large_varchar col then [sn @ ''.'' @ tn @ ''.'' @ column_name col] else [])"
  by (simp add: assess_column_def Let_def)

lemma foldl_assess_column_large:
  "large_varchars (foldl (assess_column sn tn) f cols) =
     large_varchars f
       @ map (\<lambda>col. sn @ ''.'' @ tn @ ''.'' @ column_name col) (filter is_large_varchar cols)"
  by (induction cols arbitrary: f) (simp_all add: assess_column_large)

lemma foldl_triggers_large:
  "large_varchars (foldl (\<lambda>f trg. f\<lparr>flag_triggers := flag_triggers f @ [g trg]\<rparr>) f trgs)
     = large_varchars f"
  by (induction trgs arbitrary: f) simp_all

lemma foldl_functions_large:
  "large_varchars (foldl (\<lambda>f fn. f\<lparr>flag_functions := flag_functions f @ [g fn]\<rparr>) f fs)
     = large_varchars f"
  by (induction fs arbitrary: f) simp_all

lemma assess_table_large:
  "large_varchars (assess_table sn f td) =
     large_varchars f
       @ map (\<lambda>col. sn @ ''.'' @ table_name td @ ''.'' @ column_name col)
           (filter is_large_varchar (columns td))"
  by (simp add: assess_table_def Let_def foldl_triggers_large foldl_assess_column_large)

lemma foldl_assess_table_large:
  "large_varchars (foldl (assess_table sn) f tds) =
     large_varchars f
       @ concat (map (\<lambda>td. map (\<lambda>col. sn @ ''.'' @ table_name td @ ''.'' @ column_name col)
           (filter is_large_varchar (columns td))) tds)"
  by (induction tds arbitrary: f) (simp_all add: assess_table_large)

lemma assess_schema_large:
  "large_varchars (assess_schema f sd) =
     large_varchars f
       @ concat (map (\<lambda>td. map (\<lambda>col. schema_name sd @ ''.'' @ table_name td @ ''.'' @ column_name col)
           (filter is_large_varchar (columns td))) (tables sd))"
  by (simp add: assess_schema_def Let_def foldl_functions_large foldl_assess_table_large)

lemma foldl_assess_schema_large:
  "large_varchars (foldl assess_schema f sds) =
     large_varchars f
       @ concat (map (\<lambda>sd. concat (map (\<lambda>td.
            map (\<lambda>col. schema_name sd @ ''.'' @ table_name td @ ''.'' @ column_name col)
              (filter is_large_varchar (columns td))) (tables sd))) sds)"
  by (induction sds arbitrary: f) (simp_all add: assess_schema_large)

lemma is_large_varchar_iff:
  "is_large_varchar col \<longleftrightarrow>
     data_type col \<in> {''character varying'', ''text'', ''varchar''}
     \<and> (\<exists>n. character_maximum_length col = Some n \<and> 16000000 < n)"
  by (auto simp: is_large_varchar_def truthy_int_def split: option.splits)


text \<open>
  Claim C9, as stated, at a concrete analysis model: a \<open>character varying\<close> column of
  declared length 16,500,000 is flagged although the length does not exceed 16,777,216,
  and a \<open>character\<close> column of declared length 20,000,000 is not flagged although its
  length exceeds it.
\<close>

theorem large_varchar_flag_counterexample:
  "large_varchars (assess_compatibility
     [\<lparr>schema_name = ''s'',
       tables = [\<lparr>table_name = ''t'',
                  table_meta = \<lparr>total_size_bytes = Some 0, approximate_row_count = Some 0,
                                 table_comment = None\<rparr>,
                  columns =
                    [\<lparr>column_name = ''c'', data_type = ''character varying'', udt_name = Some ''varchar'',
                      character_maximum_length = Some 16500000, numeric_precision = None,
                      numeric_scale = None, is_nullable = ''YES'', column_default = None,
                      is_identity = ''NO'', identity_start = None, identity_increment = None,
                      column_comment = None, serial_sequence = None\<rparr>,
                     \<lparr>column_name = ''d'', data_type = ''character'', udt_name = Some ''bpchar'',
                      character_maximum_length = Some 20000000, numeric_precision = None,
                      numeric_scale = None, is_nullable = ''YES'', column_default = None,
                      is_identity = ''NO'', identity_start = None, identity_increment = None,
                      column_comment = None, serial_sequence = None\<rparr>],
                  table_constraints = \<lparr>primary_keys = [], unique_keys = [], foreign_keys = []\<rparr>,
                  triggers = []\<rparr>],
       sequences = [], views = [], schema_functions = []\<rparr>])
   = [''s.t.c''] \<and> \<not> (16777216::int) < 16500000 \<and> (16777216::int) < 20000000"
  by (simp add: assess_compatibility_def assess_schema_def assess_table_def assess_column_def
      is_large_varchar_def truthy_int_def Let_def case_eval analyzer_reserved_def)


text \<open>
  Claim C9, amended. The list \<open>large_varchars\<close> that \<open>_assess_compatibility\<close> returns
  names, in walk order, exactly the columns whose \<open>data_type\<close> is \<open>character varying\<close>,
  \<open>text\<close> or \<open>varchar\<close> and whose declared maximum length is present and greater than
  16,000,000. The assessment is a total function of the analysis model: it only fills
  the flag lists and raises nothing.
\<close>

theorem large_varchar_flag_threshold:
  "large_varchars (assess_compatibility sds) =
     concat (map (\<lambda>sd. concat (map (\<lambda>td.
        map (\<lambda>col. schema_name sd @ ''.'' @ table_name td @ ''.'' @ column_name col)
          (filter (\<lambda>col. data_type col \<in> {''character varying'', ''text'', ''varchar''}
                     \<and> (\<exists>n. character_maximum_length col = Some n \<and> 16000000 < n))
             (columns td))) (tables sd))) sds)"
proof -
  have "is_large_varchar = (\<lambda>col. data_type col \<in> {''character varying'', ''text'', ''varchar''}
                     \<and> (\<exists>n. character_maximum_length col = Some n \<and> 16000000 < n))"
    by (rule ext) (rule is_large_varchar_iff)
  then show ?thesis
    by (simp add: assess_compatibility_def foldl_assess_schema_large)
qed


subsection \<open>DDL emitter: the walk accumulates on the instance\<close>

lemma generate_table_ddl_fst:
  "preferences h = preferences g \<Longrightarrow>
   fst (generate_table_ddl h sn td) = fst (generate_table_ddl g sn td)"
  by (simp add: generate_table_ddl_def Let_def split: option.splits list.splits sum.splits)

lemma generate_table_ddl_snd:
  "preferences (snd (generate_table_ddl g sn td)) = preferences g
   \<and> gen_analysis (snd (generate_table_ddl g sn td)) = gen_analysis g
   \<and> mapping_decisions (snd (generate_table_ddl g sn td)) = mapping_decisions g"
  by (simp add: generate_table_ddl_def Let_def split: option.splits list.splits sum.splits)

lemma generate_table_ddl_mappings:
  "generate_table_ddl g sn td = (Inr (t, m), g') \<Longrightarrow>
   m = map (column_mapping sn (table_name td)) (columns td)"
  by (auto simp add: generate_table_ddl_def Let_def split: option.splits list.splits sum.splits if_splits)

lemma tables_ddl_state:
  "tables_ddl g sn tds = (Inr ls, g') \<Longrightarrow>
   preferences g' = preferences g \<and> gen_analysis g' = gen_analysis g \<and>
   mapping_decisions g' = mapping_decisions g
     @ concat (map (\<lambda>td. map (column_mapping sn (table_name td)) (columns td)) tds)"
proof (induction tds arbitrary: g ls g')
  case Nil
  then show ?case by simp
next
  case (Cons td tds)
  obtain r g1 where r: "generate_table_ddl g sn td = (r, g1)" by (cases "generate_table_ddl g sn td")
  from Cons.prems r obtain t m where rm: "r = Inr (t, m)"
    by (cases r) auto
  have m: "m = map (column_mapping sn (table_name td)) (columns td)"
    using r rm generate_table_ddl_mappings by blast
  have g1: "preferences g1 = preferences g" "gen_analysis g1 = gen_analysis g"
      "mapping_decisions g1 = mapping_decisions g"
    using generate_table_ddl_snd[of g sn td] r by simp_all
  let ?g2 = "g1\<lparr>mapping_decisions := mapping_decisions g1 @ m\<rparr>"
  obtain r2 g3 where r2: "tables_ddl ?g2 sn tds = (r2, g3)" by (cases "tables_ddl ?g2 sn tds")
  from Cons.prems r rm r2 obtain ls2 where ls2: "r2 = Inr ls2" "g' = g3"
    by (cases r2) auto
  from Cons.IH[of ?g2 ls2 g3] r2 ls2
  have "preferences g3 = preferences ?g2 \<and> gen_analysis g3 = gen_analysis ?g2 \<and>
     mapping_decisions g3 = mapping_decisions ?g2
       @ concat (map (\<lambda>td. map (column_mapping sn (table_name td)) (columns td)) tds)"
    by simp
  then show ?case using g1 m ls2 by simp
qed

lemma tables_ddl_rerun:
  "preferences h = preferences g \<Longrightarrow> fst (tables_ddl h sn tds) = fst (tables_ddl g sn tds)"
proof (induction tds arbitrary: g h)
  case Nil
  then show ?case by simp
next
  case (Cons td tds)
  obtain r g1 where r: "generate_table_ddl g sn td = (r, g1)" by (cases "generate_table_ddl g sn td")
  obtain r' h1 where r': "generate_table_ddl h sn td = (r', h1)" by (cases "generate_table_ddl h sn td")
  have rr: "r' = r" using generate_table_ddl_fst[OF Cons.prems, of sn td] r r' by simp
  have p: "preferences h1 = preferences g1"
    using generate_table_ddl_snd[of g sn td] generate_table_ddl_snd[of h sn td] r r' Cons.prems
    by simp
  show ?case
  proof (cases r)
    case (Inl e)
    then show ?thesis using r r' rr by simp
  next
    case (Inr tm)
    obtain t m where tm: "tm = (t, m)" by (cases tm)
    have "preferences (h1\<lparr>mapping_decisions := mapping_decisions h1 @ m\<rparr>)
        = preferences (g1\<lparr>mapping_decisions := mapping_decisions g1 @ m\<rparr>)"
      using p by simp
    from Cons.IH[OF this]
    show ?thesis using r r' rr Inr tm by (auto split: prod.splits sum.splits)
  qed
qed

lemma schemas_ddl_state:
  "schemas_ddl g sds = (Inr ls, g') \<Longrightarrow>
   preferences g' = preferences g \<and> gen_analysis g' = gen_analysis g \<and>
   mapping_decisions g' = mapping_decisions g
     @ concat (map (\<lambda>sd. concat (map (\<lambda>td. map (column_mapping (schema_name sd) (table_name td))
          (columns td)) (tables sd))) sds)"
proof (induction sds arbitrary: g ls g')
  case Nil
  then show ?case by simp
next
  case (Cons sd sds)
  obtain r g1 where r: "tables_ddl g (schema_name sd) (tables sd) = (r, g1)"
    by (cases "tables_ddl g (schema_name sd) (tables sd)")
  from Cons.prems r obtain tl where tl: "r = Inr tl"
    by (cases r) (auto simp: Let_def)
  note s1 = tables_ddl_state[OF r[unfolded tl]]
  obtain r2 g2 where r2: "schemas_ddl g1 sds = (r2, g2)" by (cases "schemas_ddl g1 sds")
  from Cons.prems r tl r2 obtain ls2 where ls2: "r2 = Inr ls2" "g' = g2"
    by (cases r2) (auto simp: Let_def)
  note s2 = Cons.IH[OF r2[unfolded ls2(1)]]
  show ?case using s1 s2 ls2 by simp
qed

lemma schemas_ddl_rerun:
  "preferences h = preferences g \<Longrightarrow> fst (schemas_ddl h sds) = fst (schemas_ddl g sds)"
proof (induction sds arbitrary: g h)
  case Nil
  then show ?case by simp
next
  case (Cons sd sds)
  obtain r g1 where r: "tables_ddl g (schema_name sd) (tables sd) = (r, g1)"
    by (cases "tables_ddl g (schema_name sd) (tables sd)")
  obtain r' h1 where r': "tables_ddl h (schema_name sd) (tables sd) = (r', h1)"
    by (cases "tables_ddl h (schema_name sd) (tables sd)")
  have rr: "r' = r" using tables_ddl_rerun[OF Cons.prems, of "schema_name sd" "tables sd"] r r' by simp
  show ?case
  proof (cases r)
    case (Inl e)
    then show ?thesis using r r' rr Cons.prems by (simp add: Let_def)
  next
    case (Inr tl)
    have "preferences h1 = preferences g1"
      using tables_ddl_state[OF r[unfolded Inr]] tables_ddl_state[OF r'[unfolded rr Inr]] Cons.prems
      by simp
    from Cons.IH[OF this]
    show ?thesis using r r' rr Inr Cons.prems by (auto simp: Let_def split: prod.splits sum.splits)
  qed
qed


text \<open>
  Claim C10. \<open>generate_complete_ddl\<close> appends the mapping decisions of its walk to the
  instance's \<open>mapping_decisions\<close>: when the first call on a new generator returns, a
  second call on the same instance returns the same DDL text, and the list that
  \<open>generate_mapping_decisions_yaml\<close> then dumps is the first walk's list twice over, so
  every mapping decision occurs in it twice as often as after the first call.
\<close>

theorem generate_complete_ddl_twice:
  assumes "generate_complete_ddl (SnowflakeGenerator_init a prefs) cfg = (Inr ddl, g1)"
  shows "\<exists>g2. generate_complete_ddl g1 cfg = (Inr ddl, g2)
     \<and> mapping_decisions g1 =
         concat (map (\<lambda>sd. concat (map (\<lambda>td. map (column_mapping (schema_name sd) (table_name td))
            (columns td)) (tables sd))) (schemas a))
     \<and> mappings (generate_mapping_decisions_yaml g2) = mapping_decisions g1 @ mapping_decisions g1
     \<and> (\<forall>d. count_list (mappings (generate_mapping_decisions_yaml g2)) d
             = 2 * count_list (mapping_decisions g1) d)"
proof -
  let ?g = "SnowflakeGenerator_init a prefs"
  obtain r g1' where r: "schemas_ddl ?g (schemas (gen_analysis ?g)) = (r, g1')"
    by (cases "schemas_ddl ?g (schemas (gen_analysis ?g))")
  from assms r obtain ls where ls: "r = Inr ls" "g1' = g1"
    by (cases r) (auto simp: generate_complete_ddl_def Let_def)
  note st = schemas_ddl_state[OF r[unfolded ls]]
  have ga: "gen_analysis ?g = a" "preferences ?g = prefs" "mapping_decisions ?g = []"
    by (simp_all add: SnowflakeGenerator_init_def)
  have ddl: "ddl = join newline
       ([''-- ============================================================================='',
            ''-- Snowflake Migration DDL'',
            ''-- Generated: '' @ analysis_timestamp (metadata a),
            ''-- Source: PostgreSQL '' @ database (metadata a),
            ''-- ============================================================================='',
            []]
           @ generate_database_ddl (case_style prefs) (cfg_database cfg)
           @ generate_stage_and_format prefs (cfg_stage cfg) (cfg_file_format cfg) @ ls)"
    using assms r ls by (simp add: generate_complete_ddl_def Let_def ga)
  obtain r2 g2 where r2: "schemas_ddl g1 (schemas (gen_analysis g1)) = (r2, g2)"
    by (cases "schemas_ddl g1 (schemas (gen_analysis g1))")
  have "fst (schemas_ddl g1 (schemas a)) = fst (schemas_ddl ?g (schemas a))"
    by (rule schemas_ddl_rerun) (simp add: st)
  then have r2v: "r2 = Inr ls" using r r2 ls st ga by simp
  note st2 = schemas_ddl_state[OF r2[unfolded r2v]]
  have run2: "generate_complete_ddl g1 cfg = (Inr ddl, g2)"
    using r2 r2v st ga ddl by (simp add: generate_complete_ddl_def Let_def)
  have m1: "mapping_decisions g1 =
         concat (map (\<lambda>sd. concat (map (\<lambda>td. map (column_mapping (schema_name sd) (table_name td))
            (columns td)) (tables sd))) (schemas a))"
    using st ga by simp
  have m2: "mapping_decisions g2 = mapping_decisions g1 @ mapping_decisions g1"
    using st2 st ga m1 by simp
  show ?thesis
    using run2 m1 m2 by (simp add: generate_mapping_decisions_yaml_def)
qed

theorem generate_complete_ddl_twice_witness:
  "\<exists>ddl g1 g2.
     generate_complete_ddl
       (SnowflakeGenerator_init
          \<lparr>metadata = \<lparr>analysis_timestamp = ''2024-01-01T00:00:00'', database = ''shop''\<rparr>,
           schemas =
             [\<lparr>schema_name = ''s1'',
               tables = [\<lparr>table_name = ''t1'',
                  table_meta = \<lparr>total_size_bytes = Some 8192, approximate_row_count = Some 3,
                                 table_comment = None\<rparr>,
                  columns =
                    [\<lparr>column_name = ''id'', data_type = ''integer'', udt_name = Some ''int4'',
                      character_maximum_length = None, numeric_precision = Some 32,
                      numeric_scale = Some 0, is_nullable = ''NO'', column_default = None,
                      is_identity = ''NO'', identity_start = None, identity_increment = None,
                      column_comment = None, serial_sequence = None\<rparr>],
                  table_constraints = \<lparr>primary_keys = [], unique_keys = [], foreign_keys = []\<rparr>,
                  triggers = []\<rparr>],
               sequences = [], views = [], schema_functions = []\<rparr>]\<rparr>
          \<lparr>format = CSV, max_chunk_mb = 200, parallelism = 4, use_identity_for_serial = True,
           cluster_key_hints = Map.empty, case_style = UPPER, dry_run = False\<rparr>)
       \<lparr>cfg_database = ''DB'', cfg_stage = ''STG'', cfg_file_format = ''FMT''\<rparr> = (Inr ddl, g1)
   \<and> generate_complete_ddl g1 \<lparr>cfg_database = ''DB'', cfg_stage = ''STG'', cfg_file_format = ''FMT''\<rparr>
        = (Inr ddl, g2)
   \<and> map md_column (mapping_decisions g1) = [''id'']
   \<and> map md_column (mappings (generate_mapping_decisions_yaml g2)) = [''id'', ''id'']"
proof -
  let ?a = "\<lparr>metadata = \<lparr>analysis_timestamp = ''2024-01-01T00:00:00'', database = ''shop''\<rparr>,
           schemas =
             [\<lparr>schema_name = ''s1'',
               tables = [\<lparr>table_name = ''t1'',
                  table_meta = \<lparr>total_size_bytes = Some 8192, approximate_row_count = Some 3,
                                 table_comment = None\<rparr>,
                  columns =
                    [\<lparr>column_name = ''id'', data_type = ''integer'', udt_name = Some ''int4'',
                      character_maximum_length = None, numeric_precision = Some 32,
                      numeric_scale = Some 0, is_nullable = ''NO'', column_default = None,
                      is_identity = ''NO'', identity_start = None, identity_increment = None,
                      column_comment = None, serial_sequence = None\<rparr>],
                  table_constraints = \<lparr>primary_keys = [], unique_keys = [], foreign_keys = []\<rparr>,
                  triggers = []\<rparr>],
               sequences = [], views = [], schema_functions = []\<rparr>]\<rparr>"
  let ?p = "\<lparr>format = CSV, max_chunk_mb = 200, parallelism = 4, use_identity_for_serial = True,
           cluster_key_hints = Map.empty, case_style = UPPER, dry_run = False\<rparr>"
  let ?c = "\<lparr>cfg_database = ''DB'', cfg_stage = ''STG'', cfg_file_format = ''FMT''\<rparr>"
  have "\<exists>ddl g1. generate_complete_ddl (SnowflakeGenerator_init ?a ?p) ?c = (Inr ddl, g1)"
    by (simp add: generate_complete_ddl_def SnowflakeGenerator_init_def generate_table_ddl_def
        table_ddl_tail_def truthy_str_def Let_def)
  then obtain ddl g1 where
    h: "generate_complete_ddl (SnowflakeGenerator_init ?a ?p) ?c = (Inr ddl, g1)" by blast
  from generate_complete_ddl_twice[OF h] obtain g2 where
    g2: "generate_complete_ddl g1 ?c = (Inr ddl, g2)"
    and m1: "mapping_decisions g1 =
         concat (map (\<lambda>sd. concat (map (\<lambda>td. map (column_mapping (schema_name sd) (table_name td))
            (columns td)) (tables sd))) (schemas ?a))"
    and m2: "mappings (generate_mapping_decisions_yaml g2) = mapping_decisions g1 @ mapping_decisions g1"
    by blast
  have c1: "map md_column (mapping_decisions g1) = [''id'']"
    unfolding m1 by (simp add: column_mapping_def split: prod.splits)
  show ?thesis
    using h g2 c1 m2 by (intro exI[of _ ddl] exI[of _ g1] exI[of _ g2]) simp
qed

subsection \<open>Extractor: chunk files\<close>





lemma str_nat_length_10: "n < 10 \<Longrightarrow> length (str_nat n) = 1"
  by (simp add: str_nat_small)




lemma replicate_3: "replicate 3 x = [x, x, x]"
  unfolding numeral_3_eq_3 by simp

lemma fmt_04d_1: "fmt_04d 1 = ''0001''" "fmt_04d 2 = ''0002''" "fmt_04d 3 = ''0003''"
  by (simp_all add: fmt_04d_def str_eval replicate_3)

















subsection \<open>Loader: one recorded success per staged file\<close>

lemma sf_execute_loaded: "sf_execute sf l stmt = (r, l') \<Longrightarrow> loaded_files l' = loaded_files l"
  by (auto simp: sf_execute_def split: option.splits)

lemma sf_execute_config: "sf_execute sf l stmt = (r, l') \<Longrightarrow> loader_config l' = loader_config l"
  by (auto simp: sf_execute_def split: option.splits)





lemma copy_body_returns:
  "\<exists>res l'. copy_into_table_body sf sc tb st fp ff cols l = (Inr res, l')
     \<and> lr_file res = fp \<and> loaded_files l' = loaded_files l \<and> loader_config l' = loader_config l
     \<and> (lr_status res = ''success'' \<or> lr_status res = ''failed'')"
proof -
  obtain r l1 where e: "sf_execute sf l
      (copy_command (sc @ ''.'' @ tb) (join '', '' (map (\<lambda>col. dquote @ col @ dquote) cols)) st fp ff)
      = (r, l1)"
    by (cases "sf_execute sf l
      (copy_command (sc @ ''.'' @ tb) (join '', '' (map (\<lambda>col. dquote @ col @ dquote) cols)) st fp ff)")
  show ?thesis
    using e sf_execute_loaded[OF e] sf_execute_config[OF e]
    by (cases r) (simp_all add: copy_into_table_body_def Let_def)
qed

lemma copy_into_table_is_body:
  "copy_into_table sf sc tb st fp ff cols l = copy_into_table_body sf sc tb st fp ff cols l"
proof -
  from copy_body_returns[of sf sc tb st fp ff cols l] obtain res l' where
    "copy_into_table_body sf sc tb st fp ff cols l = (Inr res, l')" by blast
  then show ?thesis by (simp add: copy_into_table_def numeral_3_eq_3)
qed



lemma fmt_04d_Suc0: "fmt_04d (Suc 0) = ''0001''"
  using fmt_04d_1(1) by simp

lemma basename_chunk: "basename ''/tmp/run/s_t_chunk_0001.csv.gz'' = ''s_t_chunk_0001.csv.gz''"
  by (simp add: basename_def)



subsection \<open>Loader: a failed COPY and the table's aggregate status\<close>

text \<open>
  Claim C1. When the COPY INTO of a staged file fails, the per-file load result has a failed
  status and the table's aggregate status is FAILED, not COMPLETED. Evaluated on the code,
  for a table of one row whose one chunk file is uploaded and whose COPY raises: the
  per-file result has status \<open>failed\<close>, and \<open>migrate_table\<close> returns the aggregate with
  status \<open>completed\<close>, zero rows loaded and no error. The connection has executed one PUT
  and one COPY: the \<open>except\<close> clause inside \<open>copy_into_table\<close> returns the failed result,
  so the retry decorator never sees an exception (lemma \<open>copy_into_table_is_body\<close>).
\<close>

theorem migrate_table_copy_failure_completed:
  "migrate_table
     \<lparr>format = CSV, max_chunk_mb = 200, parallelism = 4, use_identity_for_serial = True,
      cluster_key_hints = Map.empty, case_style = UPPER, dry_run = False\<rparr>
     ''/tmp/run''
     (\<lambda>query. [Inr [PgOther ''1'']])
     (\<lambda>executed stmt. if startswith stmt ''PUT'' then Inr [] else Inl (Exception ''COPY failed''))
     \<lparr>loader_config = \<lparr>sf_account = ''acct'', sf_warehouse = ''wh'', sf_database = ''db'',
          sf_default_role = ''role'', sf_schema = ''PUBLIC'', sf_stage = ''STG'',
          sf_file_format = ''FMT''\<rparr>,
      conn = Some [], loaded_files = {}\<rparr>
     ''s'' ''t'' [''id'']
   = (\<lparr>tr_schema = ''s'', tr_table = ''t'', tr_status = ''completed'',
       tr_rows_loaded = Some 0, tr_file_count = Some 1,
       tr_load_results =
         [\<lparr>lr_table = ''s.t'', lr_file = ''s_t_chunk_0001.csv.gz'', lr_rows_loaded = 0,
           lr_status = ''failed'', lr_error = Some ''COPY failed''\<rparr>],
       tr_error = None\<rparr>,
      \<lparr>loader_config = \<lparr>sf_account = ''acct'', sf_warehouse = ''wh'', sf_database = ''db'',
          sf_default_role = ''role'', sf_schema = ''PUBLIC'', sf_stage = ''STG'',
          sf_file_format = ''FMT''\<rparr>,
       conn = Some [''PUT file:///tmp/run/s_t_chunk_0001.csv.gz @STG AUTO_COMPRESS=FALSE OVERWRITE=FALSE'',
                    copy_command ''s.t'' (dquote @ ''id'' @ dquote) ''STG'' ''s_t_chunk_0001.csv.gz'' ''FMT''],
       loaded_files = {}\<rparr>)"
proof -
  have x: "extract_table_to_csv ''/tmp/run'' [Inr [PgOther ''1'']] ''s'' ''t'' [''id''] 100000
      = Inr ([''/tmp/run/s_t_chunk_0001.csv.gz''],
             [(''/tmp/run/s_t_chunk_0001.csv.gz'', ''id'' @ newline @ ''1'' @ newline)])"
    by (simp add: extract_table_to_csv_def csv_step_def csv_chunk_path_def path_join_def
        startswith_def endswith_def fmt_04d_Suc0 encode_value_def Let_def)
  have c: "startswith (copy_command a b c d e) ''PUT'' = False" for a b c d e
    by (simp add: copy_command_def startswith_def newline_def)
  show ?thesis
    by (simp add: migrate_table_def extract_table_def x load_table_def upload_file_to_stage_def
        upload_file_to_stage_body_def copy_into_table_is_body copy_into_table_body_def
        sf_execute_def basename_chunk numeral_3_eq_3 Let_def c exn_str_def)
       (simp add: startswith_def)
qed

subsection \<open>Orchestrator: what the phases leave behind\<close>

lemma log_frame [simp]:
  "request (log w lvl cat msg kw st) = request st"
  "run_id (log w lvl cat msg kw st) = run_id st"
  "status (log w lvl cat msg kw st) = status st"
  "status_history (log w lvl cat msg kw st) = status_history st"
  "analysis_results (log w lvl cat msg kw st) = analysis_results st"
  "migration_results (log w lvl cat msg kw st) = migration_results st"
  "validation_results (log w lvl cat msg kw st) = validation_results st"
  "artifact_names (log w lvl cat msg kw st) = artifact_names st"
  "ddl_script (log w lvl cat msg kw st) = ddl_script st"
  "run_log (log w lvl cat msg kw st) = run_log st"
  "sf_connects (log w lvl cat msg kw st) = sf_connects st"
  "sf_statements (log w lvl cat msg kw st) = sf_statements st"
  by (simp_all add: log_def)

lemma set_status_frame [simp]:
  "request (set_status s st) = request st"
  "run_id (set_status s st) = run_id st"
  "status (set_status s st) = s"
  "status_history (set_status s st) = status_history st @ [s]"
  "analysis_results (set_status s st) = analysis_results st"
  "migration_results (set_status s st) = migration_results st"
  "validation_results (set_status s st) = validation_results st"
  "log_entries (set_status s st) = log_entries st"
  "console (set_status s st) = console st"
  "artifact_names (set_status s st) = artifact_names st"
  "ddl_script (set_status s st) = ddl_script st"
  "run_log (set_status s st) = run_log st"
  "sf_connects (set_status s st) = sf_connects st"
  "sf_statements (set_status s st) = sf_statements st"
  by (simp_all add: set_status_def)

lemma write_artifact_ok:
  "w_write w name = None \<Longrightarrow>
   write_artifact w name st = (None, st\<lparr>artifact_names := artifact_names st @ [name]\<rparr>)"
  by (simp add: write_artifact_def)

lemma write_artifacts_ok:
  "\<forall>name. w_write w name = None \<Longrightarrow>
   write_artifacts w names st = (None, st\<lparr>artifact_names := artifact_names st @ names\<rparr>)"
  by (induction names arbitrary: st) (simp_all add: write_artifact_ok)

lemma analyze_ok:
  assumes "w_analyze w = Inr a" and "w_write w ''analysis_report.json'' = None"
  shows "\<exists>st'. analyze w st = (Inr a, st')
     \<and> request st' = request st \<and> run_id st' = run_id st
     \<and> status st' = ANALYZING \<and> status_history st' = status_history st @ [ANALYZING]
     \<and> analysis_results st' = Some a
     \<and> migration_results st' = migration_results st
     \<and> artifact_names st' = artifact_names st @ [''analysis_report.json'']
     \<and> sf_connects st' = sf_connects st \<and> sf_statements st' = sf_statements st"
  using assms by (simp add: analyze_def Let_def write_artifact_ok)

lemma plan_ok:
  assumes "analysis_results st = Some a"
    and "generate_complete_ddl (SnowflakeGenerator_init a (req_preferences (request st)))
           \<lparr>cfg_database = sf_database (snowflake (request st)),
            cfg_stage = sf_stage (snowflake (request st)),
            cfg_file_format = sf_file_format (snowflake (request st))\<rparr> = (Inr ddl, g)"
    and "\<forall>name. w_write w name = None"
  shows "\<exists>st'. plan w st = (Inr plan_artifacts, st')
     \<and> request st' = request st \<and> run_id st' = run_id st
     \<and> status st' = AWAITING_CONFIRMATION
     \<and> status_history st' = status_history st @ [PLANNING, AWAITING_CONFIRMATION]
     \<and> analysis_results st' = Some a
     \<and> migration_results st' = migration_results st
     \<and> artifact_names st' = artifact_names st @ tl plan_artifacts
     \<and> ddl_script st' = Some ddl
     \<and> sf_connects st' = sf_connects st \<and> sf_statements st' = sf_statements st"
  using assms
  by (simp add: plan_def Let_def write_artifact_ok write_artifacts_ok plan_artifacts_def)

lemma finalize_ok:
  assumes "analysis_results st = Some a"
    and "w_write w ''summary.md'' = None" and "w_write w ''run_log.ndjson'' = None"
  shows "\<exists>st'. finalize w st
        = (Inr (path_join (path_join (w_artifacts_path w) (run_id st)) ''summary.md''), st')
     \<and> request st' = request st \<and> run_id st' = run_id st
     \<and> status st' = (if filter (\<lambda>r. tr_status r = ''failed'') (migration_results st) = []
                      then COMPLETED else FAILED)
     \<and> status_history st' = status_history st @ [status st']
     \<and> analysis_results st' = Some a
     \<and> migration_results st' = migration_results st
     \<and> artifact_names st' = artifact_names st @ [''summary.md'', ''run_log.ndjson'']
     \<and> sf_connects st' = sf_connects st \<and> sf_statements st' = sf_statements st"
  using assms
  by (simp add: finalize_def Let_def write_artifact_ok save_log_def)

lemma init_fields [simp]:
  "request (MigrationOrchestrator_init w req) = req"
  "status (MigrationOrchestrator_init w req) = PENDING"
  "status_history (MigrationOrchestrator_init w req) = []"
  "analysis_results (MigrationOrchestrator_init w req) = None"
  "migration_results (MigrationOrchestrator_init w req) = []"
  "log_entries (MigrationOrchestrator_init w req) = []"
  "artifact_names (MigrationOrchestrator_init w req) = []"
  "sf_connects (MigrationOrchestrator_init w req) = 0"
  "sf_statements (MigrationOrchestrator_init w req) = []"
  by (simp_all add: MigrationOrchestrator_init_def)

lemma dry_run_flow:
  assumes dry: "dry_run (req_preferences req)"
    and an: "w_analyze w = Inr a"
    and gen: "generate_complete_ddl (SnowflakeGenerator_init a (req_preferences req))
           \<lparr>cfg_database = sf_database (snowflake req), cfg_stage = sf_stage (snowflake req),
            cfg_file_format = sf_file_format (snowflake req)\<rparr> = (Inr ddl, g)"
    and wr: "\<forall>name. w_write w name = None"
  shows "\<exists>report st.
       run_complete w (MigrationOrchestrator_init w req) = (Inr report, st)
     \<and> rr_status report = ''completed''
     \<and> status st = COMPLETED
     \<and> status_history st = [ANALYZING, PLANNING, AWAITING_CONFIRMATION, COMPLETED, COMPLETED]
     \<and> artifact_names st = plan_artifacts @ [''summary.md'', ''run_log.ndjson'']
     \<and> sf_connects st = 0 \<and> sf_statements st = [] \<and> migration_results st = []
     \<and> sum_list (map (\<lambda>r. case tr_rows_loaded r of None \<Rightarrow> 0 | Some n \<Rightarrow> n)
           (migration_results st)) = 0"
proof -
  let ?st0 = "MigrationOrchestrator_init w req"
  from analyze_ok[OF an wr[rule_format], of ?st0] obtain st1 where
    a1: "analyze w ?st0 = (Inr a, st1)"
    and r1: "request st1 = req" and s1: "status_history st1 = [ANALYZING]"
    and ar1: "analysis_results st1 = Some a" and m1: "migration_results st1 = []"
    and n1: "artifact_names st1 = [''analysis_report.json'']"
    and c1: "sf_connects st1 = 0" and q1: "sf_statements st1 = []"
    by auto
  have gen1: "generate_complete_ddl (SnowflakeGenerator_init a (req_preferences (request st1)))
           \<lparr>cfg_database = sf_database (snowflake (request st1)),
            cfg_stage = sf_stage (snowflake (request st1)),
            cfg_file_format = sf_file_format (snowflake (request st1))\<rparr> = (Inr ddl, g)"
    using gen r1 by simp
  from plan_ok[OF ar1 gen1 wr] obtain st2 where
    a2: "plan w st1 = (Inr plan_artifacts, st2)"
    and r2: "request st2 = req"
    and s2: "status_history st2 = [ANALYZING, PLANNING, AWAITING_CONFIRMATION]"
    and ar2: "analysis_results st2 = Some a" and m2: "migration_results st2 = []"
    and n2: "artifact_names st2 = plan_artifacts"
    and c2: "sf_connects st2 = 0" and q2: "sf_statements st2 = []"
    using r1 s1 m1 n1 c1 q1 by (auto simp: plan_artifacts_def)
  let ?st3 = "set_status COMPLETED
                (log w ''INFO'' ''migration'' ''Dry run completed - no execution'' [] st2)"
  have ar3: "analysis_results ?st3 = Some a" using ar2 by simp
  from finalize_ok[OF ar3 wr[rule_format] wr[rule_format]] obtain st4 where
    a4: "finalize w ?st3
        = (Inr (path_join (path_join (w_artifacts_path w) (run_id ?st3)) ''summary.md''), st4)"
    and st4: "status st4 = COMPLETED"
    and s4: "status_history st4 = [ANALYZING, PLANNING, AWAITING_CONFIRMATION, COMPLETED, COMPLETED]"
    and m4: "migration_results st4 = []"
    and n4: "artifact_names st4 = plan_artifacts @ [''summary.md'', ''run_log.ndjson'']"
    and c4: "sf_connects st4 = 0" and q4: "sf_statements st4 = []"
    using s2 m2 n2 c2 q2 by auto
  have run: "run_complete w ?st0
      = (Inr \<lparr>rr_run_id = run_id st4, rr_status = status_value (status st4),
              rr_message = ''Dry run completed. Review artifacts and re-run with confirm=true to execute.'',
              rr_summary = None\<rparr>, st4)"
    using a1 a2 a4 r2 dry by (simp add: run_complete_def)
  show ?thesis
    using run st4 s4 m4 n4 c4 q4 by (simp add: status_value_def)
qed

lemma run_complete_analysis_failure:
  assumes "w_analyze w = Inl e" and "w_write w ''run_log.ndjson'' = None"
  shows "\<exists>st. run_complete w (MigrationOrchestrator_init w req) = (Inl e, st)
     \<and> request st = req
     \<and> status st = FAILED
     \<and> status_history st = [ANALYZING, FAILED, FAILED]
     \<and> log_entries st =
         [\<lparr>ts = w_clock w 0, le_run_id = run_id (MigrationOrchestrator_init w req),
           level = ''INFO'', category = ''analyze'', message = ''Starting PostgreSQL analysis'',
           kwargs = []\<rparr>,
          \<lparr>ts = w_clock w 1, le_run_id = run_id (MigrationOrchestrator_init w req),
           level = ''ERROR'', category = ''analyze'',
           message = ''Analysis failed: '' @ exn_str e, kwargs = []\<rparr>,
          \<lparr>ts = w_clock w 2, le_run_id = run_id (MigrationOrchestrator_init w req),
           level = ''ERROR'', category = ''migration'',
           message = ''Migration failed: '' @ exn_str e, kwargs = []\<rparr>]
     \<and> run_log st = Some (map dumps_entry (log_entries st))
     \<and> console st =
         [add_redaction [(''event'', JStr ''Starting PostgreSQL analysis'')],
          add_redaction [(''event'', JStr (''Analysis failed: '' @ exn_str e))],
          add_redaction [(''event'', JStr (''Migration failed: '' @ exn_str e))]]"
  using assms
  by (simp add: run_complete_def analyze_def save_log_def write_artifact_def Let_def
      log_def set_status_def MigrationOrchestrator_init_def numeral_2_eq_2)

lemma write_artifact_cases:
  "\<exists>r st'. write_artifact w name st = (r, st')
     \<and> (r = None \<longleftrightarrow> w_write w name = None)
     \<and> st' = (if r = None then st\<lparr>artifact_names := artifact_names st @ [name]\<rparr> else st)"
  by (cases "w_write w name") (simp_all add: write_artifact_def)

lemma write_artifacts_cases:
  "\<exists>r st' ns. write_artifacts w names st = (r, st')
     \<and> (r = None \<longleftrightarrow> (\<forall>name \<in> set names. w_write w name = None))
     \<and> st' = st\<lparr>artifact_names := artifact_names st @ ns\<rparr>
     \<and> (r = None \<longrightarrow> ns = names)"
proof (induction names arbitrary: st)
  case Nil
  show ?case by simp
next
  case (Cons name names)
  show ?case
  proof (cases "w_write w name")
    case None
    let ?st = "st\<lparr>artifact_names := artifact_names st @ [name]\<rparr>"
    from Cons.IH[of ?st] obtain r st' ns where
      h: "write_artifacts w names ?st = (r, st')"
        "r = None \<longleftrightarrow> (\<forall>name \<in> set names. w_write w name = None)"
        "st' = ?st\<lparr>artifact_names := artifact_names ?st @ ns\<rparr>"
        "r = None \<longrightarrow> ns = names"
      by blast
    have "write_artifacts w (name # names) st = (r, st')"
      using None h(1) by (simp add: write_artifact_def)
    moreover have "r = None \<longleftrightarrow> (\<forall>n \<in> set (name # names). w_write w n = None)"
      using None h(2) by simp
    moreover have "st' = st\<lparr>artifact_names := artifact_names st @ (name # ns)\<rparr>"
      using h(3) by simp
    moreover have "r = None \<longrightarrow> name # ns = name # names" using h(4) by simp
    ultimately show ?thesis by blast
  next
    case (Some e)
    have "write_artifacts w (name # names) st = (Some e, st)"
      using Some by (simp add: write_artifact_def)
    moreover have "st = st\<lparr>artifact_names := artifact_names st @ []\<rparr>" by simp
    ultimately show ?thesis using Some by (intro exI[of _ "Some e"] exI[of _ st] exI[of _ "[]"]) simp
  qed
qed

lemma analyze_cases:
  "\<exists>r st'. analyze w st = (r, st')
     \<and> request st' = request st \<and> run_id st' = run_id st
     \<and> migration_results st' = migration_results st
     \<and> sf_connects st' = sf_connects st \<and> sf_statements st' = sf_statements st
     \<and> (case r of
          Inl e \<Rightarrow> (isl (w_analyze w) \<or> w_write w ''analysis_report.json'' \<noteq> None)
                   \<and> status st' = FAILED
                   \<and> status_history st' = status_history st @ [ANALYZING, FAILED]
        | Inr a \<Rightarrow> w_analyze w = Inr a \<and> w_write w ''analysis_report.json'' = None
                   \<and> status st' = ANALYZING
                   \<and> status_history st' = status_history st @ [ANALYZING]
                   \<and> analysis_results st' = Some a
                   \<and> artifact_names st' = artifact_names st @ [''analysis_report.json''])"
  by (cases "w_analyze w"; cases "w_write w ''analysis_report.json''")
     (simp_all add: analyze_def Let_def write_artifact_def)

lemma plan_cases:
  assumes ar: "analysis_results st = Some a"
  shows "\<exists>r st'. plan w st = (r, st')
     \<and> request st' = request st \<and> run_id st' = run_id st
     \<and> migration_results st' = migration_results st
     \<and> sf_connects st' = sf_connects st \<and> sf_statements st' = sf_statements st
     \<and> (isl r \<longleftrightarrow>
          isl (fst (generate_complete_ddl
                 (SnowflakeGenerator_init a (req_preferences (request st)))
                 \<lparr>cfg_database = sf_database (snowflake (request st)),
                  cfg_stage = sf_stage (snowflake (request st)),
                  cfg_file_format = sf_file_format (snowflake (request st))\<rparr>))
          \<or> (\<exists>name \<in> set (tl plan_artifacts). w_write w name \<noteq> None))
     \<and> (case r of
          Inl e \<Rightarrow> status st' = FAILED
                   \<and> status_history st' = status_history st @ [PLANNING, FAILED]
        | Inr arts \<Rightarrow> arts = plan_artifacts
                   \<and> status st' = AWAITING_CONFIRMATION
                   \<and> status_history st' = status_history st @ [PLANNING, AWAITING_CONFIRMATION]
                   \<and> analysis_results st' = Some a
                   \<and> artifact_names st' = artifact_names st @ tl plan_artifacts)"
proof -
  let ?st1 = "set_status PLANNING (log w ''INFO'' ''plan'' ''Generating migration plan'' [] st)"
  let ?gen = "generate_complete_ddl
                 (SnowflakeGenerator_init a (req_preferences (request st)))
                 \<lparr>cfg_database = sf_database (snowflake (request st)),
                  cfg_stage = sf_stage (snowflake (request st)),
                  cfg_file_format = sf_file_format (snowflake (request st))\<rparr>"
  let ?rest = "[''mapping_decisions.yml'', ''improvement_recommendations.md'',
               ''load_plan.yml'', ''post_migration_checks.sql'', ''copy_commands.sql'']"
  obtain gr g where gen: "?gen = (gr, g)" by (cases ?gen)
  show ?thesis
  proof (cases gr)
    case (Inl ge)
    then show ?thesis using ar gen by (simp add: plan_def Let_def)
  next
    case (Inr ddl)
    show ?thesis
    proof (cases "w_write w ''snowflake_objects.sql''")
      case (Some e)
      then show ?thesis using ar gen Inr
        by (simp add: plan_def Let_def write_artifact_def plan_artifacts_def)
    next
      case None
      let ?st2 = "?st1\<lparr>artifact_names := artifact_names ?st1 @ [''snowflake_objects.sql''],
                       ddl_script := Some ddl\<rparr>"
      from write_artifacts_cases[of w ?rest ?st2] obtain r3 st3 ns where
        w3: "write_artifacts w ?rest ?st2 = (r3, st3)"
        and r3: "r3 = None \<longleftrightarrow> (\<forall>name \<in> set ?rest. w_write w name = None)"
        and st3: "st3 = ?st2\<lparr>artifact_names := artifact_names ?st2 @ ns\<rparr>"
        and ns: "r3 = None \<longrightarrow> ns = ?rest"
        by blast
      show ?thesis
      proof (cases r3)
        case (Some e)
        have "\<exists>name \<in> set ?rest. w_write w name \<noteq> None" using r3 Some by simp
        then have ex: "\<exists>name \<in> set (tl plan_artifacts). w_write w name \<noteq> None"
          by (simp add: plan_artifacts_def)
        have "plan w st = (Inl e, set_status FAILED
                     (log w ''ERROR'' ''plan'' (''Planning failed: '' @ exn_str e) [] st3))"
          using ar gen Inr None w3 Some by (simp add: plan_def Let_def write_artifact_def)
        then show ?thesis using ex st3 by simp
      next
        case n3: None
        have all: "\<forall>name \<in> set (tl plan_artifacts). w_write w name = None"
          using r3 n3 None by (simp add: plan_artifacts_def)
        have ns': "ns = ?rest" using ns n3 by simp
        have "\<exists>st'. plan w st = (Inr plan_artifacts, st') \<and> request st' = request st
              \<and> run_id st' = run_id st \<and> migration_results st' = migration_results st
              \<and> sf_connects st' = sf_connects st \<and> sf_statements st' = sf_statements st
              \<and> status st' = AWAITING_CONFIRMATION
              \<and> status_history st' = status_history st @ [PLANNING, AWAITING_CONFIRMATION]
              \<and> analysis_results st' = Some a
              \<and> artifact_names st' = artifact_names st @ tl plan_artifacts"
          using ar gen Inr None w3 n3 st3 ns'
          by (simp add: plan_def Let_def write_artifact_def plan_artifacts_def)
        then show ?thesis using all gen Inr by auto
      qed
    qed
  qed
qed

lemma save_log_cases:
  "\<exists>r st'. save_log w st = (r, st')
     \<and> (r = None \<longleftrightarrow> w_write w ''run_log.ndjson'' = None)
     \<and> request st' = request st \<and> run_id st' = run_id st
     \<and> status st' = status st \<and> status_history st' = status_history st
     \<and> analysis_results st' = analysis_results st
     \<and> migration_results st' = migration_results st
     \<and> sf_connects st' = sf_connects st \<and> sf_statements st' = sf_statements st
     \<and> artifact_names st' = (if r = None then artifact_names st @ [''run_log.ndjson'']
                               else artifact_names st)"
  by (cases "w_write w ''run_log.ndjson''") (simp_all add: save_log_def write_artifact_def)

lemma finalize_cases:
  assumes ar: "analysis_results st = Some a" and mr: "migration_results st = []"
  shows "\<exists>r st'. finalize w st = (r, st')
     \<and> request st' = request st \<and> run_id st' = run_id st
     \<and> migration_results st' = []
     \<and> sf_connects st' = sf_connects st \<and> sf_statements st' = sf_statements st
     \<and> (isl r \<longleftrightarrow> w_write w ''summary.md'' \<noteq> None \<or> w_write w ''run_log.ndjson'' \<noteq> None)
     \<and> (case r of
          Inl e \<Rightarrow> status st' = status st \<and> status_history st' = status_history st
        | Inr f \<Rightarrow> status st' = COMPLETED
                   \<and> status_history st' = status_history st @ [COMPLETED]
                   \<and> artifact_names st' = artifact_names st @ [''summary.md'', ''run_log.ndjson''])"
  using ar mr
  by (cases "w_write w ''summary.md''"; cases "w_write w ''run_log.ndjson''")
     (simp_all add: finalize_def Let_def write_artifact_def save_log_def)

lemma handler_cases:
  "\<exists>e' st'.
     (case save_log w (log w ''ERROR'' ''migration'' (''Migration failed: '' @ exn_str e) []
                         (set_status FAILED st)) of
        (Some e2, s2) \<Rightarrow> (Inl e2, s2)
      | (None, s2) \<Rightarrow> (Inl e, s2)) = ((Inl e', st') :: (exn + run_report) \<times> orchestrator)
     \<and> status st' = FAILED \<and> status_history st' = status_history st @ [FAILED]
     \<and> migration_results st' = migration_results st
     \<and> sf_connects st' = sf_connects st \<and> sf_statements st' = sf_statements st"
  by (cases "w_write w ''run_log.ndjson''") (simp_all add: save_log_def write_artifact_def)

subsection \<open>Redaction and the persisted log\<close>

lemma match_json_field_no_quote:
  "c \<noteq> CHR 0x22 \<Longrightarrow> match_json_field name (c # s) = None"
proof -
  assume c: "c \<noteq> CHR 0x22"
  have "lower_char c \<noteq> CHR 0x22"
    using lower_char_nonletter[of "CHR 0x22" c] c
    by (simp add: ascii_uppercase_def ascii_lowercase_def)
  then have "py_lower (take (length (dquote @ name @ dquote)) (c # s)) \<noteq> dquote @ name @ dquote"
    by (simp add: dquote_def py_lower_def)
  then show ?thesis by (simp add: match_json_field_def Let_def)
qed

lemma sub_json_field_no_quote:
  "CHR 0x22 \<notin> set s \<Longrightarrow> sub_json_field name repl 0 s = s"
proof (induction s)
  case Nil
  show ?case by simp
next
  case (Cons c s)
  then have "c \<noteq> CHR 0x22" and "CHR 0x22 \<notin> set s" by auto
  then show ?case using Cons.IH by (simp add: match_json_field_no_quote)
qed

lemma sub_key_value_skip:
  "lower_char c \<noteq> k \<Longrightarrow>
   sub_key_value (k # key) repl 0 False (c # s) = c # sub_key_value (k # key) repl 0 False s"
  by (simp add: py_lower_def)

lemma lower_char_eval:
  "lower_char CHR ''A'' = CHR ''a''" "lower_char CHR ''M'' = CHR ''m''"
  "lower_char CHR ''a'' = CHR ''a''" "lower_char CHR ''b'' = CHR ''b''"
  "lower_char CHR ''c'' = CHR ''c''" "lower_char CHR ''d'' = CHR ''d''"
  "lower_char CHR ''e'' = CHR ''e''" "lower_char CHR ''f'' = CHR ''f''"
  "lower_char CHR ''g'' = CHR ''g''" "lower_char CHR ''i'' = CHR ''i''"
  "lower_char CHR ''l'' = CHR ''l''" "lower_char CHR ''n'' = CHR ''n''"
  "lower_char CHR ''o'' = CHR ''o''" "lower_char CHR ''p'' = CHR ''p''"
  "lower_char CHR ''r'' = CHR ''r''" "lower_char CHR ''s'' = CHR ''s''"
  "lower_char CHR ''t'' = CHR ''t''" "lower_char CHR ''w'' = CHR ''w''"
  "lower_char CHR ''y'' = CHR ''y''" "lower_char CHR '' '' = CHR '' ''"
  "lower_char CHR '':'' = CHR '':''" "lower_char CHR ''='' = CHR ''=''"
  "lower_char CHR ''3'' = CHR ''3''"
  by (simp_all add: lower_char_def ascii_uppercase_def ascii_lowercase_def)

lemma redact_analysis_message:
  "redact_sensitive_data ''Analysis failed: bad dsn password=s3cret''
     = ''Analysis failed: bad dsn password=***REDACTED***''"
proof -
  have nq: "CHR 0x22 \<notin> set ''Analysis failed: bad dsn password=s3cret''" by simp
  have kv: "sub_key_value ''password='' ''password=***REDACTED***'' 0 False
              ''Analysis failed: bad dsn password=s3cret''
            = ''Analysis failed: bad dsn password=***REDACTED***''"
    by (simp add: py_lower_def lower_char_eval is_space_def)
  have tk: "sub_key_value ''token='' ''token=***REDACTED***'' 0 False
              ''Analysis failed: bad dsn password=***REDACTED***''
            = ''Analysis failed: bad dsn password=***REDACTED***''"
    by (simp add: py_lower_def lower_char_eval is_space_def)
  show ?thesis
    unfolding redact_sensitive_data_def Let_def sub_json_field_no_quote[OF nq] kv tk ..
qed

lemma generate_complete_ddl_no_schema:
  "schemas a = [] \<Longrightarrow>
   \<exists>ddl. generate_complete_ddl (SnowflakeGenerator_init a prefs) cfg
     = (Inr ddl, SnowflakeGenerator_init a prefs)"
  by (simp add: generate_complete_ddl_def SnowflakeGenerator_init_def Let_def)

lemma cancel_migration_frame [simp]:
  "status (cancel_migration w st) = CANCELLED"
  "status_history (cancel_migration w st) = status_history st @ [CANCELLED]"
  "analysis_results (cancel_migration w st) = analysis_results st"
  "migration_results (cancel_migration w st) = migration_results st"
  by (simp_all add: cancel_migration_def)

lemma finalize_after_cancel:
  assumes "analysis_results st = Some a"
    and "filter (\<lambda>r. tr_status r = ''failed'') (migration_results st) = []"
    and "w_write w ''summary.md'' = None" and "w_write w ''run_log.ndjson'' = None"
  shows "\<exists>f st'. finalize w (cancel_migration w st) = (Inr f, st')
     \<and> status st' = COMPLETED
     \<and> status_history st' = status_history st @ [CANCELLED, COMPLETED]"
proof -
  have a: "analysis_results (cancel_migration w st) = Some a" using assms(1) by simp
  from finalize_ok[OF a assms(3) assms(4)] show ?thesis using assms(2) by auto
qed

lemma py_in_append: "py_in sub (a @ sub @ b)"
proof (induction a)
  case Nil
  show ?case
  proof (cases "sub @ b")
    case Nil
    then show ?thesis by simp
  next
    case (Cons c s)
    have "take (length sub) (sub @ b) = sub" by simp
    then have "take (length sub) (c # s) = sub" using Cons by simp
    then have "py_in sub (c # s)" by simp
    then show ?thesis using Cons by simp
  qed
next
  case (Cons x a)
  then show ?case by simp
qed

lemma join_contains: "x \<in> set xs \<Longrightarrow> \<exists>a b. join sep xs = a @ x @ b"
proof (induction sep xs rule: join.induct)
  case (1 sep)
  then show ?case by simp
next
  case (2 sep p)
  then have "join sep [p] = [] @ x @ []" by simp
  then show ?case by blast
next
  case (3 sep p q ps)
  show ?case
  proof (cases "x = p")
    case True
    then have "join sep (p # q # ps) = [] @ x @ (sep @ join sep (q # ps))" by simp
    then show ?thesis by blast
  next
    case False
    then have "x \<in> set (q # ps)" using 3 by auto
    from 3(1)[OF this] obtain a b where "join sep (q # ps) = a @ x @ b" by blast
    then have "join sep (p # q # ps) = (p @ sep @ a) @ x @ b" by simp
    then show ?thesis by blast
  qed
qed

lemma dumps_entry_keeps_secret:
  assumes m: "message e = a @ secret @ b"
    and plain: "concat (map json_escape_char secret) = secret"
  shows "py_in secret (dumps_entry e)"
proof -
  let ?item = "json_string ''message'' @ '': '' @ json_string (message e)"
  let ?items = "map (\<lambda>(key, v). json_string key @ '': '' @ json_dumps v)
           ([(''ts'', JStr (ts e)), (''run_id'', JStr (le_run_id e)), (''level'', JStr (level e)),
             (''category'', JStr (category e)), (''message'', JStr (message e))] @ kwargs e)"
  have "?item \<in> set ?items" by simp
  from join_contains[OF this] obtain p q where j: "join '', '' ?items = p @ ?item @ q" by blast
  have "json_string (message e)
      = (dquote @ concat (map json_escape_char a)) @ secret
          @ (concat (map json_escape_char b) @ dquote)"
    using m plain by (simp add: json_string_def)
  then have "dumps_entry e
      = (''{'' @ p @ json_string ''message'' @ '': '' @ dquote @ concat (map json_escape_char a))
        @ secret @ (concat (map json_escape_char b) @ dquote @ q @ ''}'')"
    unfolding dumps_entry_def j by simp
  then show ?thesis by (metis py_in_append)
qed

lemma secret_plain: "concat (map json_escape_char ''s3cret'') = ''s3cret''"
  by (simp add: json_escape_char_def)

subsection \<open>Orchestrator: the dry run\<close>

text \<open>
  Claim C8, as stated, at a concrete request with \<open>dry_run\<close> and \<open>confirm\<close> both true. When
  analysis and planning succeed, the values assigned to the status are \<open>ANALYZING\<close>,
  \<open>PLANNING\<close>, \<open>AWAITING_CONFIRMATION\<close>, \<open>COMPLETED\<close>, \<open>COMPLETED\<close>: \<open>plan\<close> ends by
  setting \<open>AWAITING_CONFIRMATION\<close>, so the run does not go from \<open>PLANNING\<close> to
  \<open>COMPLETED\<close>. When the analysis raises, the same request ends with status \<open>FAILED\<close>.
\<close>

theorem run_complete_dry_run_counterexample:
  "(\<exists>report st.
     run_complete
       \<lparr>w_uuid = ''u'', w_clock = (\<lambda>n. ''t''), w_artifacts_path = ''./artifacts'',
         w_temp_path = ''./temp'',
         w_analyze = Inr \<lparr>metadata = \<lparr>analysis_timestamp = ''2024-01-01T00:00:00'', database = ''shop''\<rparr>,
                          schemas = []\<rparr>,
         w_write = (\<lambda>name. None), w_sf_connect = None, w_sf = (\<lambda>executed stmt. Inr []),
         w_pg_connect = None, w_pg = (\<lambda>query. []), w_validator_connect = None,
         w_validate_table = (\<lambda>schema_nm table_nm. Inr [])\<rparr>
       (MigrationOrchestrator_init
          \<lparr>w_uuid = ''u'', w_clock = (\<lambda>n. ''t''), w_artifacts_path = ''./artifacts'',
         w_temp_path = ''./temp'',
         w_analyze = Inr \<lparr>metadata = \<lparr>analysis_timestamp = ''2024-01-01T00:00:00'', database = ''shop''\<rparr>,
                          schemas = []\<rparr>,
         w_write = (\<lambda>name. None), w_sf_connect = None, w_sf = (\<lambda>executed stmt. Inr []),
         w_pg_connect = None, w_pg = (\<lambda>query. []), w_validator_connect = None,
         w_validate_table = (\<lambda>schema_nm table_nm. Inr [])\<rparr>
          \<lparr>postgres = \<lparr>pg_host = ''db'', pg_port = 5432, pg_database = ''shop'',
                     pg_username = ''app'', pg_password = ''s3cret'', pg_schemas = [''*'']\<rparr>,
         snowflake = \<lparr>sf_account = ''acct'', sf_warehouse = ''wh'', sf_database = ''DB'',
                      sf_default_role = ''role'', sf_schema = ''PUBLIC'', sf_stage = ''STG'',
                      sf_file_format = ''FMT''\<rparr>,
         auth_access_token = ''tok'',
         req_preferences = \<lparr>format = CSV, max_chunk_mb = 200, parallelism = 4,
                            use_identity_for_serial = True, cluster_key_hints = Map.empty,
                            case_style = UPPER, dry_run = True\<rparr>,
         control = \<lparr>ctl_run_id = Some ''run-1'', confirm = True\<rparr>\<rparr>)
       = (Inr report, st)
     \<and> status_history st = [ANALYZING, PLANNING, AWAITING_CONFIRMATION, COMPLETED, COMPLETED])
   \<and> (\<exists>e st.
     run_complete
       \<lparr>w_uuid = ''u'', w_clock = (\<lambda>n. ''t''), w_artifacts_path = ''./artifacts'',
         w_temp_path = ''./temp'',
         w_analyze = Inl (Exception ''bad dsn password=s3cret''),
         w_write = (\<lambda>name. None), w_sf_connect = None, w_sf = (\<lambda>executed stmt. Inr []),
         w_pg_connect = None, w_pg = (\<lambda>query. []), w_validator_connect = None,
         w_validate_table = (\<lambda>schema_nm table_nm. Inr [])\<rparr>
       (MigrationOrchestrator_init
          \<lparr>w_uuid = ''u'', w_clock = (\<lambda>n. ''t''), w_artifacts_path = ''./artifacts'',
         w_temp_path = ''./temp'',
         w_analyze = Inl (Exception ''bad dsn password=s3cret''),
         w_write = (\<lambda>name. None), w_sf_connect = None, w_sf = (\<lambda>executed stmt. Inr []),
         w_pg_connect = None, w_pg = (\<lambda>query. []), w_validator_connect = None,
         w_validate_table = (\<lambda>schema_nm table_nm. Inr [])\<rparr>
          \<lparr>postgres = \<lparr>pg_host = ''db'', pg_port = 5432, pg_database = ''shop'',
                     pg_username = ''app'', pg_password = ''s3cret'', pg_schemas = [''*'']\<rparr>,
         snowflake = \<lparr>sf_account = ''acct'', sf_warehouse = ''wh'', sf_database = ''DB'',
                      sf_default_role = ''role'', sf_schema = ''PUBLIC'', sf_stage = ''STG'',
                      sf_file_format = ''FMT''\<rparr>,
         auth_access_token = ''tok'',
         req_preferences = \<lparr>format = CSV, max_chunk_mb = 200, parallelism = 4,
                            use_identity_for_serial = True, cluster_key_hints = Map.empty,
                            case_style = UPPER, dry_run = True\<rparr>,
         control = \<lparr>ctl_run_id = Some ''run-1'', confirm = True\<rparr>\<rparr>)
       = (Inl e, st)
     \<and> status st = FAILED \<and> status_history st = [ANALYZING, FAILED, FAILED])"
proof -
  let ?w = "\<lparr>w_uuid = ''u'', w_clock = (\<lambda>n. ''t''), w_artifacts_path = ''./artifacts'',
         w_temp_path = ''./temp'',
         w_analyze = Inr \<lparr>metadata = \<lparr>analysis_timestamp = ''2024-01-01T00:00:00'', database = ''shop''\<rparr>,
                          schemas = []\<rparr>,
         w_write = (\<lambda>name. None), w_sf_connect = None, w_sf = (\<lambda>executed stmt. Inr []),
         w_pg_connect = None, w_pg = (\<lambda>query. []), w_validator_connect = None,
         w_validate_table = (\<lambda>schema_nm table_nm. Inr [])\<rparr>"
  let ?w1 = "\<lparr>w_uuid = ''u'', w_clock = (\<lambda>n. ''t''), w_artifacts_path = ''./artifacts'',
         w_temp_path = ''./temp'',
         w_analyze = Inl (Exception ''bad dsn password=s3cret''),
         w_write = (\<lambda>name. None), w_sf_connect = None, w_sf = (\<lambda>executed stmt. Inr []),
         w_pg_connect = None, w_pg = (\<lambda>query. []), w_validator_connect = None,
         w_validate_table = (\<lambda>schema_nm table_nm. Inr [])\<rparr>"
  let ?r = "\<lparr>postgres = \<lparr>pg_host = ''db'', pg_port = 5432, pg_database = ''shop'',
                     pg_username = ''app'', pg_password = ''s3cret'', pg_schemas = [''*'']\<rparr>,
         snowflake = \<lparr>sf_account = ''acct'', sf_warehouse = ''wh'', sf_database = ''DB'',
                      sf_default_role = ''role'', sf_schema = ''PUBLIC'', sf_stage = ''STG'',
                      sf_file_format = ''FMT''\<rparr>,
         auth_access_token = ''tok'',
         req_preferences = \<lparr>format = CSV, max_chunk_mb = 200, parallelism = 4,
                            use_identity_for_serial = True, cluster_key_hints = Map.empty,
                            case_style = UPPER, dry_run = True\<rparr>,
         control = \<lparr>ctl_run_id = Some ''run-1'', confirm = True\<rparr>\<rparr>"
  let ?a = "\<lparr>metadata = \<lparr>analysis_timestamp = ''2024-01-01T00:00:00'', database = ''shop''\<rparr>,
                          schemas = []\<rparr>"
  have d: "dry_run (req_preferences ?r)" by simp
  have an: "w_analyze ?w = Inr ?a" by simp
  have wr: "\<forall>name. w_write ?w name = None" by simp
  have s: "schemas ?a = []" by simp
  from generate_complete_ddl_no_schema[OF s, of "req_preferences ?r"
      "\<lparr>cfg_database = sf_database (snowflake ?r), cfg_stage = sf_stage (snowflake ?r),
        cfg_file_format = sf_file_format (snowflake ?r)\<rparr>"]
  obtain ddl where
    gen: "generate_complete_ddl (SnowflakeGenerator_init ?a (req_preferences ?r))
           \<lparr>cfg_database = sf_database (snowflake ?r), cfg_stage = sf_stage (snowflake ?r),
            cfg_file_format = sf_file_format (snowflake ?r)\<rparr>
          = (Inr ddl, SnowflakeGenerator_init ?a (req_preferences ?r))" by blast
  from dry_run_flow[OF d an gen wr] have p1:
    "\<exists>report st. run_complete ?w (MigrationOrchestrator_init ?w ?r) = (Inr report, st)
     \<and> status_history st = [ANALYZING, PLANNING, AWAITING_CONFIRMATION, COMPLETED, COMPLETED]"
    by blast
  have f: "w_analyze ?w1 = Inl (Exception ''bad dsn password=s3cret'')" by simp
  have wl: "w_write ?w1 ''run_log.ndjson'' = None" by simp
  from run_complete_analysis_failure[OF f wl, of ?r] have p2:
    "\<exists>e st. run_complete ?w1 (MigrationOrchestrator_init ?w1 ?r) = (Inl e, st)
     \<and> status st = FAILED \<and> status_history st = [ANALYZING, FAILED, FAILED]"
    by blast
  show ?thesis using p1 p2 by blast
qed

lemma analyze_raises_iff:
  "isl (fst (analyze w st)) \<longleftrightarrow>
     isl (w_analyze w) \<or> w_write w ''analysis_report.json'' \<noteq> None"
  by (cases "w_analyze w"; cases "w_write w ''analysis_report.json''")
     (simp_all add: analyze_def Let_def write_artifact_def)

lemma plan_raises_iff:
  assumes "w_analyze w = Inr a" and "w_write w ''analysis_report.json'' = None"
  shows "isl (fst (plan w (snd (analyze w st)))) \<longleftrightarrow>
     isl (fst (generate_complete_ddl
                 (SnowflakeGenerator_init a (req_preferences (request st)))
                 \<lparr>cfg_database = sf_database (snowflake (request st)),
                  cfg_stage = sf_stage (snowflake (request st)),
                  cfg_file_format = sf_file_format (snowflake (request st))\<rparr>))
     \<or> (\<exists>name \<in> set (tl plan_artifacts). w_write w name \<noteq> None)"
proof -
  let ?st1 = "snd (analyze w st)"
  have r1: "request ?st1 = request st" and ar: "analysis_results ?st1 = Some a"
    using assms by (simp_all add: analyze_def Let_def write_artifact_def)
  from plan_cases[OF ar, of w] obtain r st' where
    p: "plan w ?st1 = (r, st')"
    and i: "isl r \<longleftrightarrow>
          isl (fst (generate_complete_ddl
                 (SnowflakeGenerator_init a (req_preferences (request ?st1)))
                 \<lparr>cfg_database = sf_database (snowflake (request ?st1)),
                  cfg_stage = sf_stage (snowflake (request ?st1)),
                  cfg_file_format = sf_file_format (snowflake (request ?st1))\<rparr>))
          \<or> (\<exists>name \<in> set (tl plan_artifacts). w_write w name \<noteq> None)"
    by blast
  show ?thesis using p i r1 by simp
qed

text \<open>
  Claim C8, amended. For every request with \<open>dry_run\<close> true, whatever \<open>confirm\<close> is, and
  whatever the analyzer and the file system do: \<open>run_complete\<close> opens no connection to the
  target and executes no statement on it (no DDL execution, no upload, no load), migrates
  no table, and the rows loaded total 0. If the run raises, it ends with status \<open>FAILED\<close>;
  it raises when \<open>analyze\<close> raises, the status then going \<open>ANALYZING\<close>, \<open>FAILED\<close>, and when
  \<open>plan\<close> raises, the status then going \<open>ANALYZING\<close>, \<open>PLANNING\<close>, \<open>FAILED\<close> (lemmas
  \<open>analyze_raises_iff\<close> and \<open>plan_raises_iff\<close> say on which inputs they raise). If the run
  returns, its status is \<open>completed\<close>, the status having gone \<open>ANALYZING\<close>, \<open>PLANNING\<close>,
  \<open>AWAITING_CONFIRMATION\<close> (set by \<open>plan\<close> after the artifacts are written) and then
  \<open>COMPLETED\<close>, and the seven planning artifacts, the summary and the run log are written.
  It returns whenever the analysis succeeds, the DDL is generated and these nine files can
  be written.
\<close>

theorem run_complete_dry_run:
  assumes dry: "dry_run (req_preferences req)"
  shows "\<exists>r st.
       run_complete w (MigrationOrchestrator_init w req) = (r, st)
     \<and> sf_connects st = 0 \<and> sf_statements st = [] \<and> migration_results st = []
     \<and> sum_list (map (\<lambda>r. case tr_rows_loaded r of None \<Rightarrow> 0 | Some n \<Rightarrow> n) (migration_results st)) = 0
     \<and> (isl r \<longrightarrow> status st = FAILED \<and> last (status_history st) = FAILED)
     \<and> (isl (fst (analyze w (MigrationOrchestrator_init w req))) \<longrightarrow>
          isl r \<and> status_history st = [ANALYZING, FAILED, FAILED])
     \<and> (\<not> isl (fst (analyze w (MigrationOrchestrator_init w req)))
          \<and> isl (fst (plan w (snd (analyze w (MigrationOrchestrator_init w req))))) \<longrightarrow>
          isl r \<and> status_history st = [ANALYZING, PLANNING, FAILED, FAILED])
     \<and> (\<forall>report. r = Inr report \<longrightarrow>
          rr_status report = ''completed'' \<and> status st = COMPLETED
          \<and> status_history st = [ANALYZING, PLANNING, AWAITING_CONFIRMATION, COMPLETED, COMPLETED]
          \<and> artifact_names st = plan_artifacts @ [''summary.md'', ''run_log.ndjson''])
     \<and> ((\<exists>a ddl g. w_analyze w = Inr a
            \<and> generate_complete_ddl (SnowflakeGenerator_init a (req_preferences req))
           \<lparr>cfg_database = sf_database (snowflake req), cfg_stage = sf_stage (snowflake req),
            cfg_file_format = sf_file_format (snowflake req)\<rparr> = (Inr ddl, g))
          \<and> (\<forall>name \<in> set (plan_artifacts @ [''summary.md'', ''run_log.ndjson'']).
                w_write w name = None) \<longrightarrow>
          (\<exists>report. r = Inr report \<and> rr_status report = ''completed'')
          \<and> status st = COMPLETED
          \<and> status_history st = [ANALYZING, PLANNING, AWAITING_CONFIRMATION, COMPLETED, COMPLETED]
          \<and> artifact_names st = plan_artifacts @ [''summary.md'', ''run_log.ndjson''])"
proof -
  let ?st0 = "MigrationOrchestrator_init w req"
  let ?ok = "(\<exists>a ddl g. w_analyze w = Inr a
            \<and> generate_complete_ddl (SnowflakeGenerator_init a (req_preferences req))
           \<lparr>cfg_database = sf_database (snowflake req), cfg_stage = sf_stage (snowflake req),
            cfg_file_format = sf_file_format (snowflake req)\<rparr> = (Inr ddl, g))
          \<and> (\<forall>name \<in> set (plan_artifacts @ [''summary.md'', ''run_log.ndjson'']).
                w_write w name = None)"
  from analyze_cases[of w ?st0] obtain r1 st1 where
    a1: "analyze w ?st0 = (r1, st1)"
    and q1: "request st1 = req" and m1: "migration_results st1 = []"
    and c1: "sf_connects st1 = 0" and s1: "sf_statements st1 = []"
    and k1: "case r1 of
          Inl e \<Rightarrow> (isl (w_analyze w) \<or> w_write w ''analysis_report.json'' \<noteq> None)
                   \<and> status st1 = FAILED
                   \<and> status_history st1 = status_history ?st0 @ [ANALYZING, FAILED]
        | Inr a \<Rightarrow> w_analyze w = Inr a \<and> w_write w ''analysis_report.json'' = None
                   \<and> status st1 = ANALYZING
                   \<and> status_history st1 = status_history ?st0 @ [ANALYZING]
                   \<and> analysis_results st1 = Some a
                   \<and> artifact_names st1 = artifact_names ?st0 @ [''analysis_report.json'']"
    by auto
  show ?thesis
  proof (cases r1)
    case (Inl e)
    from handler_cases[where w=w and e=e and st=st1] obtain e' st' where
      h: "(case save_log w (log w ''ERROR'' ''migration'' (''Migration failed: '' @ exn_str e) []
                         (set_status FAILED st1)) of
            (Some e2, s2) \<Rightarrow> (Inl e2, s2)
          | (None, s2) \<Rightarrow> (Inl e, s2)) = ((Inl e', st') :: (exn + run_report) \<times> orchestrator)"
      and hs: "status st' = FAILED" "status_history st' = status_history st1 @ [FAILED]"
        "migration_results st' = migration_results st1"
        "sf_connects st' = sf_connects st1" "sf_statements st' = sf_statements st1"
      by blast
    have run0: "run_complete w ?st0 =
        (case save_log w (log w ''ERROR'' ''migration'' (''Migration failed: '' @ exn_str e) []
                           (set_status FAILED st1)) of
           (Some e2, s2) \<Rightarrow> (Inl e2, s2)
         | (None, s2) \<Rightarrow> (Inl e, s2))"
      using a1 Inl by (simp add: run_complete_def)
    have run: "run_complete w ?st0 = (Inl e', st')"
      unfolding run0 by (rule h)
    have nok: "\<not> ?ok" using k1 Inl by (auto simp: plan_artifacts_def)
    have hist: "status_history st' = [ANALYZING, FAILED, FAILED]"
      using hs k1 Inl by simp
    show ?thesis
      using run hs(1) hist nok a1 Inl m1 c1 s1 hs(3,4,5) by simp
  next
    case (Inr a)
    have ar1: "analysis_results st1 = Some a" and h1: "status_history st1 = [ANALYZING]"
      and n1: "artifact_names st1 = [''analysis_report.json'']"
      and wa: "w_analyze w = Inr a" and w0: "w_write w ''analysis_report.json'' = None"
      using k1 Inr by simp_all
    from plan_cases[OF ar1, of w] obtain r2 st2 where
      a2: "plan w st1 = (r2, st2)"
      and q2: "request st2 = req" and m2: "migration_results st2 = []"
      and c2: "sf_connects st2 = 0" and s2: "sf_statements st2 = []"
      and i2: "isl r2 \<longleftrightarrow>
          isl (fst (generate_complete_ddl
                 (SnowflakeGenerator_init a (req_preferences (request st1)))
                 \<lparr>cfg_database = sf_database (snowflake (request st1)),
                  cfg_stage = sf_stage (snowflake (request st1)),
                  cfg_file_format = sf_file_format (snowflake (request st1))\<rparr>))
          \<or> (\<exists>name \<in> set (tl plan_artifacts). w_write w name \<noteq> None)"
      and k2: "case r2 of
          Inl e \<Rightarrow> status st2 = FAILED
                   \<and> status_history st2 = status_history st1 @ [PLANNING, FAILED]
        | Inr arts \<Rightarrow> arts = plan_artifacts
                   \<and> status st2 = AWAITING_CONFIRMATION
                   \<and> status_history st2 = status_history st1 @ [PLANNING, AWAITING_CONFIRMATION]
                   \<and> analysis_results st2 = Some a
                   \<and> artifact_names st2 = artifact_names st1 @ tl plan_artifacts"
      using q1 m1 c1 s1 by auto
    have an: "\<not> isl (fst (analyze w ?st0))" "snd (analyze w ?st0) = st1"
      using a1 Inr by simp_all
    show ?thesis
    proof (cases r2)
      case (Inl e)
      from handler_cases[where w=w and e=e and st=st2] obtain e' st' where
        h: "(case save_log w (log w ''ERROR'' ''migration'' (''Migration failed: '' @ exn_str e) []
                           (set_status FAILED st2)) of
              (Some e2, s2) \<Rightarrow> (Inl e2, s2)
            | (None, s2) \<Rightarrow> (Inl e, s2)) = ((Inl e', st') :: (exn + run_report) \<times> orchestrator)"
        and hs: "status st' = FAILED" "status_history st' = status_history st2 @ [FAILED]"
          "migration_results st' = migration_results st2"
          "sf_connects st' = sf_connects st2" "sf_statements st' = sf_statements st2"
        by blast
      have run0: "run_complete w ?st0 =
          (case save_log w (log w ''ERROR'' ''migration'' (''Migration failed: '' @ exn_str e) []
                             (set_status FAILED st2)) of
             (Some e2, s2) \<Rightarrow> (Inl e2, s2)
           | (None, s2) \<Rightarrow> (Inl e, s2))"
        using a1 \<open>r1 = Inr a\<close> a2 Inl by (simp add: run_complete_def)
      have run: "run_complete w ?st0 = (Inl e', st')"
        unfolding run0 by (rule h)
      have hist: "status_history st' = [ANALYZING, PLANNING, FAILED, FAILED]"
        using hs k2 Inl h1 by simp
      have nok: "\<not> ?ok"
      proof
        assume ok: ?ok
        then obtain ddl g where
          "generate_complete_ddl (SnowflakeGenerator_init a (req_preferences req))
           \<lparr>cfg_database = sf_database (snowflake req), cfg_stage = sf_stage (snowflake req),
            cfg_file_format = sf_file_format (snowflake req)\<rparr> = (Inr ddl, g)"
          using wa by auto
        then have "\<not> isl (fst (generate_complete_ddl
                 (SnowflakeGenerator_init a (req_preferences (request st1)))
                 \<lparr>cfg_database = sf_database (snowflake (request st1)),
                  cfg_stage = sf_stage (snowflake (request st1)),
                  cfg_file_format = sf_file_format (snowflake (request st1))\<rparr>))"
          using q1 by simp
        moreover have "\<forall>name \<in> set (tl plan_artifacts). w_write w name = None"
          using ok by (simp add: plan_artifacts_def)
        ultimately show False using i2 Inl by simp
      qed
      show ?thesis
        using run hs(1) hist nok an a2 Inl m2 c2 s2 hs(3,4,5) by simp
    next
      case r2: (Inr arts)
      have ar2: "analysis_results st2 = Some a"
        and h2: "status_history st2 = [ANALYZING, PLANNING, AWAITING_CONFIRMATION]"
        and n2: "artifact_names st2 = plan_artifacts"
        using k2 r2 h1 n1 by (simp_all add: plan_artifacts_def)
      let ?st3 = "set_status COMPLETED
                (log w ''INFO'' ''migration'' ''Dry run completed - no execution'' [] st2)"
      have ar3: "analysis_results ?st3 = Some a" using ar2 by simp
      have m3: "migration_results ?st3 = []" using m2 by simp
      from finalize_cases[OF ar3 m3, of w] obtain r4 st4 where
        a4: "finalize w ?st3 = (r4, st4)"
        and m4: "migration_results st4 = []"
        and c4: "sf_connects st4 = 0" and s4: "sf_statements st4 = []"
        and i4: "isl r4 \<longleftrightarrow> w_write w ''summary.md'' \<noteq> None \<or> w_write w ''run_log.ndjson'' \<noteq> None"
        and k4: "case r4 of
          Inl e \<Rightarrow> status st4 = status ?st3 \<and> status_history st4 = status_history ?st3
        | Inr f \<Rightarrow> status st4 = COMPLETED
                   \<and> status_history st4 = status_history ?st3 @ [COMPLETED]
                   \<and> artifact_names st4 = artifact_names ?st3 @ [''summary.md'', ''run_log.ndjson'']"
        using c2 s2 by auto
      have pl: "\<not> isl (fst (plan w (snd (analyze w ?st0))))"
        using an a2 r2 by simp
      show ?thesis
      proof (cases r4)
        case (Inl e)
        from handler_cases[where w=w and e=e and st=st4] obtain e' st' where
          h: "(case save_log w (log w ''ERROR'' ''migration'' (''Migration failed: '' @ exn_str e) []
                             (set_status FAILED st4)) of
                (Some e2, s2) \<Rightarrow> (Inl e2, s2)
              | (None, s2) \<Rightarrow> (Inl e, s2)) = ((Inl e', st') :: (exn + run_report) \<times> orchestrator)"
          and hs: "status st' = FAILED" "status_history st' = status_history st4 @ [FAILED]"
            "migration_results st' = migration_results st4"
            "sf_connects st' = sf_connects st4" "sf_statements st' = sf_statements st4"
          by blast
        have run0: "run_complete w ?st0 =
            (case save_log w (log w ''ERROR'' ''migration'' (''Migration failed: '' @ exn_str e) []
                               (set_status FAILED st4)) of
               (Some e2, s2) \<Rightarrow> (Inl e2, s2)
             | (None, s2) \<Rightarrow> (Inl e, s2))"
          using a1 \<open>r1 = Inr a\<close> a2 r2 q2 dry a4 Inl by (simp add: run_complete_def)
        have run: "run_complete w ?st0 = (Inl e', st')"
          unfolding run0 by (rule h)
        have nok: "\<not> ?ok" using i4 Inl by auto
        show ?thesis
          using run hs nok an pl m4 c4 s4 by simp
      next
        case r4: (Inr f)
        have st4: "status st4 = COMPLETED"
          and h4: "status_history st4
                     = [ANALYZING, PLANNING, AWAITING_CONFIRMATION, COMPLETED, COMPLETED]"
          and n4: "artifact_names st4 = plan_artifacts @ [''summary.md'', ''run_log.ndjson'']"
          using k4 r4 h2 n2 by simp_all
        have run: "run_complete w ?st0
          = (Inr \<lparr>rr_run_id = run_id st4, rr_status = status_value (status st4),
                  rr_message = ''Dry run completed. Review artifacts and re-run with confirm=true to execute.'',
                  rr_summary = None\<rparr>, st4)"
          using a1 \<open>r1 = Inr a\<close> a2 r2 q2 dry a4 r4 by (simp add: run_complete_def)
        show ?thesis
          using run st4 h4 n4 an pl m4 c4 s4 by (simp add: status_value_def)
      qed
    qed
  qed
qed

theorem run_complete_dry_run_witness:
  "dry_run (req_preferences
      \<lparr>postgres = \<lparr>pg_host = ''db'', pg_port = 5432, pg_database = ''shop'',
                     pg_username = ''app'', pg_password = ''s3cret'', pg_schemas = [''*'']\<rparr>,
         snowflake = \<lparr>sf_account = ''acct'', sf_warehouse = ''wh'', sf_database = ''DB'',
                      sf_default_role = ''role'', sf_schema = ''PUBLIC'', sf_stage = ''STG'',
                      sf_file_format = ''FMT''\<rparr>,
         auth_access_token = ''tok'',
         req_preferences = \<lparr>format = CSV, max_chunk_mb = 200, parallelism = 4,
                            use_identity_for_serial = True, cluster_key_hints = Map.empty,
                            case_style = UPPER, dry_run = True\<rparr>,
         control = \<lparr>ctl_run_id = Some ''run-1'', confirm = True\<rparr>\<rparr>)
   \<and> (\<exists>ddl g. generate_complete_ddl
        (SnowflakeGenerator_init
          \<lparr>metadata = \<lparr>analysis_timestamp = ''2024-01-01T00:00:00'', database = ''shop''\<rparr>,
           schemas =
             [\<lparr>schema_name = ''s1'',
               tables = [\<lparr>table_name = ''t1'',
                  table_meta = \<lparr>total_size_bytes = Some 8192, approximate_row_count = Some 3,
                                 table_comment = None\<rparr>,
                  columns =
                    [\<lparr>column_name = ''id'', data_type = ''integer'', udt_name = Some ''int4'',
                      character_maximum_length = None, numeric_precision = Some 32,
                      numeric_scale = Some 0, is_nullable = ''NO'', column_default = None,
                      is_identity = ''NO'', identity_start = None, identity_increment = None,
                      column_comment = None, serial_sequence = None\<rparr>],
                  table_constraints = \<lparr>primary_keys = [], unique_keys = [], foreign_keys = []\<rparr>,
                  triggers = []\<rparr>],
               sequences = [], views = [], schema_functions = []\<rparr>]\<rparr>
          \<lparr>format = CSV, max_chunk_mb = 200, parallelism = 4, use_identity_for_serial = True,
           cluster_key_hints = Map.empty, case_style = UPPER, dry_run = True\<rparr>)
        \<lparr>cfg_database = ''DB'', cfg_stage = ''STG'', cfg_file_format = ''FMT''\<rparr> = (Inr ddl, g))
   \<and> (\<exists>report st.
       run_complete
       \<lparr>w_uuid = ''u'', w_clock = (\<lambda>n. ''t''), w_artifacts_path = ''./artifacts'',
         w_temp_path = ''./temp'',
         w_analyze = Inr
          \<lparr>metadata = \<lparr>analysis_timestamp = ''2024-01-01T00:00:00'', database = ''shop''\<rparr>,
           schemas =
             [\<lparr>schema_name = ''s1'',
               tables = [\<lparr>table_name = ''t1'',
                  table_meta = \<lparr>total_size_bytes = Some 8192, approximate_row_count = Some 3,
                                 table_comment = None\<rparr>,
                  columns =
                    [\<lparr>column_name = ''id'', data_type = ''integer'', udt_name = Some ''int4'',
                      character_maximum_length = None, numeric_precision = Some 32,
                      numeric_scale = Some 0, is_nullable = ''NO'', column_default = None,
                      is_identity = ''NO'', identity_start = None, identity_increment = None,
                      column_comment = None, serial_sequence = None\<rparr>],
                  table_constraints = \<lparr>primary_keys = [], unique_keys = [], foreign_keys = []\<rparr>,
                  triggers = []\<rparr>],
               sequences = [], views = [], schema_functions = []\<rparr>]\<rparr>,
         w_write = (\<lambda>name. None),
         w_sf_connect = None, w_sf = (\<lambda>executed stmt. Inr []),
         w_pg_connect = None, w_pg = (\<lambda>query. [Inr [PgOther ''1'']]), w_validator_connect = None,
         w_validate_table = (\<lambda>schema_nm table_nm. Inr [])\<rparr>
       (MigrationOrchestrator_init
          \<lparr>w_uuid = ''u'', w_clock = (\<lambda>n. ''t''), w_artifacts_path = ''./artifacts'',
         w_temp_path = ''./temp'',
         w_analyze = Inr
          \<lparr>metadata = \<lparr>analysis_timestamp = ''2024-01-01T00:00:00'', database = ''shop''\<rparr>,
           schemas =
             [\<lparr>schema_name = ''s1'',
               tables = [\<lparr>table_name = ''t1'',
                  table_meta = \<lparr>total_size_bytes = Some 8192, approximate_row_count = Some 3,
                                 table_comment = None\<rparr>,
                  columns =
                    [\<lparr>column_name = ''id'', data_type = ''integer'', udt_name = Some ''int4'',
                      character_maximum_length = None, numeric_precision = Some 32,
                      numeric_scale = Some 0, is_nullable = ''NO'', column_default = None,
                      is_identity = ''NO'', identity_start = None, identity_increment = None,
                      column_comment = None, serial_sequence = None\<rparr>],
                  table_constraints = \<lparr>primary_keys = [], unique_keys = [], foreign_keys = []\<rparr>,
                  triggers = []\<rparr>],
               sequences = [], views = [], schema_functions = []\<rparr>]\<rparr>,
         w_write = (\<lambda>name. None),
         w_sf_connect = None, w_sf = (\<lambda>executed stmt. Inr []),
         w_pg_connect = None, w_pg = (\<lambda>query. [Inr [PgOther ''1'']]), w_validator_connect = None,
         w_validate_table = (\<lambda>schema_nm table_nm. Inr [])\<rparr>
          \<lparr>postgres = \<lparr>pg_host = ''db'', pg_port = 5432, pg_database = ''shop'',
                     pg_username = ''app'', pg_password = ''s3cret'', pg_schemas = [''*'']\<rparr>,
         snowflake = \<lparr>sf_account = ''acct'', sf_warehouse = ''wh'', sf_database = ''DB'',
                      sf_default_role = ''role'', sf_schema = ''PUBLIC'', sf_stage = ''STG'',
                      sf_file_format = ''FMT''\<rparr>,
         auth_access_token = ''tok'',
         req_preferences = \<lparr>format = CSV, max_chunk_mb = 200, parallelism = 4,
                            use_identity_for_serial = True, cluster_key_hints = Map.empty,
                            case_style = UPPER, dry_run = True\<rparr>,
         control = \<lparr>ctl_run_id = Some ''run-1'', confirm = True\<rparr>\<rparr>)
       = (Inr report, st)
     \<and> rr_status report = ''completed'' \<and> status st = COMPLETED
     \<and> status_history st = [ANALYZING, PLANNING, AWAITING_CONFIRMATION, COMPLETED, COMPLETED]
     \<and> sf_connects st = 0 \<and> sf_statements st = [] \<and> migration_results st = [])
   \<and> isl (fst (plan
       \<lparr>w_uuid = ''u'', w_clock = (\<lambda>n. ''t''), w_artifacts_path = ''./artifacts'',
         w_temp_path = ''./temp'',
         w_analyze = Inr
          \<lparr>metadata = \<lparr>analysis_timestamp = ''2024-01-01T00:00:00'', database = ''shop''\<rparr>,
           schemas =
             [\<lparr>schema_name = ''s1'',
               tables = [\<lparr>table_name = ''t1'',
                  table_meta = \<lparr>total_size_bytes = Some 8192, approximate_row_count = Some 3,
                                 table_comment = None\<rparr>,
                  columns =
                    [\<lparr>column_name = ''id'', data_type = ''integer'', udt_name = Some ''int4'',
                      character_maximum_length = None, numeric_precision = Some 32,
                      numeric_scale = Some 0, is_nullable = ''NO'', column_default = None,
                      is_identity = ''NO'', identity_start = None, identity_increment = None,
                      column_comment = None, serial_sequence = None\<rparr>],
                  table_constraints = \<lparr>primary_keys = [], unique_keys = [], foreign_keys = []\<rparr>,
                  triggers = []\<rparr>],
               sequences = [], views = [], schema_functions = []\<rparr>]\<rparr>,
         w_write = (\<lambda>name. if name = ''load_plan.yml'' then Some (Exception ''No space left on device'') else None),
         w_sf_connect = None, w_sf = (\<lambda>executed stmt. Inr []),
         w_pg_connect = None, w_pg = (\<lambda>query. [Inr [PgOther ''1'']]), w_validator_connect = None,
         w_validate_table = (\<lambda>schema_nm table_nm. Inr [])\<rparr>
       (snd (analyze
       \<lparr>w_uuid = ''u'', w_clock = (\<lambda>n. ''t''), w_artifacts_path = ''./artifacts'',
         w_temp_path = ''./temp'',
         w_analyze = Inr
          \<lparr>metadata = \<lparr>analysis_timestamp = ''2024-01-01T00:00:00'', database = ''shop''\<rparr>,
           schemas =
             [\<lparr>schema_name = ''s1'',
               tables = [\<lparr>table_name = ''t1'',
                  table_meta = \<lparr>total_size_bytes = Some 8192, approximate_row_count = Some 3,
                                 table_comment = None\<rparr>,
                  columns =
                    [\<lparr>column_name = ''id'', data_type = ''integer'', udt_name = Some ''int4'',
                      character_maximum_length = None, numeric_precision = Some 32,
                      numeric_scale = Some 0, is_nullable = ''NO'', column_default = None,
                      is_identity = ''NO'', identity_start = None, identity_increment = None,
                      column_comment = None, serial_sequence = None\<rparr>],
                  table_constraints = \<lparr>primary_keys = [], unique_keys = [], foreign_keys = []\<rparr>,
                  triggers = []\<rparr>],
               sequences = [], views = [], schema_functions = []\<rparr>]\<rparr>,
         w_write = (\<lambda>name. if name = ''load_plan.yml'' then Some (Exception ''No space left on device'') else None),
         w_sf_connect = None, w_sf = (\<lambda>executed stmt. Inr []),
         w_pg_connect = None, w_pg = (\<lambda>query. [Inr [PgOther ''1'']]), w_validator_connect = None,
         w_validate_table = (\<lambda>schema_nm table_nm. Inr [])\<rparr>
       (MigrationOrchestrator_init
          \<lparr>w_uuid = ''u'', w_clock = (\<lambda>n. ''t''), w_artifacts_path = ''./artifacts'',
         w_temp_path = ''./temp'',
         w_analyze = Inr
          \<lparr>metadata = \<lparr>analysis_timestamp = ''2024-01-01T00:00:00'', database = ''shop''\<rparr>,
           schemas =
             [\<lparr>schema_name = ''s1'',
               tables = [\<lparr>table_name = ''t1'',
                  table_meta = \<lparr>total_size_bytes = Some 8192, approximate_row_count = Some 3,
                                 table_comment = None\<rparr>,
                  columns =
                    [\<lparr>column_name = ''id'', data_type = ''integer'', udt_name = Some ''int4'',
                      character_maximum_length = None, numeric_precision = Some 32,
                      numeric_scale = Some 0, is_nullable = ''NO'', column_default = None,
                      is_identity = ''NO'', identity_start = None, identity_increment = None,
                      column_comment = None, serial_sequence = None\<rparr>],
                  table_constraints = \<lparr>primary_keys = [], unique_keys = [], foreign_keys = []\<rparr>,
                  triggers = []\<rparr>],
               sequences = [], views = [], schema_functions = []\<rparr>]\<rparr>,
         w_write = (\<lambda>name. if name = ''load_plan.yml'' then Some (Exception ''No space left on device'') else None),
         w_sf_connect = None, w_sf = (\<lambda>executed stmt. Inr []),
         w_pg_connect = None, w_pg = (\<lambda>query. [Inr [PgOther ''1'']]), w_validator_connect = None,
         w_validate_table = (\<lambda>schema_nm table_nm. Inr [])\<rparr>
          \<lparr>postgres = \<lparr>pg_host = ''db'', pg_port = 5432, pg_database = ''shop'',
                     pg_username = ''app'', pg_password = ''s3cret'', pg_schemas = [''*'']\<rparr>,
         snowflake = \<lparr>sf_account = ''acct'', sf_warehouse = ''wh'', sf_database = ''DB'',
                      sf_default_role = ''role'', sf_schema = ''PUBLIC'', sf_stage = ''STG'',
                      sf_file_format = ''FMT''\<rparr>,
         auth_access_token = ''tok'',
         req_preferences = \<lparr>format = CSV, max_chunk_mb = 200, parallelism = 4,
                            use_identity_for_serial = True, cluster_key_hints = Map.empty,
                            case_style = UPPER, dry_run = True\<rparr>,
         control = \<lparr>ctl_run_id = Some ''run-1'', confirm = True\<rparr>\<rparr>)))))
   \<and> (\<exists>e st.
       run_complete
       \<lparr>w_uuid = ''u'', w_clock = (\<lambda>n. ''t''), w_artifacts_path = ''./artifacts'',
         w_temp_path = ''./temp'',
         w_analyze = Inr
          \<lparr>metadata = \<lparr>analysis_timestamp = ''2024-01-01T00:00:00'', database = ''shop''\<rparr>,
           schemas =
             [\<lparr>schema_name = ''s1'',
               tables = [\<lparr>table_name = ''t1'',
                  table_meta = \<lparr>total_size_bytes = Some 8192, approximate_row_count = Some 3,
                                 table_comment = None\<rparr>,
                  columns =
                    [\<lparr>column_name = ''id'', data_type = ''integer'', udt_name = Some ''int4'',
                      character_maximum_length = None, numeric_precision = Some 32,
                      numeric_scale = Some 0, is_nullable = ''NO'', column_default = None,
                      is_identity = ''NO'', identity_start = None, identity_increment = None,
                      column_comment = None, serial_sequence = None\<rparr>],
                  table_constraints = \<lparr>primary_keys = [], unique_keys = [], foreign_keys = []\<rparr>,
                  triggers = []\<rparr>],
               sequences = [], views = [], schema_functions = []\<rparr>]\<rparr>,
         w_write = (\<lambda>name. if name = ''load_plan.yml'' then Some (Exception ''No space left on device'') else None),
         w_sf_connect = None, w_sf = (\<lambda>executed stmt. Inr []),
         w_pg_connect = None, w_pg = (\<lambda>query. [Inr [PgOther ''1'']]), w_validator_connect = None,
         w_validate_table = (\<lambda>schema_nm table_nm. Inr [])\<rparr>
       (MigrationOrchestrator_init
          \<lparr>w_uuid = ''u'', w_clock = (\<lambda>n. ''t''), w_artifacts_path = ''./artifacts'',
         w_temp_path = ''./temp'',
         w_analyze = Inr
          \<lparr>metadata = \<lparr>analysis_timestamp = ''2024-01-01T00:00:00'', database = ''shop''\<rparr>,
           schemas =
             [\<lparr>schema_name = ''s1'',
               tables = [\<lparr>table_name = ''t1'',
                  table_meta = \<lparr>total_size_bytes = Some 8192, approximate_row_count = Some 3,
                                 table_comment = None\<rparr>,
                  columns =
                    [\<lparr>column_name = ''id'', data_type = ''integer'', udt_name = Some ''int4'',
                      character_maximum_length = None, numeric_precision = Some 32,
                      numeric_scale = Some 0, is_nullable = ''NO'', column_default = None,
                      is_identity = ''NO'', identity_start = None, identity_increment = None,
                      column_comment = None, serial_sequence = None\<rparr>],
                  table_constraints = \<lparr>primary_keys = [], unique_keys = [], foreign_keys = []\<rparr>,
                  triggers = []\<rparr>],
               sequences = [], views = [], schema_functions = []\<rparr>]\<rparr>,
         w_write = (\<lambda>name. if name = ''load_plan.yml'' then Some (Exception ''No space left on device'') else None),
         w_sf_connect = None, w_sf = (\<lambda>executed stmt. Inr []),
         w_pg_connect = None, w_pg = (\<lambda>query. [Inr [PgOther ''1'']]), w_validator_connect = None,
         w_validate_table = (\<lambda>schema_nm table_nm. Inr [])\<rparr>
          \<lparr>postgres = \<lparr>pg_host = ''db'', pg_port = 5432, pg_database = ''shop'',
                     pg_username = ''app'', pg_password = ''s3cret'', pg_schemas = [''*'']\<rparr>,
         snowflake = \<lparr>sf_account = ''acct'', sf_warehouse = ''wh'', sf_database = ''DB'',
                      sf_default_role = ''role'', sf_schema = ''PUBLIC'', sf_stage = ''STG'',
                      sf_file_format = ''FMT''\<rparr>,
         auth_access_token = ''tok'',
         req_preferences = \<lparr>format = CSV, max_chunk_mb = 200, parallelism = 4,
                            use_identity_for_serial = True, cluster_key_hints = Map.empty,
                            case_style = UPPER, dry_run = True\<rparr>,
         control = \<lparr>ctl_run_id = Some ''run-1'', confirm = True\<rparr>\<rparr>)
       = (Inl e, st)
     \<and> status st = FAILED \<and> status_history st = [ANALYZING, PLANNING, FAILED, FAILED]
     \<and> sf_connects st = 0 \<and> sf_statements st = [] \<and> migration_results st = [])
   \<and> isl (fst (analyze
       \<lparr>w_uuid = ''u'', w_clock = (\<lambda>n. ''t''), w_artifacts_path = ''./artifacts'',
         w_temp_path = ''./temp'',
         w_analyze = Inl (Exception ''connection refused''),
         w_write = (\<lambda>name. None),
         w_sf_connect = None, w_sf = (\<lambda>executed stmt. Inr []),
         w_pg_connect = None, w_pg = (\<lambda>query. [Inr [PgOther ''1'']]), w_validator_connect = None,
         w_validate_table = (\<lambda>schema_nm table_nm. Inr [])\<rparr>
       (MigrationOrchestrator_init
          \<lparr>w_uuid = ''u'', w_clock = (\<lambda>n. ''t''), w_artifacts_path = ''./artifacts'',
         w_temp_path = ''./temp'',
         w_analyze = Inl (Exception ''connection refused''),
         w_write = (\<lambda>name. None),
         w_sf_connect = None, w_sf = (\<lambda>executed stmt. Inr []),
         w_pg_connect = None, w_pg = (\<lambda>query. [Inr [PgOther ''1'']]), w_validator_connect = None,
         w_validate_table = (\<lambda>schema_nm table_nm. Inr [])\<rparr>
          \<lparr>postgres = \<lparr>pg_host = ''db'', pg_port = 5432, pg_database = ''shop'',
                     pg_username = ''app'', pg_password = ''s3cret'', pg_schemas = [''*'']\<rparr>,
         snowflake = \<lparr>sf_account = ''acct'', sf_warehouse = ''wh'', sf_database = ''DB'',
                      sf_default_role = ''role'', sf_schema = ''PUBLIC'', sf_stage = ''STG'',
                      sf_file_format = ''FMT''\<rparr>,
         auth_access_token = ''tok'',
         req_preferences = \<lparr>format = CSV, max_chunk_mb = 200, parallelism = 4,
                            use_identity_for_serial = True, cluster_key_hints = Map.empty,
                            case_style = UPPER, dry_run = True\<rparr>,
         control = \<lparr>ctl_run_id = Some ''run-1'', confirm = True\<rparr>\<rparr>)))
   \<and> (\<exists>e st.
       run_complete
       \<lparr>w_uuid = ''u'', w_clock = (\<lambda>n. ''t''), w_artifacts_path = ''./artifacts'',
         w_temp_path = ''./temp'',
         w_analyze = Inl (Exception ''connection refused''),
         w_write = (\<lambda>name. None),
         w_sf_connect = None, w_sf = (\<lambda>executed stmt. Inr []),
         w_pg_connect = None, w_pg = (\<lambda>query. [Inr [PgOther ''1'']]), w_validator_connect = None,
         w_validate_table = (\<lambda>schema_nm table_nm. Inr [])\<rparr>
       (MigrationOrchestrator_init
          \<lparr>w_uuid = ''u'', w_clock = (\<lambda>n. ''t''), w_artifacts_path = ''./artifacts'',
         w_temp_path = ''./temp'',
         w_analyze = Inl (Exception ''connection refused''),
         w_write = (\<lambda>name. None),
         w_sf_connect = None, w_sf = (\<lambda>executed stmt. Inr []),
         w_pg_connect = None, w_pg = (\<lambda>query. [Inr [PgOther ''1'']]), w_validator_connect = None,
         w_validate_table = (\<lambda>schema_nm table_nm. Inr [])\<rparr>
          \<lparr>postgres = \<lparr>pg_host = ''db'', pg_port = 5432, pg_database = ''shop'',
                     pg_username = ''app'', pg_password = ''s3cret'', pg_schemas = [''*'']\<rparr>,
         snowflake = \<lparr>sf_account = ''acct'', sf_warehouse = ''wh'', sf_database = ''DB'',
                      sf_default_role = ''role'', sf_schema = ''PUBLIC'', sf_stage = ''STG'',
                      sf_file_format = ''FMT''\<rparr>,
         auth_access_token = ''tok'',
         req_preferences = \<lparr>format = CSV, max_chunk_mb = 200, parallelism = 4,
                            use_identity_for_serial = True, cluster_key_hints = Map.empty,
                            case_style = UPPER, dry_run = True\<rparr>,
         control = \<lparr>ctl_run_id = Some ''run-1'', confirm = True\<rparr>\<rparr>)
       = (Inl e, st)
     \<and> status st = FAILED \<and> status_history st = [ANALYZING, FAILED, FAILED]
     \<and> sf_connects st = 0 \<and> sf_statements st = [] \<and> migration_results st = [])"
proof -
  let ?a = "\<lparr>metadata = \<lparr>analysis_timestamp = ''2024-01-01T00:00:00'', database = ''shop''\<rparr>,
           schemas =
             [\<lparr>schema_name = ''s1'',
               tables = [\<lparr>table_name = ''t1'',
                  table_meta = \<lparr>total_size_bytes = Some 8192, approximate_row_count = Some 3,
                                 table_comment = None\<rparr>,
                  columns =
                    [\<lparr>column_name = ''id'', data_type = ''integer'', udt_name = Some ''int4'',
                      character_maximum_length = None, numeric_precision = Some 32,
                      numeric_scale = Some 0, is_nullable = ''NO'', column_default = None,
                      is_identity = ''NO'', identity_start = None, identity_increment = None,
                      column_comment = None, serial_sequence = None\<rparr>],
                  table_constraints = \<lparr>primary_keys = [], unique_keys = [], foreign_keys = []\<rparr>,
                  triggers = []\<rparr>],
               sequences = [], views = [], schema_functions = []\<rparr>]\<rparr>"
  let ?r = "\<lparr>postgres = \<lparr>pg_host = ''db'', pg_port = 5432, pg_database = ''shop'',
                     pg_username = ''app'', pg_password = ''s3cret'', pg_schemas = [''*'']\<rparr>,
         snowflake = \<lparr>sf_account = ''acct'', sf_warehouse = ''wh'', sf_database = ''DB'',
                      sf_default_role = ''role'', sf_schema = ''PUBLIC'', sf_stage = ''STG'',
                      sf_file_format = ''FMT''\<rparr>,
         auth_access_token = ''tok'',
         req_preferences = \<lparr>format = CSV, max_chunk_mb = 200, parallelism = 4,
                            use_identity_for_serial = True, cluster_key_hints = Map.empty,
                            case_style = UPPER, dry_run = True\<rparr>,
         control = \<lparr>ctl_run_id = Some ''run-1'', confirm = True\<rparr>\<rparr>"
  let ?w = "\<lparr>w_uuid = ''u'', w_clock = (\<lambda>n. ''t''), w_artifacts_path = ''./artifacts'',
         w_temp_path = ''./temp'',
         w_analyze = Inr
          \<lparr>metadata = \<lparr>analysis_timestamp = ''2024-01-01T00:00:00'', database = ''shop''\<rparr>,
           schemas =
             [\<lparr>schema_name = ''s1'',
               tables = [\<lparr>table_name = ''t1'',
                  table_meta = \<lparr>total_size_bytes = Some 8192, approximate_row_count = Some 3,
                                 table_comment = None\<rparr>,
                  columns =
                    [\<lparr>column_name = ''id'', data_type = ''integer'', udt_name = Some ''int4'',
                      character_maximum_length = None, numeric_precision = Some 32,
                      numeric_scale = Some 0, is_nullable = ''NO'', column_default = None,
                      is_identity = ''NO'', identity_start = None, identity_increment = None,
                      column_comment = None, serial_sequence = None\<rparr>],
                  table_constraints = \<lparr>primary_keys = [], unique_keys = [], foreign_keys = []\<rparr>,
                  triggers = []\<rparr>],
               sequences = [], views = [], schema_functions = []\<rparr>]\<rparr>,
         w_write = (\<lambda>name. None),
         w_sf_connect = None, w_sf = (\<lambda>executed stmt. Inr []),
         w_pg_connect = None, w_pg = (\<lambda>query. [Inr [PgOther ''1'']]), w_validator_connect = None,
         w_validate_table = (\<lambda>schema_nm table_nm. Inr [])\<rparr>"
  let ?wp = "\<lparr>w_uuid = ''u'', w_clock = (\<lambda>n. ''t''), w_artifacts_path = ''./artifacts'',
         w_temp_path = ''./temp'',
         w_analyze = Inr
          \<lparr>metadata = \<lparr>analysis_timestamp = ''2024-01-01T00:00:00'', database = ''shop''\<rparr>,
           schemas =
             [\<lparr>schema_name = ''s1'',
               tables = [\<lparr>table_name = ''t1'',
                  table_meta = \<lparr>total_size_bytes = Some 8192, approximate_row_count = Some 3,
                                 table_comment = None\<rparr>,
                  columns =
                    [\<lparr>column_name = ''id'', data_type = ''integer'', udt_name = Some ''int4'',
                      character_maximum_length = None, numeric_precision = Some 32,
                      numeric_scale = Some 0, is_nullable = ''NO'', column_default = None,
                      is_identity = ''NO'', identity_start = None, identity_increment = None,
                      column_comment = None, serial_sequence = None\<rparr>],
                  table_constraints = \<lparr>primary_keys = [], unique_keys = [], foreign_keys = []\<rparr>,
                  triggers = []\<rparr>],
               sequences = [], views = [], schema_functions = []\<rparr>]\<rparr>,
         w_write = (\<lambda>name. if name = ''load_plan.yml'' then Some (Exception ''No space left on device'') else None),
         w_sf_connect = None, w_sf = (\<lambda>executed stmt. Inr []),
         w_pg_connect = None, w_pg = (\<lambda>query. [Inr [PgOther ''1'']]), w_validator_connect = None,
         w_validate_table = (\<lambda>schema_nm table_nm. Inr [])\<rparr>"
  let ?wa = "\<lparr>w_uuid = ''u'', w_clock = (\<lambda>n. ''t''), w_artifacts_path = ''./artifacts'',
         w_temp_path = ''./temp'',
         w_analyze = Inl (Exception ''connection refused''),
         w_write = (\<lambda>name. None),
         w_sf_connect = None, w_sf = (\<lambda>executed stmt. Inr []),
         w_pg_connect = None, w_pg = (\<lambda>query. [Inr [PgOther ''1'']]), w_validator_connect = None,
         w_validate_table = (\<lambda>schema_nm table_nm. Inr [])\<rparr>"
  have d: "dry_run (req_preferences ?r)" by simp
  have gen0: "\<exists>ddl g. generate_complete_ddl
        (SnowflakeGenerator_init
          \<lparr>metadata = \<lparr>analysis_timestamp = ''2024-01-01T00:00:00'', database = ''shop''\<rparr>,
           schemas =
             [\<lparr>schema_name = ''s1'',
               tables = [\<lparr>table_name = ''t1'',
                  table_meta = \<lparr>total_size_bytes = Some 8192, approximate_row_count = Some 3,
                                 table_comment = None\<rparr>,
                  columns =
                    [\<lparr>column_name = ''id'', data_type = ''integer'', udt_name = Some ''int4'',
                      character_maximum_length = None, numeric_precision = Some 32,
                      numeric_scale = Some 0, is_nullable = ''NO'', column_default = None,
                      is_identity = ''NO'', identity_start = None, identity_increment = None,
                      column_comment = None, serial_sequence = None\<rparr>],
                  table_constraints = \<lparr>primary_keys = [], unique_keys = [], foreign_keys = []\<rparr>,
                  triggers = []\<rparr>],
               sequences = [], views = [], schema_functions = []\<rparr>]\<rparr>
          \<lparr>format = CSV, max_chunk_mb = 200, parallelism = 4, use_identity_for_serial = True,
           cluster_key_hints = Map.empty, case_style = UPPER, dry_run = True\<rparr>)
        \<lparr>cfg_database = ''DB'', cfg_stage = ''STG'', cfg_file_format = ''FMT''\<rparr> = (Inr ddl, g)"
    by (simp add: generate_complete_ddl_def SnowflakeGenerator_init_def generate_table_ddl_def
        table_ddl_tail_def truthy_str_def Let_def)
  then have gen: "\<exists>ddl g. generate_complete_ddl (SnowflakeGenerator_init ?a (req_preferences ?r))
           \<lparr>cfg_database = sf_database (snowflake ?r), cfg_stage = sf_stage (snowflake ?r),
            cfg_file_format = sf_file_format (snowflake ?r)\<rparr> = (Inr ddl, g)"
    by simp
  have an: "w_analyze ?w = Inr ?a" by simp
  have wr: "\<forall>name \<in> set (plan_artifacts @ [''summary.md'', ''run_log.ndjson'']).
              w_write ?w name = None" by simp
  have ok: "(\<exists>a ddl g. w_analyze ?w = Inr a
            \<and> generate_complete_ddl (SnowflakeGenerator_init a (req_preferences ?r))
                 \<lparr>cfg_database = sf_database (snowflake ?r), cfg_stage = sf_stage (snowflake ?r),
                  cfg_file_format = sf_file_format (snowflake ?r)\<rparr> = (Inr ddl, g))
          \<and> (\<forall>name \<in> set (plan_artifacts @ [''summary.md'', ''run_log.ndjson'']).
                w_write ?w name = None)"
    using an gen wr by blast
  from run_complete_dry_run[OF d, of ?w] ok have p1:
    "\<exists>report st. run_complete ?w (MigrationOrchestrator_init ?w ?r) = (Inr report, st)
     \<and> rr_status report = ''completed'' \<and> status st = COMPLETED
     \<and> status_history st = [ANALYZING, PLANNING, AWAITING_CONFIRMATION, COMPLETED, COMPLETED]
     \<and> sf_connects st = 0 \<and> sf_statements st = [] \<and> migration_results st = []"
    by blast
  have anp: "w_analyze ?wp = Inr ?a" by simp
  have w0p: "w_write ?wp ''analysis_report.json'' = None" by simp
  have na: "\<not> isl (fst (analyze ?wp (MigrationOrchestrator_init ?wp ?r)))"
    unfolding analyze_raises_iff by simp
  have bad: "\<exists>name \<in> set (tl plan_artifacts). w_write ?wp name \<noteq> None"
    by (simp add: plan_artifacts_def)
  have pf: "isl (fst (plan ?wp (snd (analyze ?wp (MigrationOrchestrator_init ?wp ?r)))))"
    unfolding plan_raises_iff[OF anp w0p] using bad by blast
  from run_complete_dry_run[OF d, of ?wp] na pf have p2:
    "\<exists>e st. run_complete ?wp (MigrationOrchestrator_init ?wp ?r) = (Inl e, st)
     \<and> status st = FAILED \<and> status_history st = [ANALYZING, PLANNING, FAILED, FAILED]
     \<and> sf_connects st = 0 \<and> sf_statements st = [] \<and> migration_results st = []"
    by (metis isl_def)
  have af: "isl (fst (analyze ?wa (MigrationOrchestrator_init ?wa ?r)))"
    unfolding analyze_raises_iff by simp
  from run_complete_dry_run[OF d, of ?wa] af have p3:
    "\<exists>e st. run_complete ?wa (MigrationOrchestrator_init ?wa ?r) = (Inl e, st)
     \<and> status st = FAILED \<and> status_history st = [ANALYZING, FAILED, FAILED]
     \<and> sf_connects st = 0 \<and> sf_statements st = [] \<and> migration_results st = []"
    by (metis isl_def)
  show ?thesis using d gen0 p1 pf p2 af p3 by blast
qed

subsection \<open>Orchestrator: cancellation\<close>

text \<open>
  Claim C3. The terminal states are absorbing: once the status is \<open>COMPLETED\<close>, \<open>FAILED\<close>
  or \<open>CANCELLED\<close> it never changes again, also when a cancel is followed by a later phase
  step such as finalize. Evaluated on the code: after analysis and planning, a cancel
  request sets \<open>CANCELLED\<close>, and the \<open>finalize\<close> that the running workflow performs next
  sets \<open>COMPLETED\<close>, since \<open>finalize\<close> assigns the status from the migration results
  alone and \<open>cancel_migration\<close> only assigns the status.
\<close>

theorem cancel_then_finalize_completes:
  "\<exists>st1 arts st2 f st3.
     analyze \<lparr>w_uuid = ''u'', w_clock = (\<lambda>n. ''t''), w_artifacts_path = ''./artifacts'',
         w_temp_path = ''./temp'',
         w_analyze = Inr \<lparr>metadata = \<lparr>analysis_timestamp = ''2024-01-01T00:00:00'', database = ''shop''\<rparr>,
                          schemas = []\<rparr>,
         w_write = (\<lambda>name. None), w_sf_connect = None, w_sf = (\<lambda>executed stmt. Inr []),
         w_pg_connect = None, w_pg = (\<lambda>query. []), w_validator_connect = None,
         w_validate_table = (\<lambda>schema_nm table_nm. Inr [])\<rparr>
       (MigrationOrchestrator_init
          \<lparr>w_uuid = ''u'', w_clock = (\<lambda>n. ''t''), w_artifacts_path = ''./artifacts'',
         w_temp_path = ''./temp'',
         w_analyze = Inr \<lparr>metadata = \<lparr>analysis_timestamp = ''2024-01-01T00:00:00'', database = ''shop''\<rparr>,
                          schemas = []\<rparr>,
         w_write = (\<lambda>name. None), w_sf_connect = None, w_sf = (\<lambda>executed stmt. Inr []),
         w_pg_connect = None, w_pg = (\<lambda>query. []), w_validator_connect = None,
         w_validate_table = (\<lambda>schema_nm table_nm. Inr [])\<rparr>
          \<lparr>postgres = \<lparr>pg_host = ''db'', pg_port = 5432, pg_database = ''shop'',
                     pg_username = ''app'', pg_password = ''s3cret'', pg_schemas = [''*'']\<rparr>,
         snowflake = \<lparr>sf_account = ''acct'', sf_warehouse = ''wh'', sf_database = ''DB'',
                      sf_default_role = ''role'', sf_schema = ''PUBLIC'', sf_stage = ''STG'',
                      sf_file_format = ''FMT''\<rparr>,
         auth_access_token = ''tok'',
         req_preferences = \<lparr>format = CSV, max_chunk_mb = 200, parallelism = 4,
                            use_identity_for_serial = True, cluster_key_hints = Map.empty,
                            case_style = UPPER, dry_run = True\<rparr>,
         control = \<lparr>ctl_run_id = Some ''run-1'', confirm = True\<rparr>\<rparr>)
       = (Inr \<lparr>metadata = \<lparr>analysis_timestamp = ''2024-01-01T00:00:00'', database = ''shop''\<rparr>,
                          schemas = []\<rparr>, st1)
   \<and> plan \<lparr>w_uuid = ''u'', w_clock = (\<lambda>n. ''t''), w_artifacts_path = ''./artifacts'',
         w_temp_path = ''./temp'',
         w_analyze = Inr \<lparr>metadata = \<lparr>analysis_timestamp = ''2024-01-01T00:00:00'', database = ''shop''\<rparr>,
                          schemas = []\<rparr>,
         w_write = (\<lambda>name. None), w_sf_connect = None, w_sf = (\<lambda>executed stmt. Inr []),
         w_pg_connect = None, w_pg = (\<lambda>query. []), w_validator_connect = None,
         w_validate_table = (\<lambda>schema_nm table_nm. Inr [])\<rparr> st1 = (Inr arts, st2)
   \<and> status (cancel_migration \<lparr>w_uuid = ''u'', w_clock = (\<lambda>n. ''t''), w_artifacts_path = ''./artifacts'',
         w_temp_path = ''./temp'',
         w_analyze = Inr \<lparr>metadata = \<lparr>analysis_timestamp = ''2024-01-01T00:00:00'', database = ''shop''\<rparr>,
                          schemas = []\<rparr>,
         w_write = (\<lambda>name. None), w_sf_connect = None, w_sf = (\<lambda>executed stmt. Inr []),
         w_pg_connect = None, w_pg = (\<lambda>query. []), w_validator_connect = None,
         w_validate_table = (\<lambda>schema_nm table_nm. Inr [])\<rparr> st2) = CANCELLED
   \<and> finalize \<lparr>w_uuid = ''u'', w_clock = (\<lambda>n. ''t''), w_artifacts_path = ''./artifacts'',
         w_temp_path = ''./temp'',
         w_analyze = Inr \<lparr>metadata = \<lparr>analysis_timestamp = ''2024-01-01T00:00:00'', database = ''shop''\<rparr>,
                          schemas = []\<rparr>,
         w_write = (\<lambda>name. None), w_sf_connect = None, w_sf = (\<lambda>executed stmt. Inr []),
         w_pg_connect = None, w_pg = (\<lambda>query. []), w_validator_connect = None,
         w_validate_table = (\<lambda>schema_nm table_nm. Inr [])\<rparr>
        (cancel_migration \<lparr>w_uuid = ''u'', w_clock = (\<lambda>n. ''t''), w_artifacts_path = ''./artifacts'',
         w_temp_path = ''./temp'',
         w_analyze = Inr \<lparr>metadata = \<lparr>analysis_timestamp = ''2024-01-01T00:00:00'', database = ''shop''\<rparr>,
                          schemas = []\<rparr>,
         w_write = (\<lambda>name. None), w_sf_connect = None, w_sf = (\<lambda>executed stmt. Inr []),
         w_pg_connect = None, w_pg = (\<lambda>query. []), w_validator_connect = None,
         w_validate_table = (\<lambda>schema_nm table_nm. Inr [])\<rparr> st2) = (Inr f, st3)
   \<and> status st3 = COMPLETED
   \<and> status_history st3 = [ANALYZING, PLANNING, AWAITING_CONFIRMATION, CANCELLED, COMPLETED]"
proof -
  let ?w = "\<lparr>w_uuid = ''u'', w_clock = (\<lambda>n. ''t''), w_artifacts_path = ''./artifacts'',
         w_temp_path = ''./temp'',
         w_analyze = Inr \<lparr>metadata = \<lparr>analysis_timestamp = ''2024-01-01T00:00:00'', database = ''shop''\<rparr>,
                          schemas = []\<rparr>,
         w_write = (\<lambda>name. None), w_sf_connect = None, w_sf = (\<lambda>executed stmt. Inr []),
         w_pg_connect = None, w_pg = (\<lambda>query. []), w_validator_connect = None,
         w_validate_table = (\<lambda>schema_nm table_nm. Inr [])\<rparr>"
  let ?r = "\<lparr>postgres = \<lparr>pg_host = ''db'', pg_port = 5432, pg_database = ''shop'',
                     pg_username = ''app'', pg_password = ''s3cret'', pg_schemas = [''*'']\<rparr>,
         snowflake = \<lparr>sf_account = ''acct'', sf_warehouse = ''wh'', sf_database = ''DB'',
                      sf_default_role = ''role'', sf_schema = ''PUBLIC'', sf_stage = ''STG'',
                      sf_file_format = ''FMT''\<rparr>,
         auth_access_token = ''tok'',
         req_preferences = \<lparr>format = CSV, max_chunk_mb = 200, parallelism = 4,
                            use_identity_for_serial = True, cluster_key_hints = Map.empty,
                            case_style = UPPER, dry_run = True\<rparr>,
         control = \<lparr>ctl_run_id = Some ''run-1'', confirm = True\<rparr>\<rparr>"
  let ?a = "\<lparr>metadata = \<lparr>analysis_timestamp = ''2024-01-01T00:00:00'', database = ''shop''\<rparr>,
                          schemas = []\<rparr>"
  let ?st0 = "MigrationOrchestrator_init ?w ?r"
  have an: "w_analyze ?w = Inr ?a" by simp
  have wr: "\<forall>name. w_write ?w name = None" by simp
  have s: "schemas ?a = []" by simp
  from analyze_ok[OF an wr[rule_format], of ?st0] obtain st1 where
    a1: "analyze ?w ?st0 = (Inr ?a, st1)"
    and r1: "request st1 = ?r" and s1: "status_history st1 = [ANALYZING]"
    and ar1: "analysis_results st1 = Some ?a" and m1: "migration_results st1 = []"
    by auto
  from generate_complete_ddl_no_schema[OF s, of "req_preferences (request st1)"
      "\<lparr>cfg_database = sf_database (snowflake (request st1)),
        cfg_stage = sf_stage (snowflake (request st1)),
        cfg_file_format = sf_file_format (snowflake (request st1))\<rparr>"]
  obtain ddl where
    gen: "generate_complete_ddl (SnowflakeGenerator_init ?a (req_preferences (request st1)))
           \<lparr>cfg_database = sf_database (snowflake (request st1)),
            cfg_stage = sf_stage (snowflake (request st1)),
            cfg_file_format = sf_file_format (snowflake (request st1))\<rparr>
          = (Inr ddl, SnowflakeGenerator_init ?a (req_preferences (request st1)))" by blast
  from plan_ok[OF ar1 gen wr] obtain st2 where
    a2: "plan ?w st1 = (Inr plan_artifacts, st2)"
    and s2: "status_history st2 = [ANALYZING, PLANNING, AWAITING_CONFIRMATION]"
    and ar2: "analysis_results st2 = Some ?a" and m2: "migration_results st2 = []"
    using s1 m1 by auto
  have nf: "filter (\<lambda>r. tr_status r = ''failed'') (migration_results st2) = []"
    using m2 by simp
  from finalize_after_cancel[OF ar2 nf wr[rule_format] wr[rule_format]] obtain f st3 where
    a3: "finalize ?w (cancel_migration ?w st2) = (Inr f, st3)"
    and c3: "status st3 = COMPLETED"
    and h3: "status_history st3 = [ANALYZING, PLANNING, AWAITING_CONFIRMATION, CANCELLED, COMPLETED]"
    using s2 by auto
  show ?thesis using a1 a2 a3 c3 h3 by (intro exI[of _ st1] exI[of _ plan_artifacts] exI[of _ st2] exI[of _ f] exI[of _ st3]) simp
qed

subsection \<open>Orchestrator: the persisted log is not redacted\<close>

text \<open>
  Claim C5. Every log event persisted to \<open>run_log.ndjson\<close> has passed through the redactor,
  so the source password does not occur in the persisted record. Evaluated on the code, for
  a run whose analysis raises an exception whose text holds \<open>password=s3cret\<close>:
  \<open>save_log\<close> writes the entries of \<open>log_entries\<close> as \<open>log\<close> stored them, and the
  second and third line of the file contain the password \<open>s3cret\<close> of the request; the
  same message on the structured logger, which runs \<open>add_redaction\<close>, has it masked.
  Lemma \<open>dumps_entry_keeps_secret\<close> is the general fact: a text of plain characters that
  occurs in an entry's message occurs in its persisted line.
\<close>

theorem run_log_keeps_password:
  "\<exists>st.
     run_complete
       \<lparr>w_uuid = ''u'', w_clock = (\<lambda>n. ''t''), w_artifacts_path = ''./artifacts'',
         w_temp_path = ''./temp'',
         w_analyze = Inl (Exception ''bad dsn password=s3cret''),
         w_write = (\<lambda>name. None), w_sf_connect = None, w_sf = (\<lambda>executed stmt. Inr []),
         w_pg_connect = None, w_pg = (\<lambda>query. []), w_validator_connect = None,
         w_validate_table = (\<lambda>schema_nm table_nm. Inr [])\<rparr>
       (MigrationOrchestrator_init
          \<lparr>w_uuid = ''u'', w_clock = (\<lambda>n. ''t''), w_artifacts_path = ''./artifacts'',
         w_temp_path = ''./temp'',
         w_analyze = Inl (Exception ''bad dsn password=s3cret''),
         w_write = (\<lambda>name. None), w_sf_connect = None, w_sf = (\<lambda>executed stmt. Inr []),
         w_pg_connect = None, w_pg = (\<lambda>query. []), w_validator_connect = None,
         w_validate_table = (\<lambda>schema_nm table_nm. Inr [])\<rparr>
          \<lparr>postgres = \<lparr>pg_host = ''db'', pg_port = 5432, pg_database = ''shop'',
                     pg_username = ''app'', pg_password = ''s3cret'', pg_schemas = [''*'']\<rparr>,
         snowflake = \<lparr>sf_account = ''acct'', sf_warehouse = ''wh'', sf_database = ''DB'',
                      sf_default_role = ''role'', sf_schema = ''PUBLIC'', sf_stage = ''STG'',
                      sf_file_format = ''FMT''\<rparr>,
         auth_access_token = ''tok'',
         req_preferences = \<lparr>format = CSV, max_chunk_mb = 200, parallelism = 4,
                            use_identity_for_serial = True, cluster_key_hints = Map.empty,
                            case_style = UPPER, dry_run = True\<rparr>,
         control = \<lparr>ctl_run_id = Some ''run-1'', confirm = True\<rparr>\<rparr>)
       = (Inl (Exception ''bad dsn password=s3cret''), st)
   \<and> pg_password (postgres (request st)) = ''s3cret''
   \<and> map message (log_entries st) =
       [''Starting PostgreSQL analysis'', ''Analysis failed: bad dsn password=s3cret'',
        ''Migration failed: bad dsn password=s3cret'']
   \<and> run_log st = Some (map dumps_entry (log_entries st))
   \<and> py_in ''s3cret'' (dumps_entry (log_entries st ! 1))
   \<and> py_in ''s3cret'' (dumps_entry (log_entries st ! 2))
   \<and> console st ! 1 = [(''event'', JStr ''Analysis failed: bad dsn password=***REDACTED***'')]"
proof -
  let ?w1 = "\<lparr>w_uuid = ''u'', w_clock = (\<lambda>n. ''t''), w_artifacts_path = ''./artifacts'',
         w_temp_path = ''./temp'',
         w_analyze = Inl (Exception ''bad dsn password=s3cret''),
         w_write = (\<lambda>name. None), w_sf_connect = None, w_sf = (\<lambda>executed stmt. Inr []),
         w_pg_connect = None, w_pg = (\<lambda>query. []), w_validator_connect = None,
         w_validate_table = (\<lambda>schema_nm table_nm. Inr [])\<rparr>"
  let ?r = "\<lparr>postgres = \<lparr>pg_host = ''db'', pg_port = 5432, pg_database = ''shop'',
                     pg_username = ''app'', pg_password = ''s3cret'', pg_schemas = [''*'']\<rparr>,
         snowflake = \<lparr>sf_account = ''acct'', sf_warehouse = ''wh'', sf_database = ''DB'',
                      sf_default_role = ''role'', sf_schema = ''PUBLIC'', sf_stage = ''STG'',
                      sf_file_format = ''FMT''\<rparr>,
         auth_access_token = ''tok'',
         req_preferences = \<lparr>format = CSV, max_chunk_mb = 200, parallelism = 4,
                            use_identity_for_serial = True, cluster_key_hints = Map.empty,
                            case_style = UPPER, dry_run = True\<rparr>,
         control = \<lparr>ctl_run_id = Some ''run-1'', confirm = True\<rparr>\<rparr>"
  have f: "w_analyze ?w1 = Inl (Exception ''bad dsn password=s3cret'')" by simp
  have wl: "w_write ?w1 ''run_log.ndjson'' = None" by simp
  from run_complete_analysis_failure[OF f wl, of ?r] obtain st where
    run: "run_complete ?w1 (MigrationOrchestrator_init ?w1 ?r)
            = (Inl (Exception ''bad dsn password=s3cret''), st)"
    and req: "request st = ?r"
    and entries: "log_entries st =
         [\<lparr>ts = w_clock ?w1 0, le_run_id = run_id (MigrationOrchestrator_init ?w1 ?r),
           level = ''INFO'', category = ''analyze'', message = ''Starting PostgreSQL analysis'',
           kwargs = []\<rparr>,
          \<lparr>ts = w_clock ?w1 1, le_run_id = run_id (MigrationOrchestrator_init ?w1 ?r),
           level = ''ERROR'', category = ''analyze'',
           message = ''Analysis failed: '' @ exn_str (Exception ''bad dsn password=s3cret''),
           kwargs = []\<rparr>,
          \<lparr>ts = w_clock ?w1 2, le_run_id = run_id (MigrationOrchestrator_init ?w1 ?r),
           level = ''ERROR'', category = ''migration'',
           message = ''Migration failed: '' @ exn_str (Exception ''bad dsn password=s3cret''),
           kwargs = []\<rparr>]"
    and rl: "run_log st = Some (map dumps_entry (log_entries st))"
    and con: "console st =
         [add_redaction [(''event'', JStr ''Starting PostgreSQL analysis'')],
          add_redaction [(''event'', JStr (''Analysis failed: ''
             @ exn_str (Exception ''bad dsn password=s3cret'')))],
          add_redaction [(''event'', JStr (''Migration failed: ''
             @ exn_str (Exception ''bad dsn password=s3cret'')))]]"
    by blast
  have pw: "pg_password (postgres (request st)) = ''s3cret''" unfolding req by simp
  have msgs: "map message (log_entries st) =
       [''Starting PostgreSQL analysis'', ''Analysis failed: bad dsn password=s3cret'',
        ''Migration failed: bad dsn password=s3cret'']"
    unfolding entries by (simp add: exn_str_def)
  have m1: "message (log_entries st ! 1) = ''Analysis failed: bad dsn password='' @ ''s3cret'' @ []"
    unfolding entries by (simp add: exn_str_def)
  have m2: "message (log_entries st ! 2) = ''Migration failed: bad dsn password='' @ ''s3cret'' @ []"
    unfolding entries by (simp add: exn_str_def)
  have k1: "py_in ''s3cret'' (dumps_entry (log_entries st ! 1))"
    by (rule dumps_entry_keeps_secret[OF m1 secret_plain])
  have k2: "py_in ''s3cret'' (dumps_entry (log_entries st ! 2))"
    by (rule dumps_entry_keeps_secret[OF m2 secret_plain])
  have c1: "console st ! 1 = [(''event'', JStr ''Analysis failed: bad dsn password=***REDACTED***'')]"
    unfolding con by (simp add: add_redaction_def exn_str_def redact_analysis_message)
  show ?thesis
    using run pw msgs rl k1 k2 c1 by (intro exI[of _ st]) (simp only: simp_thms)
qed

end
